theory Spec2Isabelle
  imports Main
begin

section \<open>JavaScript strings\<close>

text \<open>
  A JavaScript string is modelled as a \<^typ>\<open>string\<close>, one \<^typ>\<open>char\<close> per code unit
  (code units below 256 only).
\<close>

definition startsWith :: "string \<Rightarrow> string \<Rightarrow> bool" where
  "startsWith s p = (take (length p) s = p)"

definition endsWith :: "string \<Rightarrow> string \<Rightarrow> bool" where
  "endsWith s p = (length p \<le> length s \<and> drop (length s - length p) s = p)"

definition lowerChar :: "char \<Rightarrow> char" where
  "lowerChar c =
     (let n = (of_char c :: nat)
      in if 65 \<le> n \<and> n \<le> 90 then char_of (n + 32) else c)"

definition toLowerCase :: "string \<Rightarrow> string" where
  "toLowerCase s = map lowerChar s"

definition isDigit :: "char \<Rightarrow> bool" where
  "isDigit c = (let n = (of_char c :: nat) in 48 \<le> n \<and> n \<le> 57)"

text \<open>The line terminators that the regular-expression atom \<open>.\<close> refuses.\<close>

definition isLineTerminator :: "char \<Rightarrow> bool" where
  "isLineTerminator c = (c = CHR 0x0A \<or> c = CHR 0x0D)"

section \<open>JavaScript values\<close>

text \<open>
  The values a configuration object is built from. Numbers are the integers; the one
  non-integer literal of the source (\<open>0.8\<close>) is \<open>JDecimal 8 1\<close>, mantissa and decimal
  exponent. An object is an association list in insertion order with distinct keys.
  Functions, regular expressions and class instances are opaque, named by a label.
\<close>

datatype json =
    JUndefined
  | JNull
  | JBool bool
  | JNum int
  | JDecimal int nat
  | JStr string
  | JArr "json list"
  | JObj "(string \<times> json) list"
  | JRegExp string
  | JFunction string
  | JOpaque string

type_synonym props = "(string \<times> json) list"

text \<open>
  An error value of the model: the exceptions the code can throw, and \<open>Unmodelled\<close> where
  the code goes on with a value this model has no term for (named properties on an array
  or a function, the own properties of a class instance).
\<close>

datatype js_error =
    TypeError string
  | SyntaxError string
  | NetworkError string
  | HookError string
  | Unmodelled string

definition ebind :: "js_error + 'a \<Rightarrow> ('a \<Rightarrow> js_error + 'b) \<Rightarrow> js_error + 'b" where
  "ebind m f = (case m of Inl e \<Rightarrow> Inl e | Inr a \<Rightarrow> f a)"

fun mapE :: "('a \<Rightarrow> js_error + 'b) \<Rightarrow> 'a list \<Rightarrow> js_error + 'b list" where
  "mapE f [] = Inr []"
| "mapE f (x # xs) =
     (case f x of
        Inl e \<Rightarrow> Inl e
      | Inr y \<Rightarrow> (case mapE f xs of Inl e \<Rightarrow> Inl e | Inr ys \<Rightarrow> Inr (y # ys)))"

definition truthy :: "json \<Rightarrow> bool" where
  "truthy v =
     (case v of
        JUndefined \<Rightarrow> False
      | JNull \<Rightarrow> False
      | JBool b \<Rightarrow> b
      | JNum n \<Rightarrow> n \<noteq> 0
      | JDecimal m e \<Rightarrow> m \<noteq> 0
      | JStr s \<Rightarrow> s \<noteq> []
      | _ \<Rightarrow> True)"

text \<open>\<^verbatim>\<open>Object(v) === v\<close>: the value is an object, not a primitive.\<close>

definition isObject :: "json \<Rightarrow> bool" where
  "isObject v =
     (case v of
        JArr _ \<Rightarrow> True | JObj _ \<Rightarrow> True | JRegExp _ \<Rightarrow> True
      | JFunction _ \<Rightarrow> True | JOpaque _ \<Rightarrow> True | _ \<Rightarrow> False)"

definition isString :: "json \<Rightarrow> bool" where
  "isString v = (case v of JStr _ \<Rightarrow> True | _ \<Rightarrow> False)"

definition isFunction :: "json \<Rightarrow> bool" where
  "isFunction v = (case v of JFunction _ \<Rightarrow> True | _ \<Rightarrow> False)"

text \<open>
  \<^verbatim>\<open>===\<close>. Two primitives are equal when type and value are; two objects are equal when
  they are one object, which a value cannot tell: distinct positions of a configuration
  hold distinct objects, so the model answers \<open>False\<close>, and the operations that compare
  an element with itself say so where they do.
\<close>

definition strictEq :: "json \<Rightarrow> json \<Rightarrow> bool" where
  "strictEq a b = (\<not> isObject a \<and> a = b)"

function showNat :: "nat \<Rightarrow> string" where
  "showNat n =
     (if n < 10 then [char_of (48 + n)]
      else showNat (n div 10) @ [char_of (48 + n mod 10)])"
  by pat_completeness auto
termination
  by (relation "measure id") auto

definition showInt :: "int \<Rightarrow> string" where
  "showInt i = (if i < 0 then ''-'' @ showNat (nat (- i)) else showNat (nat i))"

fun joinWith :: "string \<Rightarrow> string list \<Rightarrow> string" where
  "joinWith sep [] = []"
| "joinWith sep [x] = x"
| "joinWith sep (x # y # ys) = x @ sep @ joinWith sep (y # ys)"

text \<open>
  String conversion, as a template literal and \<^verbatim>\<open>Array.prototype.join\<close> do it. The text
  of a function or of a class instance is not known to the model: its label stands for it.
\<close>

fun toStr :: "json \<Rightarrow> string" where
  "toStr JUndefined = ''undefined''"
| "toStr JNull = ''null''"
| "toStr (JBool b) = (if b then ''true'' else ''false'')"
| "toStr (JNum n) = showInt n"
| "toStr (JDecimal m e) = showInt m @ ''e-'' @ showNat e"
| "toStr (JStr s) = s"
| "toStr (JArr xs) =
     joinWith '','' (map (\<lambda>x. if x = JUndefined \<or> x = JNull then [] else toStr x) xs)"
| "toStr (JObj kv) = ''[object Object]''"
| "toStr (JRegExp r) = ''/'' @ r @ ''/''"
| "toStr (JFunction f) = f"
| "toStr (JOpaque l) = l"

definition arrJoin :: "string \<Rightarrow> json list \<Rightarrow> string" where
  "arrJoin sep xs =
     joinWith sep (map (\<lambda>x. if x = JUndefined \<or> x = JNull then [] else toStr x) xs)"

subsection \<open>Properties\<close>

definition lookup :: "props \<Rightarrow> string \<Rightarrow> json" where
  "lookup kv k = (case map_of kv k of None \<Rightarrow> JUndefined | Some v \<Rightarrow> v)"

text \<open>\<^verbatim>\<open>obj[k] = v\<close> on a plain object: an existing key keeps its place, a new one goes last.\<close>

fun assign :: "props \<Rightarrow> string \<Rightarrow> json \<Rightarrow> props" where
  "assign [] k v = [(k, v)]"
| "assign ((k', v') # kv) k v =
     (if k' = k then (k, v) # kv else (k', v') # assign kv k v)"

definition deleteKey :: "props \<Rightarrow> string \<Rightarrow> props" where
  "deleteKey kv k = filter (\<lambda>(k', _). k' \<noteq> k) kv"

text \<open>\<^verbatim>\<open>Object.assign(target, source)\<close> and the spread \<^verbatim>\<open>{ ...a, ...b }\<close> on plain objects.\<close>

definition assignAll :: "props \<Rightarrow> props \<Rightarrow> props" where
  "assignAll target source = foldl (\<lambda>t (k, v). assign t k v) target source"

text \<open>
  Reading \<^verbatim>\<open>v.k\<close>. It throws on \<^verbatim>\<open>undefined\<close> and \<^verbatim>\<open>null\<close>; \<^verbatim>\<open>length\<close> is the
  one built-in property the code reads.
\<close>

definition getp :: "json \<Rightarrow> string \<Rightarrow> js_error + json" where
  "getp v k =
     (case v of
        JUndefined \<Rightarrow> Inl (TypeError (''Cannot read properties of undefined: '' @ k))
      | JNull \<Rightarrow> Inl (TypeError (''Cannot read properties of null: '' @ k))
      | JObj kv \<Rightarrow> Inr (lookup kv k)
      | JArr xs \<Rightarrow> Inr (if k = ''length'' then JNum (int (length xs)) else JUndefined)
      | JStr s \<Rightarrow> Inr (if k = ''length'' then JNum (int (length s)) else JUndefined)
      | JBool _ \<Rightarrow> Inr JUndefined
      | JNum _ \<Rightarrow> Inr JUndefined
      | JDecimal _ _ \<Rightarrow> Inr JUndefined
      | JRegExp _ \<Rightarrow> Inl (Unmodelled (''property of a regular expression: '' @ k))
      | JFunction _ \<Rightarrow> Inl (Unmodelled (''property of a function: '' @ k))
      | JOpaque _ \<Rightarrow> Inl (Unmodelled (''property of a class instance: '' @ k)))"

text \<open>
  Writing \<^verbatim>\<open>v.k = x\<close> in strict mode (a class body is strict): it throws on
  \<^verbatim>\<open>undefined\<close>, \<^verbatim>\<open>null\<close> and on a primitive.
\<close>

definition setp :: "json \<Rightarrow> string \<Rightarrow> json \<Rightarrow> js_error + json" where
  "setp v k x =
     (case v of
        JObj kv \<Rightarrow> Inr (JObj (assign kv k x))
      | JUndefined \<Rightarrow> Inl (TypeError (''Cannot set properties of undefined: '' @ k))
      | JNull \<Rightarrow> Inl (TypeError (''Cannot set properties of null: '' @ k))
      | JBool _ \<Rightarrow> Inl (TypeError (''Cannot create property on boolean: '' @ k))
      | JNum _ \<Rightarrow> Inl (TypeError (''Cannot create property on number: '' @ k))
      | JDecimal _ _ \<Rightarrow> Inl (TypeError (''Cannot create property on number: '' @ k))
      | JStr _ \<Rightarrow> Inl (TypeError (''Cannot create property on string: '' @ k))
      | _ \<Rightarrow> Inl (Unmodelled (''named property written on an array, function or instance: '' @ k)))"

text \<open>\<^verbatim>\<open>delete v.k\<close>.\<close>

definition delp :: "json \<Rightarrow> string \<Rightarrow> js_error + json" where
  "delp v k =
     (case v of
        JObj kv \<Rightarrow> Inr (JObj (deleteKey kv k))
      | JUndefined \<Rightarrow> Inl (TypeError (''Cannot convert undefined to object: '' @ k))
      | JNull \<Rightarrow> Inl (TypeError (''Cannot convert null to object: '' @ k))
      | _ \<Rightarrow> Inr v)"

text \<open>Reading and writing along a path: \<^verbatim>\<open>cfg.a.b\<close> and \<^verbatim>\<open>cfg.a.b = x\<close>.\<close>

fun getPath :: "json \<Rightarrow> string list \<Rightarrow> js_error + json" where
  "getPath v [] = Inr v"
| "getPath v (k # ks) = ebind (getp v k) (\<lambda>c. getPath c ks)"

fun setPath :: "json \<Rightarrow> string list \<Rightarrow> json \<Rightarrow> js_error + json" where
  "setPath v [] x = Inr x"
| "setPath v [k] x = setp v k x"
| "setPath v (k # ks) x =
     ebind (getp v k) (\<lambda>c. ebind (setPath c ks x) (\<lambda>c'. setp v k c'))"

fun delPath :: "json \<Rightarrow> string list \<Rightarrow> js_error + json" where
  "delPath v [] = Inr v"
| "delPath v [k] = delp v k"
| "delPath v (k # ks) =
     ebind (getp v k) (\<lambda>c. ebind (delPath c ks) (\<lambda>c'. setp v k c'))"

subsection \<open>Arrays\<close>

text \<open>
  \<^verbatim>\<open>xs.indexOf(v)\<close> for the element \<open>v\<close> that sits at position \<open>i\<close> of \<open>xs\<close>: the first
  earlier position holding a strictly equal value, else \<open>i\<close> itself.
\<close>

definition indexOfElem :: "json list \<Rightarrow> json \<Rightarrow> nat \<Rightarrow> nat" where
  "indexOfElem xs v i =
     (case find (\<lambda>j. strictEq (xs ! j) v) [0..<min i (length xs)] of
        Some j \<Rightarrow> j
      | None \<Rightarrow> i)"

text \<open>\<^verbatim>\<open>xs.filter((value, index, self) => ...)\<close>.\<close>

definition filterIdx :: "('a \<Rightarrow> nat \<Rightarrow> 'a list \<Rightarrow> bool) \<Rightarrow> 'a list \<Rightarrow> 'a list" where
  "filterIdx f xs = map fst (filter (\<lambda>(v, i). f v i xs) (zip xs [0..<length xs]))"

text \<open>
  \<^verbatim>\<open>Array.from(new Set(xs))\<close> on the elements: first occurrences, under the equality of
  \<^const>\<open>strictEq\<close>.
\<close>

fun uniq :: "json list \<Rightarrow> json list" where
  "uniq [] = []"
| "uniq (x # xs) = x # uniq (filter (\<lambda>y. \<not> strictEq x y) xs)"

section \<open>Public path and router base\<close>

text \<open>\<^verbatim>\<open>const urlRegex = /^http(s)?:\/\//i\<close>, used through \<^verbatim>\<open>urlRegex.test\<close>.\<close>

definition urlRegex_test :: "string \<Rightarrow> bool" where
  "urlRegex_test s =
     (let l = toLowerCase s
      in startsWith l ''http://'' \<or> startsWith l ''https://'')"

text \<open>
  \<^verbatim>\<open>formatPublicPath\<close> (source lines 59-77). The argument is a string at both call sites
  that reach the body with a truthy value; the only falsy string is the empty one.
\<close>

definition formatPublicPath :: "string \<Rightarrow> string" where
  "formatPublicPath publicPath =
     (if publicPath = [] then ''/''
      else
        let publicPath1 =
              (if \<not> endsWith publicPath ''/'' then publicPath @ ''/'' else publicPath)
        in if urlRegex_test publicPath1 then publicPath1
           else if \<not> startsWith publicPath1 ''/'' then ''/'' @ publicPath1
           else publicPath1)"

text \<open>
  The match of source line 84,
  \<^verbatim>\<open>/^(https?\:)\/\/(([^:\/?#]*)(?:\:([0-9]+))?)([\/]{0,1}[^?#]*)(\?[^#]*|)(#.*|)$/\<close>,
  read off group by group. Every quantifier is greedy, and what follows group 5 can only
  start at a \<open>?\<close>, at a \<open>#\<close> or at the end, so group 5 always runs to the first \<open>?\<close> or
  \<open>#\<close> whatever the earlier groups took; whether the whole expression matches therefore
  depends only on the scheme and on the fragment holding no line terminator, and the
  greedy choice for host and port is the one the engine reports. The result is group 5,
  or \<open>None\<close> where \<^verbatim>\<open>match\<close> returns \<^verbatim>\<open>null\<close>.
\<close>

definition routerBaseGroup5 :: "string \<Rightarrow> string option" where
  "routerBaseGroup5 s =
     (let afterScheme =
            (if startsWith s ''https://'' then Some (drop 8 s)
             else if startsWith s ''http://'' then Some (drop 7 s)
             else None)
      in case afterScheme of
           None \<Rightarrow> None
         | Some r \<Rightarrow>
             let r1 = dropWhile (\<lambda>c. c \<notin> set '':/?#'') r;
                 r2 = (case r1 of
                         c # cs \<Rightarrow>
                           if c = CHR '':'' \<and> takeWhile isDigit cs \<noteq> []
                           then dropWhile isDigit cs else r1
                       | [] \<Rightarrow> r1);
                 g5 = takeWhile (\<lambda>c. c \<notin> set ''?#'') r2;
                 r3 = dropWhile (\<lambda>c. c \<notin> set ''?#'') r2;
                 r4 = (case r3 of
                         c # cs \<Rightarrow>
                           if c = CHR ''?'' then dropWhile (\<lambda>d. d \<noteq> CHR ''#'') cs else r3
                       | [] \<Rightarrow> r3)
             in case r4 of
                  [] \<Rightarrow> Some g5
                | c # cs \<Rightarrow>
                    if c = CHR ''#'' \<and> \<not> (\<exists>d \<in> set cs. isLineTerminator d)
                    then Some g5 else None)"

text \<open>
  \<^verbatim>\<open>formatRouterBase\<close> (source lines 79-86). Indexing the \<^verbatim>\<open>null\<close> of a failed match
  throws a TypeError.
\<close>

definition formatRouterBase :: "string \<Rightarrow> js_error + string" where
  "formatRouterBase publicPath =
     (if publicPath = [] \<or> \<not> startsWith publicPath ''http'' then Inr publicPath
      else case routerBaseGroup5 publicPath of
             None \<Rightarrow> Inl (TypeError ''Cannot read properties of null'')
           | Some g5 \<Rightarrow> Inr (formatPublicPath g5))"

section \<open>Deep merge\<close>

text \<open>
  \<^verbatim>\<open>merge\<close> of the package \<^verbatim>\<open>webpack-merge\<close>, which is not part of this repository, written
  after its documented behaviour: two arrays are concatenated, two plain objects are merged
  key by key, two functions are composed, and otherwise the right value wins unless it is
  \<^verbatim>\<open>undefined\<close>. The keys of the result are those of the left object, then the new ones
  of the right.
\<close>

definition mergedKeys :: "props \<Rightarrow> props \<Rightarrow> string list" where
  "mergedKeys a b = map fst a @ filter (\<lambda>k. k \<notin> set (map fst a)) (map fst b)"

lemma size_lookup: "size (lookup a k) < Suc (size_list (size_prod (\<lambda>x. 0) size) a)"
proof (induction a)
  case Nil
  show ?case by (simp add: lookup_def)
next
  case (Cons p a)
  then show ?case by (cases p) (auto simp: lookup_def split: option.splits)
qed

function joinValues :: "json \<Rightarrow> json \<Rightarrow> json" where
  "joinValues x y =
     (case (x, y) of
        (JFunction f, JFunction g) \<Rightarrow> JFunction (f @ ''+'' @ g)
      | (JArr xs, JArr ys) \<Rightarrow> JArr (xs @ ys)
      | (_, JRegExp r) \<Rightarrow> JRegExp r
      | (JObj a, JObj b) \<Rightarrow>
          JObj (map (\<lambda>k. (k, let v = joinValues (lookup a k) (lookup b k)
                             in if v = JUndefined then lookup a k else v))
                    (mergedKeys a b))
      | _ \<Rightarrow> y)"
  by pat_completeness auto
termination
  apply (relation "measure (\<lambda>(x, y). size x + size y)")
   apply simp
  apply clarsimp
  subgoal for a b k
    using size_lookup [of a k] size_lookup [of b k] by simp
  done

declare joinValues.simps [simp del]

definition mergeTo :: "props \<Rightarrow> props \<Rightarrow> props" where
  "mergeTo a b =
     map (\<lambda>k. (k, let v = joinValues (lookup a k) (lookup b k)
                  in if v = JUndefined then lookup a k else v))
         (mergedKeys a b)"

text \<open>
  One more configuration merged into the result so far. \<^verbatim>\<open>Object.keys(null)\<close> throws; a
  right operand that is an object without being a plain one is outside the model.
\<close>

definition mergeStep :: "js_error + props \<Rightarrow> json \<Rightarrow> js_error + props" where
  "mergeStep acc b =
     (case acc of
        Inl e \<Rightarrow> Inl e
      | Inr a \<Rightarrow>
          (case b of
             JObj kv \<Rightarrow> Inr (mergeTo a kv)
           | JNull \<Rightarrow> Inl (TypeError ''Cannot convert undefined or null to object'')
           | JBool _ \<Rightarrow> Inr (mergeTo a [])
           | JNum _ \<Rightarrow> Inr (mergeTo a [])
           | JDecimal _ _ \<Rightarrow> Inr (mergeTo a [])
           | _ \<Rightarrow> Inl (Unmodelled ''merge of an object that is not a plain object'')))"

text \<open>
  \<^verbatim>\<open>merge(first, ...rest)\<close>. At every call site of the source \<open>first\<close> is an object literal
  and \<open>rest\<close> is not empty.
\<close>

definition mergeAll :: "props \<Rightarrow> json list \<Rightarrow> js_error + props" where
  "mergeAll first rest =
     (if JUndefined \<in> set rest then Inl (TypeError ''Merging undefined is not supported'')
      else if truthy (lookup first ''then'') then Inl (TypeError ''Promises are not supported'')
      else foldl mergeStep (Inr first) rest)"

definition merge :: "props \<Rightarrow> json list \<Rightarrow> js_error + json" where
  "merge first rest = ebind (mergeAll first rest) (\<lambda>r. Inr (JObj r))"

section \<open>Asset lists\<close>

text \<open>
  The own enumerable properties that a spread \<^verbatim>\<open>{ ...v }\<close> copies: those of a plain
  object, the indices of an array or of a string, none for another primitive. A function,
  regular expression or class instance is taken to have none.
\<close>

definition spreadProps :: "json \<Rightarrow> props" where
  "spreadProps v =
     (case v of
        JObj kv \<Rightarrow> kv
      | JArr xs \<Rightarrow> zip (map showNat [0..<length xs]) xs
      | JStr s \<Rightarrow> zip (map showNat [0..<length s]) (map (\<lambda>c. JStr [c]) s)
      | _ \<Rightarrow> [])"

text \<open>\<^verbatim>\<open>s[0] === '~' ? s.substring(1) : prefix + `/${ s }`\<close> (source lines 92 and 99).\<close>

definition assetPath :: "string \<Rightarrow> string \<Rightarrow> string" where
  "assetPath prefix s =
     (case s of
        c # cs \<Rightarrow> if c = CHR ''~'' then cs else prefix @ ''/'' @ s
      | [] \<Rightarrow> prefix @ ''/'' @ s)"

text \<open>\<^verbatim>\<open>parseAssetProperty(prefix)(asset)\<close> (source lines 88-103).\<close>

definition parseAssetProperty :: "string \<Rightarrow> json \<Rightarrow> js_error + json" where
  "parseAssetProperty prefix asset =
     (case asset of
        JStr s \<Rightarrow> Inr (JObj [(''path'', JStr (assetPath prefix s))])
      | JUndefined \<Rightarrow> Inl (TypeError ''Cannot read properties of undefined: path'')
      | JNull \<Rightarrow> Inl (TypeError ''Cannot read properties of null: path'')
      | JRegExp _ \<Rightarrow> Inl (Unmodelled ''asset that is a regular expression'')
      | JFunction _ \<Rightarrow> Inl (Unmodelled ''asset that is a function'')
      | JOpaque _ \<Rightarrow> Inl (Unmodelled ''asset that is a class instance'')
      | _ \<Rightarrow>
          (let p = lookup (spreadProps asset) ''path'';
               p' = (case p of JStr s \<Rightarrow> JStr (assetPath prefix s) | _ \<Rightarrow> p)
           in Inr (JObj (assign (spreadProps asset) ''path'' p'))))"

text \<open>\<^verbatim>\<open>obj.path\<close> of an element that \<^const>\<open>parseAssetProperty\<close> returned.\<close>

definition pathOf :: "json \<Rightarrow> json" where
  "pathOf obj = (case obj of JObj kv \<Rightarrow> lookup kv ''path'' | _ \<Rightarrow> JUndefined)"

text \<open>\<^verbatim>\<open>uniquePathFilter\<close> (source lines 109-111).\<close>

definition uniquePathFilter :: "json \<Rightarrow> nat \<Rightarrow> json list \<Rightarrow> bool" where
  "uniquePathFilter value index self =
     (indexOfElem (map pathOf self) (pathOf value) index = index)"

text \<open>
  The chain of source lines 653-656 (and 660-663, 981-984):
  \<^verbatim>\<open>.filter(_ => _).map(parseAssetProperty(prefix)).filter(asset => asset.path).filter(uniquePathFilter)\<close>.
\<close>

definition normalizeAssets :: "string \<Rightarrow> json list \<Rightarrow> js_error + json list" where
  "normalizeAssets prefix xs =
     ebind (mapE (parseAssetProperty prefix) (filter truthy xs))
       (\<lambda>ys. Inr (filterIdx uniquePathFilter (filter (\<lambda>a. truthy (pathOf a)) ys)))"

text \<open>
  The de-duplication in the words of the specification: the first entry with a given
  path is kept and every later entry with that path is dropped.
\<close>

fun firstWins :: "json list \<Rightarrow> json list" where
  "firstWins [] = []"
| "firstWins (x # xs) =
     x # firstWins (filter (\<lambda>y. \<not> strictEq (pathOf y) (pathOf x)) xs)"

text \<open>
  The normalization of a list of string entries in the words of the specification: an
  entry that starts with the override marker resolves to the rest of it, any other to the
  prefix, a slash and the entry; of the resolved paths the first occurrence of each is
  kept, in order; each path becomes an entry \<^verbatim>\<open>{ path }\<close>.
\<close>

definition resolvedPath :: "string \<Rightarrow> string \<Rightarrow> string" where
  "resolvedPath prefix entry =
     (if take 1 entry = ''~'' then drop 1 entry else prefix @ ''/'' @ entry)"

fun firstOccurrences :: "string list \<Rightarrow> string list" where
  "firstOccurrences [] = []"
| "firstOccurrences (p # ps) = p # firstOccurrences (filter (\<lambda>q. q \<noteq> p) ps)"

definition pathEntry :: "string \<Rightarrow> json" where
  "pathEntry p = JObj [(''path'', JStr p)]"

text \<open>\<^verbatim>\<open>getUniqueArray\<close> (source lines 105-107).\<close>

definition getUniqueArray :: "json \<Rightarrow> js_error + json" where
  "getUniqueArray original =
     (case original of
        JArr xs \<Rightarrow> Inr (JArr (uniq xs))
      | JStr s \<Rightarrow> Inr (JArr (uniq (map (\<lambda>c. JStr [c]) s)))
      | JUndefined \<Rightarrow> Inr (JArr [])
      | JNull \<Rightarrow> Inr (JArr [])
      | JObj _ \<Rightarrow> Inl (TypeError ''object is not iterable'')
      | JBool _ \<Rightarrow> Inl (TypeError ''boolean is not iterable'')
      | JNum _ \<Rightarrow> Inl (TypeError ''number is not iterable'')
      | JDecimal _ _ \<Rightarrow> Inl (TypeError ''number is not iterable'')
      | _ \<Rightarrow> Inl (Unmodelled ''set of a function or class instance''))"

text \<open>The same de-duplication, carrying the entries already passed (used in the proofs).\<close>

fun dedupFrom :: "json list \<Rightarrow> json list \<Rightarrow> json list" where
  "dedupFrom seen [] = []"
| "dedupFrom seen (x # xs) =
     (if \<exists>y \<in> set seen. strictEq (pathOf y) (pathOf x) then dedupFrom (seen @ [x]) xs
      else x # dedupFrom (seen @ [x]) xs)"

section \<open>The session: state, effects, environment\<close>

text \<open>
  What the code does to the outside, in the order it does it: lines written through the
  logger, the probes of the network, the calls that change the project on disk.
\<close>

datatype effect =
    Log string
  | Warn string
  | Tip string
  | Fatal string
  | ConsoleLog
  | ConsoleError
  | ProcessExit
  | RemoveTempFile
  | Probe json json
  | QueryExternalIP
  | UpdateAppPackageJson
  | AddPwaMode
  | GetCertificate
  | EnsureElectronArgv json
  | EnsureInstall json

text \<open>The error kinds of the specification, one for each place where the code gives up.\<close>

datatype error_kind =
    CompileError
  | LoadError
  | ShapeError
  | ValidationError
  | NetworkFailure
  | PluginError

text \<open>\<^verbatim>\<open>this.#address\<close>: the requested pair and the pair it was bound to.\<close>

record address_cache =
  from_host :: json
  from_port :: json
  to_host :: json
  to_port :: json

text \<open>
  The mutable state a compilation cycle reads and writes: the private fields of
  \<^verbatim>\<open>QuasarConfigFile\<close>, the closure variables of \<^verbatim>\<open>#buildAndWatch\<close> (\<open>isFirst\<close>, the resolver
  of the first build), the module-level variables \<^verbatim>\<open>cachedExternalHost\<close> and
  \<^verbatim>\<open>addressRunning\<close> (source line 117), the flag \<^verbatim>\<open>ctx.mode.pwa\<close> that line 994 assigns,
  the temporary file on disk, the timer of the debounced callback, and the record of
  what reached the caller.
\<close>

record session =
  address :: "address_cache option"
  isWatching :: bool
  vueDevtools :: "(json \<times> json) option"
  electronInspectPort :: "json option"
  modePwa :: bool
  cachedExternalHost :: "string option"
  addressRunning :: bool
  tempFileExists :: bool
  isFirst :: bool
  firstBuildResult :: "json option"
  pendingUpdate :: "(nat \<times> json) option"
  callbackCalls :: "json list"
  trace :: "effect list"

text \<open>
  How a step ends: with a value; by returning \<^verbatim>\<open>undefined\<close> after a warning (\<open>Stopped\<close>);
  by ending the process (\<open>Exited\<close>); or by an exception nobody catches (\<open>Threw\<close>).
\<close>

datatype 'a outcome =
    Ok 'a
  | Stopped error_kind
  | Exited error_kind
  | Threw js_error

type_synonym 'a act = "session \<Rightarrow> 'a outcome \<times> session"

definition ret :: "'a \<Rightarrow> 'a act" where
  "ret a = (\<lambda>s. (Ok a, s))"

definition bindA :: "'a act \<Rightarrow> ('a \<Rightarrow> 'b act) \<Rightarrow> 'b act" where
  "bindA m f =
     (\<lambda>s. case m s of
            (Ok a, s') \<Rightarrow> f a s'
          | (Stopped k, s') \<Rightarrow> (Stopped k, s')
          | (Exited k, s') \<Rightarrow> (Exited k, s')
          | (Threw e, s') \<Rightarrow> (Threw e, s'))"

definition andThen :: "unit act \<Rightarrow> 'b act \<Rightarrow> 'b act" where
  "andThen m n = bindA m (\<lambda>_. n)"

definition lift :: "js_error + 'a \<Rightarrow> 'a act" where
  "lift r = (\<lambda>s. case r of Inl e \<Rightarrow> (Threw e, s) | Inr a \<Rightarrow> (Ok a, s))"

definition emit :: "effect \<Rightarrow> unit act" where
  "emit e = (\<lambda>s. (Ok (), s\<lparr>trace := trace s @ [e]\<rparr>))"

fun emitAll :: "effect list \<Rightarrow> unit act" where
  "emitAll [] = ret ()"
| "emitAll (e # es) = andThen (emit e) (emitAll es)"

definition stop :: "error_kind \<Rightarrow> 'a act" where
  "stop k = (\<lambda>s. (Stopped k, s))"

text \<open>
  Modelled from the spec: \<^verbatim>\<open>fatal\<close> of \<^verbatim>\<open>utils/logger.js\<close>, which is not under the sources
  read here. It reports the message and terminates the process (sections 4.2, 6 and 7
  of the specification).
\<close>

definition fatal :: "error_kind \<Rightarrow> string \<Rightarrow> 'a act" where
  "fatal k msg = (\<lambda>s. (Exited k, s\<lparr>trace := trace s @ [Fatal msg, ProcessExit]\<rparr>))"

text \<open>\<^verbatim>\<open>process.exit(1)\<close>.\<close>

definition processExit :: "error_kind \<Rightarrow> 'a act" where
  "processExit k = (\<lambda>s. (Exited k, s\<lparr>trace := trace s @ [ProcessExit]\<rparr>))"

text \<open>\<^verbatim>\<open>fse.removeSync(this.#tempFile)\<close>.\<close>

definition removeTempFile :: "unit act" where
  "removeTempFile =
     (\<lambda>s. (Ok (), s\<lparr>tempFileExists := False, trace := trace s @ [RemoveTempFile]\<rparr>))"

text \<open>
  The pattern every guarded failure of the source ends with:
  \<^verbatim>\<open>if (failOnError === true) { fatal(msg, 'FAIL') }  warn(msg + extra);  return\<close>.
\<close>

definition failSite :: "bool \<Rightarrow> error_kind \<Rightarrow> string \<Rightarrow> string \<Rightarrow> 'a act" where
  "failSite failOnError k msg extra =
     (if failOnError then fatal k msg
      else andThen (emit (Warn (msg @ extra))) (stop k))"

definition getState :: "(session \<Rightarrow> 'a) \<Rightarrow> 'a act" where
  "getState f = (\<lambda>s. (Ok (f s), s))"

definition modify :: "(session \<Rightarrow> session) \<Rightarrow> unit act" where
  "modify f = (\<lambda>s. (Ok (), f s))"

text \<open>A chain of passes over the configuration, each getting what the one before left.\<close>

fun chain :: "(json \<Rightarrow> json act) list \<Rightarrow> json \<Rightarrow> json act" where
  "chain [] cfg = ret cfg"
| "chain (p # ps) cfg = bindA (p cfg) (chain ps)"

subsection \<open>What the session is given\<close>

text \<open>
  The constructor arguments, the compilation context, the private fields that \<^verbatim>\<open>init\<close>
  fills, and the collaborators the code calls without defining them. Each collaborator is
  a parameter: the theorems hold for every value of it unless they name a condition.
\<close>

record env =
  opts_host :: json
  opts_port :: json
  opts_verifyAddress :: json
  ctx_dev :: bool
  ctx_prod :: bool
  ctx_debug :: bool
  ctx_modeName :: string
  ctx_mode_ssr :: bool
  ctx_mode_bex :: bool
  ctx_mode_cordova :: bool
  ctx_mode_capacitor :: bool
  ctx_mode_electron :: bool
  ctx_targetName :: json
  ctx_archName :: json
  ctx_bundlerName :: json
  ctx_publish :: json
  ctx_vueDevtools :: json
  quasarPkg_version :: string
  appPkg_productName :: json
  appPkg_name :: json
  appPkg_description :: json
  appPaths_srcDir :: string
  appPaths_appDir :: string
  resolve_app :: "string \<Rightarrow> string"
  resolve_src :: "string \<Rightarrow> string"
  resolve_electron :: "string \<Rightarrow> string"
  versions :: props
  cssVariables :: props
  storeProvider_pathKey :: string
  storeProvider_name :: json
  transformAssetUrls :: json
  animationsModule :: json
  extensionHooks :: "(string \<times> (props \<Rightarrow> js_error + props)) list"
  localHostList :: "string list"
  getExternalIP :: string
  findClosestOpenPort :: "json \<Rightarrow> json \<Rightarrow> js_error + json"
  appFilesValidations :: "json \<Rightarrow> bool"
  resolveExtension :: "string \<Rightarrow> json"
  isMinimalTerminal :: bool
  readFileEnv :: "json \<Rightarrow> json \<times> json list \<times> bool"
  sslCertificate :: json
  readFileSync :: "string \<Rightarrow> json option"
  existsSync :: "string \<Rightarrow> bool"
  process_platform :: string
  path_join :: "string \<Rightarrow> string \<Rightarrow> string"
  path_basename :: "string \<Rightarrow> string"
  path_dirname :: "string \<Rightarrow> string"
  path_isAbsolute :: "string \<Rightarrow> bool"
  electron_defaultName :: json
  regexpValid :: "string \<Rightarrow> bool"
  green :: "string \<Rightarrow> string"
  dim :: "string \<Rightarrow> string"
  tempFile :: string

section \<open>Small operations the derivation uses\<close>

definition nl :: string where
  "nl = [CHR 0x0A]"

text \<open>\<^verbatim>\<open>[ 'a', 'b' ].includes(v)\<close> on a list of string literals.\<close>

definition includesStr :: "string list \<Rightarrow> json \<Rightarrow> bool" where
  "includesStr lits v = (case v of JStr s \<Rightarrow> s \<in> set lits | _ \<Rightarrow> False)"

text \<open>
  The receiver of an array method (\<^verbatim>\<open>filter\<close>, \<^verbatim>\<open>map\<close>, \<^verbatim>\<open>push\<close>, \<^verbatim>\<open>includes\<close>, \<^verbatim>\<open>join\<close>):
  anything but an array has no such method, and calling it throws.
\<close>

definition asArray :: "string \<Rightarrow> json \<Rightarrow> js_error + json list" where
  "asArray method v =
     (case v of
        JArr xs \<Rightarrow> Inr xs
      | JObj kv \<Rightarrow>
          if isFunction (lookup kv method)
          then Inl (Unmodelled (''call of a function held by the configuration: '' @ method))
          else Inl (TypeError (method @ '' is not a function''))
      | JUndefined \<Rightarrow> Inl (TypeError (''Cannot read properties of undefined: '' @ method))
      | JNull \<Rightarrow> Inl (TypeError (''Cannot read properties of null: '' @ method))
      | JStr s \<Rightarrow>
          if method = ''includes''
          then Inl (Unmodelled ''String.prototype.includes'')
          else Inl (TypeError (method @ '' is not a function''))
      | JRegExp _ \<Rightarrow> Inl (TypeError (method @ '' is not a function''))
      | JFunction _ \<Rightarrow> Inl (TypeError (method @ '' is not a function''))
      | JOpaque _ \<Rightarrow> Inl (Unmodelled (''method of a class instance: '' @ method))
      | _ \<Rightarrow> Inl (TypeError (method @ '' is not a function'')))"

text \<open>\<^verbatim>\<open>v.length > 0\<close> and \<^verbatim>\<open>v.length === 0\<close>.\<close>

definition lengthOf :: "json \<Rightarrow> js_error + json" where
  "lengthOf v =
     (case v of
        JFunction _ \<Rightarrow> Inl (Unmodelled ''length of a function'')
      | _ \<Rightarrow> getp v ''length'')"

definition gtZero :: "json \<Rightarrow> js_error + bool" where
  "gtZero n =
     (case n of
        JNum i \<Rightarrow> Inr (0 < i)
      | JDecimal m e \<Rightarrow> Inr (0 < m)
      | JBool b \<Rightarrow> Inr b
      | JUndefined \<Rightarrow> Inr False
      | JNull \<Rightarrow> Inr False
      | _ \<Rightarrow> Inl (Unmodelled ''comparison of a non-number with 0''))"

definition lengthPositive :: "json \<Rightarrow> js_error + bool" where
  "lengthPositive v = ebind (lengthOf v) gtZero"

definition lengthIsZero :: "json \<Rightarrow> js_error + bool" where
  "lengthIsZero v = ebind (lengthOf v) (\<lambda>n. Inr (n = JNum 0))"

text \<open>\<^verbatim>\<open>xs.includes(v)\<close> on an array.\<close>

definition arrIncludes :: "json list \<Rightarrow> json \<Rightarrow> bool" where
  "arrIncludes xs v = (\<exists>x \<in> set xs. strictEq x v)"

text \<open>
  \<^verbatim>\<open>new RegExp(source)\<close>: a SyntaxError when the source is no regular expression, which
  the environment decides.
\<close>

definition newRegExp :: "env \<Rightarrow> string \<Rightarrow> js_error + json" where
  "newRegExp env src =
     (if regexpValid env src then Inr (JRegExp src)
      else Inl (SyntaxError (''Invalid regular expression: '' @ src)))"

text \<open>\<^verbatim>\<open>quasarComponentRE = /^(Q[A-Z]|q-)/\<close>, through \<^verbatim>\<open>test\<close>, which converts to a string.\<close>

definition isUpper :: "char \<Rightarrow> bool" where
  "isUpper c = (let n = (of_char c :: nat) in 65 \<le> n \<and> n \<le> 90)"

definition quasarComponentRE_test :: "json \<Rightarrow> bool" where
  "quasarComponentRE_test v =
     (case toStr v of
        a # b # _ \<Rightarrow> (a = CHR ''Q'' \<and> isUpper b) \<or> (a = CHR ''q'' \<and> b = CHR ''-'')
      | _ \<Rightarrow> False)"

text \<open>
  The functions of \<^verbatim>\<open>node:path\<close> and of \<^verbatim>\<open>appPaths.resolve\<close>: a TypeError on an argument
  that is not a string.
\<close>

definition needString :: "string \<Rightarrow> json \<Rightarrow> js_error + string" where
  "needString what v =
     (case v of
        JStr s \<Rightarrow> Inr s
      | _ \<Rightarrow> Inl (TypeError (''The argument must be of type string: '' @ what)))"

text \<open>A string method (\<^verbatim>\<open>toLowerCase\<close>, \<^verbatim>\<open>endsWith\<close>, \<^verbatim>\<open>startsWith\<close>) called on a value.\<close>

definition stringReceiver :: "string \<Rightarrow> json \<Rightarrow> js_error + string" where
  "stringReceiver method v =
     (case v of
        JStr s \<Rightarrow> Inr s
      | JUndefined \<Rightarrow> Inl (TypeError (''Cannot read properties of undefined: '' @ method))
      | JNull \<Rightarrow> Inl (TypeError (''Cannot read properties of null: '' @ method))
      | JObj kv \<Rightarrow>
          if isFunction (lookup kv method)
          then Inl (Unmodelled (''call of a function held by the configuration: '' @ method))
          else Inl (TypeError (method @ '' is not a function''))
      | JOpaque _ \<Rightarrow> Inl (Unmodelled (''method of a class instance: '' @ method))
      | _ \<Rightarrow> Inl (TypeError (method @ '' is not a function'')))"

text \<open>\<^verbatim>\<open>defaultPortMapping[modeName]\<close> (source lines 22-29).\<close>

definition defaultPortMapping :: "string \<Rightarrow> int option" where
  "defaultPortMapping m =
     (if m = ''spa'' then Some 9000
      else if m = ''ssr'' then Some 9100
      else if m = ''pwa'' then Some 9200
      else if m = ''electron'' then Some 9300
      else if m = ''cordova'' then Some 9400
      else if m = ''capacitor'' then Some 9500
      else None)"

text \<open>\<^verbatim>\<open>escapeHTMLTagContent\<close> and \<^verbatim>\<open>escapeHTMLAttribute\<close> (source lines 52-57).\<close>

definition escapeHTMLTagContent :: "json \<Rightarrow> js_error + json" where
  "escapeHTMLTagContent str =
     (if \<not> truthy str then Inr (JStr [])
      else ebind (stringReceiver ''replace'' str)
             (\<lambda>s. Inr (JStr (filter (\<lambda>c. c \<noteq> CHR ''<'' \<and> c \<noteq> CHR ''>'') s))))"

definition escapeHTMLAttribute :: "json \<Rightarrow> js_error + json" where
  "escapeHTMLAttribute str =
     (if \<not> truthy str then Inr (JStr [])
      else ebind (stringReceiver ''replace'' str)
             (\<lambda>s. Inr (JStr (filter (\<lambda>c. c \<noteq> CHR 0x22) s))))"

text \<open>
  \<^verbatim>\<open>this.#ctx\<close> as the configuration holds it under \<^verbatim>\<open>ctx\<close>: the fields the derivation
  reads; the rest of the context is opaque.
\<close>

definition ctxValue :: "env \<Rightarrow> bool \<Rightarrow> json" where
  "ctxValue env pwa =
     JObj [(''dev'', JBool (ctx_dev env)),
           (''prod'', JBool (ctx_prod env)),
           (''debug'', JBool (ctx_debug env)),
           (''modeName'', JStr (ctx_modeName env)),
           (''mode'', JObj [(''ssr'', JBool (ctx_mode_ssr env)),
                            (''pwa'', JBool pwa),
                            (''bex'', JBool (ctx_mode_bex env)),
                            (''cordova'', JBool (ctx_mode_cordova env)),
                            (''capacitor'', JBool (ctx_mode_capacitor env)),
                            (''electron'', JBool (ctx_mode_electron env))]),
           (''targetName'', ctx_targetName env),
           (''archName'', ctx_archName env),
           (''bundlerName'', ctx_bundlerName env),
           (''publish'', ctx_publish env),
           (''vueDevtools'', ctx_vueDevtools env),
           (''appPaths'', JOpaque ''appPaths''),
           (''pkg'', JOpaque ''pkg''),
           (''cacheProxy'', JOpaque ''cacheProxy''),
           (''appExt'', JOpaque ''appExt'')]"

section \<open>Address negotiation\<close>

text \<open>
  The first half of \<^verbatim>\<open>onAddress\<close> (source lines 120-132): on cordova and capacitor a
  missing or local host is replaced by the external address of the machine, asked for
  once and kept in \<^verbatim>\<open>cachedExternalHost\<close>.
\<close>

definition externalHost :: "env \<Rightarrow> json \<Rightarrow> string \<Rightarrow> json act" where
  "externalHost env host mode =
     (if mode \<in> {''cordova'', ''capacitor''} then
        bindA (if \<not> truthy host then ret True
               else bindA (lift (stringReceiver ''toLowerCase'' host))
                      (\<lambda>h. ret (toLowerCase h \<in> set (localHostList env))))
          (\<lambda>isLocal.
             if isLocal then
               bindA (getState cachedExternalHost)
                 (\<lambda>cached.
                    case cached of
                      Some c \<Rightarrow>
                        if c \<noteq> [] then ret (JStr c)
                        else andThen (emit QueryExternalIP)
                               (andThen (modify (\<lambda>s. s\<lparr>cachedExternalHost := Some (getExternalIP env)\<rparr>))
                                  (ret (JStr (getExternalIP env))))
                    | None \<Rightarrow>
                        andThen (emit QueryExternalIP)
                          (andThen (modify (\<lambda>s. s\<lparr>cachedExternalHost := Some (getExternalIP env)\<rparr>))
                             (ret (JStr (getExternalIP env)))))
             else ret host)
      else ret host)"

text \<open>The warning of the \<^verbatim>\<open>catch\<close> block (source lines 147-156), by the error's message.\<close>

definition networkWarning :: "js_error \<Rightarrow> effect list" where
  "networkWarning e =
     (if e = NetworkError ''ERROR_NETWORK_PORT_NOT_AVAIL''
      then [Warn ''Could not find an open port. Please configure a lower one to start searching with.'']
      else if e = NetworkError ''ERROR_NETWORK_ADDRESS_NOT_AVAIL''
      then [Warn ''Invalid host specified. No network address matches. Please specify another one.'']
      else [Warn ''Unknown network error occurred'', ConsoleError])"

text \<open>
  \<^verbatim>\<open>onAddress\<close> (source lines 119-169). The result is \<^verbatim>\<open>null\<close> or the bound
  \<^verbatim>\<open>{ host, port }\<close>; a failed probe ends the process when no address was ever bound.
\<close>

definition onAddress :: "env \<Rightarrow> json \<Rightarrow> json \<Rightarrow> string \<Rightarrow> json act" where
  "onAddress env host port mode =
     bindA (externalHost env host mode)
       (\<lambda>host'.
          andThen (emit (Probe port host'))
            (case findClosestOpenPort env port host' of
               Inr openPort \<Rightarrow>
                 andThen
                   (if \<not> strictEq port openPort
                    then emitAll [Warn [],
                                  Warn (''Setting port to closest one available: '' @ toStr openPort),
                                  Warn []]
                    else ret ())
                   (andThen (modify (\<lambda>s. s\<lparr>addressRunning := True\<rparr>))
                      (ret (JObj [(''host'', host'),
                                  (''port'', if \<not> strictEq port openPort then openPort else port)])))
             | Inl e \<Rightarrow>
                 andThen (emitAll ([Warn []] @ networkWarning e @ [Warn []]))
                   (bindA (getState addressRunning)
                      (\<lambda>running.
                         if \<not> running then processExit NetworkFailure
                         else ret JNull))))"

section \<open>Deriving the configuration\<close>

text \<open>
  \<^verbatim>\<open>#computeConfig\<close> (source lines 413-1299) is modelled as a chain of passes, one for each
  group of statements, in the order of the source. A pass that only computes is a function
  into \<open>js_error + json\<close>; a pass that logs, probes or may give up is an \<^typ>\<open>json act\<close>.
\<close>

fun echain :: "(json \<Rightarrow> js_error + json) list \<Rightarrow> json \<Rightarrow> js_error + json" where
  "echain [] cfg = Inr cfg"
| "echain (p # ps) cfg = ebind (p cfg) (echain ps)"

text \<open>\<^verbatim>\<open>if (!cfg.a.b) { cfg.a.b = v }\<close>.\<close>

definition setIfFalsy :: "string list \<Rightarrow> json \<Rightarrow> json \<Rightarrow> js_error + json" where
  "setIfFalsy path v cfg =
     ebind (getPath cfg path) (\<lambda>x. if \<not> truthy x then setPath cfg path v else Inr cfg)"

text \<open>
  \<^verbatim>\<open>Object.assign(target, { ... })\<close>: it throws on \<^verbatim>\<open>undefined\<close> and \<^verbatim>\<open>null\<close>, and writes to
  a wrapper that is dropped when the target is a primitive.
\<close>

definition objectAssign :: "json \<Rightarrow> props \<Rightarrow> js_error + json" where
  "objectAssign target source =
     (case target of
        JObj kv \<Rightarrow> Inr (JObj (assignAll kv source))
      | JUndefined \<Rightarrow> Inl (TypeError ''Cannot convert undefined or null to object'')
      | JNull \<Rightarrow> Inl (TypeError ''Cannot convert undefined or null to object'')
      | JBool _ \<Rightarrow> Inr target
      | JNum _ \<Rightarrow> Inr target
      | JDecimal _ _ \<Rightarrow> Inr target
      | _ \<Rightarrow> Inl (Unmodelled ''Object.assign on a string, array, function or instance''))"

definition assignAt :: "string list \<Rightarrow> props \<Rightarrow> json \<Rightarrow> js_error + json" where
  "assignAt path source cfg =
     ebind (getPath cfg path)
       (\<lambda>t. ebind (objectAssign t source) (\<lambda>t'. setPath cfg path t'))"

text \<open>\<^verbatim>\<open>cfg.k = merge({ defaults }, cfg.k)\<close>.\<close>

definition mergeDefaultsAt :: "string \<Rightarrow> props \<Rightarrow> json \<Rightarrow> js_error + json" where
  "mergeDefaultsAt k defaults cfg =
     ebind (getp cfg k) (\<lambda>v. ebind (merge defaults [v]) (\<lambda>m. setp cfg k m))"

subsection \<open>Lines 466-574: defaults, metadata, extensions\<close>

definition skeleton :: "env \<Rightarrow> bool \<Rightarrow> props" where
  "skeleton env pwa =
     [(''ctx'', ctxValue env pwa),
      (''boot'', JArr []),
      (''css'', JArr []),
      (''extras'', JArr []),
      (''animations'', JArr []),
      (''framework'', JObj [(''components'', JArr []),
                            (''directives'', JArr []),
                            (''plugins'', JArr []),
                            (''config'', JObj [])]),
      (''vendor'', JObj [(''add'', JArr []), (''remove'', JArr [])]),
      (''eslint'', JObj [(''include'', JArr []),
                         (''exclude'', JArr []),
                         (''rawWebpackEslintPluginOptions'', JObj []),
                         (''rawEsbuildEslintOptions'', JObj [])]),
      (''sourceFiles'', JObj []),
      (''bin'', JObj []),
      (''htmlVariables'', JObj []),
      (''devServer'', JObj [(''server'', JObj [])]),
      (''build'', JObj [(''esbuildTarget'', JObj []),
                        (''vueLoaderOptions'', JObj [(''transformAssetUrls'', JObj [])]),
                        (''sassLoaderOptions'', JObj []),
                        (''scssLoaderOptions'', JObj []),
                        (''stylusLoaderOptions'', JObj []),
                        (''lessLoaderOptions'', JObj []),
                        (''tsLoaderOptions'', JObj []),
                        (''env'', JObj []),
                        (''rawDefine'', JObj []),
                        (''envFiles'', JArr []),
                        (''webpackTranspileDependencies'', JArr []),
                        (''uglifyOptions'', JObj [(''compress'', JObj []), (''mangle'', JObj [])]),
                        (''htmlMinifyOptions'', JObj [])]),
      (''ssr'', JObj [(''middlewares'', JArr [])]),
      (''pwa'', JObj []),
      (''electron'', JObj [(''preloadScripts'', JArr []),
                           (''unPackagedInstallParams'', JArr []),
                           (''packager'', JObj []),
                           (''builder'', JObj [])]),
      (''cordova'', JObj []),
      (''capacitor'', JObj [(''capacitorCliPreparationParams'', JArr [])]),
      (''bex'', JObj [(''contentScripts'', JArr [])])]"

definition metaConfInit :: "env \<Rightarrow> json" where
  "metaConfInit env =
     JObj [(''debugging'', JBool (ctx_dev env \<or> ctx_debug env)),
           (''needsAppMountHook'', JBool False),
           (''vueDevtools'', JBool False),
           (''versions'', JObj (versions env)),
           (''css'', JObj (cssVariables env))]"

text \<open>Lines 549-551.\<close>

definition pass_animationsAll :: "env \<Rightarrow> props \<Rightarrow> props" where
  "pass_animationsAll env raw =
     (if strictEq (lookup raw ''animations'') (JStr ''all'')
      then assign raw ''animations'' (animationsModule env)
      else raw)"

text \<open>
  \<^verbatim>\<open>runAppExtensionHook('extendQuasarConf', ...)\<close> (lines 554-557): the hooks in registration
  order, each changing the configuration in place or throwing.
\<close>

fun runHooks :: "(string \<times> (props \<Rightarrow> js_error + props)) list \<Rightarrow> props \<Rightarrow> (js_error + props) act" where
  "runHooks [] raw = ret (Inr raw)"
| "runHooks ((extId, fn) # hs) raw =
     andThen (emit (Log (''Extension('' @ extId @ ''): Extending quasar.config file configuration...'')))
       (case fn raw of
          Inl e \<Rightarrow> ret (Inl e)
        | Inr raw' \<Rightarrow> runHooks hs raw')"

text \<open>Lines 553-574.\<close>

definition pass_extensions :: "env \<Rightarrow> bool \<Rightarrow> props \<Rightarrow> json act" where
  "pass_extensions env failOnError raw =
     bindA (runHooks (extensionHooks env) raw)
       (\<lambda>r. case r of
               Inl e \<Rightarrow>
                 andThen (emitAll [ConsoleLog, ConsoleError])
                   (failSite failOnError PluginError
                      ''One of your installed App Extensions failed to run'' (''.'' @ nl))
             | Inr raw' \<Rightarrow> ret (JObj (assign raw' ''metaConf'' (metaConfInit env))))"

subsection \<open>Lines 576-650: server-side rendering defaults, the dev server address\<close>

definition pass_ssrDefaults :: "env \<Rightarrow> json \<Rightarrow> js_error + json" where
  "pass_ssrDefaults env cfg =
     (if ctx_mode_ssr env then
        mergeDefaultsAt ''ssr''
          [(''pwa'', JBool False),
           (''pwaOfflineHtmlFilename'', JStr ''offline.html''),
           (''manualStoreHydration'', JBool False),
           (''manualPostHydrationTrigger'', JBool False),
           (''prodPort'', JNum 3000)] cfg
      else Inr cfg)"

definition tipPortParameter :: string where
  "tipPortParameter = ''You are using the --port parameter. It is recommended to use a different devServer port for each Quasar mode to avoid browser cache issues''"

definition tipExplicitPort :: string where
  "tipExplicitPort = ''You (or an AE) specified an explicit quasar.config file > devServer > port. It is recommended to use a different devServer > port for each Quasar mode to avoid browser cache issues. Example: ctx.mode.ssr ? 9100 : ...''"

text \<open>Lines 601-602. An unknown mode name gives \<^verbatim>\<open>NaN\<close>, which the model has no term for.\<close>

definition defaultPort :: "env \<Rightarrow> json \<Rightarrow> js_error + json" where
  "defaultPort env cfg =
     ebind (if ctx_mode_ssr env
            then ebind (getPath cfg [''ssr'', ''pwa'']) (\<lambda>p. Inr (strictEq p (JBool True)))
            else Inr False)
       (\<lambda>ssrPwa.
          case defaultPortMapping (ctx_modeName env) of
            None \<Rightarrow> Inl (Unmodelled ''NaN'')
          | Some base \<Rightarrow> Inr (JNum (base + (if ssrPwa then 50 else 0))))"

text \<open>Lines 589-610: the requested host and port.\<close>

definition pass_requestedAddress :: "env \<Rightarrow> json \<Rightarrow> json act" where
  "pass_requestedAddress env cfg =
     bindA (lift (if truthy (opts_host env)
                  then setPath cfg [''devServer'', ''host''] (opts_host env)
                  else setIfFalsy [''devServer'', ''host''] (JStr ''0.0.0.0'') cfg))
       (\<lambda>cfg1.
          if truthy (opts_port env) then
            bindA (lift (setPath cfg1 [''devServer'', ''port''] (opts_port env)))
              (\<lambda>cfg2. andThen (emit (Tip tipPortParameter)) (ret cfg2))
          else
            bindA (lift (getPath cfg1 [''devServer'', ''port'']))
              (\<lambda>p. if \<not> truthy p then
                      lift (ebind (defaultPort env cfg1)
                              (\<lambda>dp. setPath cfg1 [''devServer'', ''port''] dp))
                    else andThen (emit (Tip tipExplicitPort)) (ret cfg1)))"

text \<open>Lines 620-648: negotiate, and remember the outcome in \<^verbatim>\<open>this.#address\<close>.\<close>

definition negotiate :: "env \<Rightarrow> bool \<Rightarrow> json \<Rightarrow> json \<Rightarrow> json \<Rightarrow> json act" where
  "negotiate env failOnError cfg h p =
     bindA (if strictEq (opts_verifyAddress env) (JBool True)
            then onAddress env h p (ctx_modeName env)
            else ret (JObj [(''host'', h), (''port'', p)]))
       (\<lambda>to.
          if to = JNull then
            failSite failOnError NetworkFailure
              ''Network error encountered while following the quasar.config file host/port config.''
              ('' Reconfigure and save the file again.'' @ nl)
          else
            bindA (lift (ebind (getp cfg ''devServer'')
                           (\<lambda>ds. ebind (merge [(''open'', JBool True)] [ds, to])
                                    (\<lambda>m. setp cfg ''devServer'' m))))
              (\<lambda>cfg1.
                 bindA (lift (getPath cfg1 [''devServer'', ''host'']))
                   (\<lambda>th. bindA (lift (getPath cfg1 [''devServer'', ''port'']))
                      (\<lambda>tp. andThen
                               (modify (\<lambda>s. s\<lparr>address :=
                                   Some \<lparr>from_host = h, from_port = p,
                                         to_host = th, to_port = tp\<rparr>\<rparr>))
                               (ret cfg1)))))"

text \<open>Lines 612-649: the cached binding answers an identical request.\<close>

definition pass_bindAddress :: "env \<Rightarrow> bool \<Rightarrow> json \<Rightarrow> json act" where
  "pass_bindAddress env failOnError cfg =
     bindA (getState address)
       (\<lambda>cache.
          case cache of
            None \<Rightarrow>
              bindA (lift (getPath cfg [''devServer'', ''host'']))
                (\<lambda>h. bindA (lift (getPath cfg [''devServer'', ''port'']))
                   (\<lambda>p. negotiate env failOnError cfg h p))
          | Some c \<Rightarrow>
              bindA (lift (getPath cfg [''devServer'', ''host'']))
                (\<lambda>h. if strictEq (from_host c) h then
                        bindA (lift (getPath cfg [''devServer'', ''port'']))
                          (\<lambda>p. if strictEq (from_port c) p then
                                  lift (ebind (setPath cfg [''devServer'', ''host''] (to_host c))
                                          (\<lambda>cfg1. setPath cfg1 [''devServer'', ''port''] (to_port c)))
                                else negotiate env failOnError cfg h p)
                      else
                        bindA (lift (getPath cfg [''devServer'', ''port'']))
                          (\<lambda>p. negotiate env failOnError cfg h p)))"

definition pass_devServerAddress :: "env \<Rightarrow> bool \<Rightarrow> json \<Rightarrow> json act" where
  "pass_devServerAddress env failOnError cfg =
     (if ctx_dev env \<and> \<not> ctx_mode_bex env
      then bindA (pass_requestedAddress env cfg) (pass_bindAddress env failOnError)
      else ret cfg)"

subsection \<open>Lines 652-702: asset lists, framework options\<close>

text \<open>
  \<^verbatim>\<open>if (cfg.k.length > 0) { cfg.k = cfg.k.filter(...).map(parseAssetProperty(prefix))... }\<close>
  at a path (lines 652-664 and 980-985).
\<close>

definition normalizeAt :: "string list \<Rightarrow> string \<Rightarrow> json \<Rightarrow> js_error + json" where
  "normalizeAt path prefix cfg =
     ebind (getPath cfg path)
       (\<lambda>v. ebind (lengthPositive v)
          (\<lambda>pos. if pos then
                    ebind (asArray ''filter'' v)
                      (\<lambda>xs. ebind (normalizeAssets prefix xs)
                         (\<lambda>ys. setPath cfg path (JArr ys)))
                  else Inr cfg))"

text \<open>\<^verbatim>\<open>if (cfg.k.length > 0) { cfg.k = getUniqueArray(cfg.k) }\<close> (lines 666-672).\<close>

definition uniqueIfAny :: "string \<Rightarrow> json \<Rightarrow> js_error + json" where
  "uniqueIfAny k cfg =
     ebind (getp cfg k)
       (\<lambda>v. ebind (lengthPositive v)
          (\<lambda>pos. if pos then ebind (getUniqueArray v) (\<lambda>u. setp cfg k u) else Inr cfg))"

text \<open>\<^verbatim>\<open>cfg.a.b = getUniqueArray(cfg.a.b)\<close> (lines 695-697).\<close>

definition uniqueAt :: "string list \<Rightarrow> json \<Rightarrow> js_error + json" where
  "uniqueAt path cfg =
     ebind (getPath cfg path) (\<lambda>v. ebind (getUniqueArray v) (\<lambda>u. setPath cfg path u))"

definition pass_assets :: "json \<Rightarrow> js_error + json" where
  "pass_assets =
     echain [normalizeAt [''css''] ''src/css'',
             normalizeAt [''boot''] ''boot'',
             uniqueIfAny ''extras'',
             uniqueIfAny ''animations'']"

text \<open>Lines 674-676.\<close>

definition pass_componentCase :: "json \<Rightarrow> js_error + json" where
  "pass_componentCase cfg =
     ebind (getPath cfg [''framework'', ''autoImportComponentCase''])
       (\<lambda>c. if \<not> includesStr [''kebab'', ''pascal'', ''combined''] c
             then setPath cfg [''framework'', ''autoImportComponentCase''] (JStr ''kebab'')
             else Inr cfg)"

text \<open>Lines 681-686 and 688-693, for \<open>k\<close> one of \<^verbatim>\<open>loading\<close> and \<^verbatim>\<open>notify\<close>.\<close>

definition spinnerComponent :: "string \<Rightarrow> json \<Rightarrow> js_error + json" where
  "spinnerComponent k cfg =
     ebind (getPath cfg [''framework'', ''config''])
       (\<lambda>config. ebind (getp config k)
          (\<lambda>c. if truthy c then
                  ebind (getp c ''spinner'')
                    (\<lambda>spinner.
                       if quasarComponentRE_test spinner then
                         ebind (getPath cfg [''framework'', ''components''])
                           (\<lambda>comps. ebind (asArray ''push'' comps)
                              (\<lambda>xs. setPath cfg [''framework'', ''components'']
                                      (JArr (xs @ [spinner]))))
                       else Inr cfg)
                else Inr cfg))"

text \<open>Lines 678-702.\<close>

definition pass_framework :: "json \<Rightarrow> js_error + json" where
  "pass_framework =
     echain [spinnerComponent ''loading'',
             spinnerComponent ''notify'',
             uniqueAt [''framework'', ''components''],
             uniqueAt [''framework'', ''directives''],
             uniqueAt [''framework'', ''plugins''],
             (\<lambda>cfg. ebind (getPath cfg [''framework'', ''plugins''])
                      (\<lambda>plugins. ebind (asArray ''includes'' plugins)
                         (\<lambda>xs. assignAt [''metaConf'']
                                  [(''hasLoadingBarPlugin'', JBool (arrIncludes xs (JStr ''LoadingBar''))),
                                   (''hasMetaPlugin'', JBool (arrIncludes xs (JStr ''Meta'')))]
                                  cfg)))]"

subsection \<open>Lines 704-880: linting, build options, paths\<close>

definition pass_eslint :: "json \<Rightarrow> js_error + json" where
  "pass_eslint =
     mergeDefaultsAt ''eslint''
       [(''warnings'', JBool False),
        (''errors'', JBool False),
        (''fix'', JBool False),
        (''formatter'', JStr ''stylish''),
        (''cache'', JBool True),
        (''include'', JArr []),
        (''exclude'', JArr []),
        (''rawWebpackEslintPluginOptions'', JObj []),
        (''rawEsbuildEslintOptions'', JObj [])]"

definition uglifyCompress :: props where
  "uglifyCompress =
     [(''arrows'', JBool False), (''collapse_vars'', JBool False),
      (''comparisons'', JBool False), (''computed_props'', JBool False),
      (''hoist_funs'', JBool False), (''hoist_props'', JBool False),
      (''hoist_vars'', JBool False), (''inline'', JBool False),
      (''loops'', JBool False), (''negate_iife'', JBool False),
      (''properties'', JBool False), (''reduce_funcs'', JBool False),
      (''reduce_vars'', JBool False), (''switches'', JBool False),
      (''toplevel'', JBool False), (''typeofs'', JBool False),
      (''booleans'', JBool True), (''if_return'', JBool True),
      (''sequences'', JBool True), (''unused'', JBool True),
      (''conditionals'', JBool True), (''dead_code'', JBool True),
      (''evaluate'', JBool True)]"

text \<open>
  The defaults of lines 717-814, from the values the literal reads: \<open>debugging\<close> is
  \<^verbatim>\<open>cfg.metaConf.debugging\<close>, \<open>bexMinify\<close> is \<^verbatim>\<open>cfg.bex.minify === true\<close> where the literal
  reads it, \<open>optionsApi\<close> is \<^verbatim>\<open>cfg.build.vueOptionsAPI !== false\<close>.
\<close>

definition buildDefaults :: "env \<Rightarrow> json \<Rightarrow> bool \<Rightarrow> bool \<Rightarrow> props" where
  "buildDefaults env debugging bexMinify optionsApi =
     [(''vueLoaderOptions'', JObj [(''transformAssetUrls'', transformAssetUrls env)]),
      (''vueOptionsAPI'', JBool True),
      (''vueRouterMode'', JStr ''hash''),
      (''minify'', JBool (\<not> strictEq debugging (JBool True)
                          \<and> (\<not> ctx_mode_bex env \<or> bexMinify))),
      (''sourcemap'', JBool (strictEq debugging (JBool True))),
      (''extractCSS'', JBool (ctx_prod env \<or> ctx_mode_ssr env)),
      (''distDir'', JStr (path_join env ''dist'' (ctx_modeName env))),
      (''webpackTranspile'', JBool True),
      (''htmlFilename'', JStr ''index.html''),
      (''webpackShowProgress'', JBool True),
      (''webpackDevtool'',
         JStr (if ctx_dev env then ''eval-cheap-module-source-map'' else ''source-map'')),
      (''uglifyOptions'', JObj [(''compress'', JObj uglifyCompress),
                                (''mangle'', JObj [(''safari10'', JBool True)])]),
      (''htmlMinifyOptions'', JObj [(''removeComments'', JBool True),
                                    (''collapseWhitespace'', JBool True),
                                    (''removeAttributeQuotes'', JBool True),
                                    (''collapseBooleanAttributes'', JBool True),
                                    (''removeScriptTypeAttributes'', JBool True)]),
      (''rawDefine'', JObj [(''__QUASAR_VERSION__'',
                               JStr ([CHR 0x22] @ quasarPkg_version env @ [CHR 0x22])),
                            (''__QUASAR_SSR__'', JBool (ctx_mode_ssr env)),
                            (''__QUASAR_SSR_SERVER__'', JBool False),
                            (''__QUASAR_SSR_CLIENT__'', JBool False),
                            (''__QUASAR_SSR_PWA__'', JBool False),
                            (''__VUE_OPTIONS_API__'', JBool optionsApi),
                            (''__VUE_PROD_DEVTOOLS__'', debugging),
                            (''__VUE_I18N_FULL_INSTALL__'', JBool True),
                            (''__VUE_I18N_LEGACY_API__'', JBool True),
                            (''__VUE_I18N_PROD_DEVTOOLS__'', debugging),
                            (''__INTLIFY_PROD_DEVTOOLS__'', debugging)]),
      (''alias'', JObj [(''src'', JStr (appPaths_srcDir env)),
                        (''app'', JStr (appPaths_appDir env)),
                        (''components'', JStr (resolve_src env ''components'')),
                        (''layouts'', JStr (resolve_src env ''layouts'')),
                        (''pages'', JStr (resolve_src env ''pages'')),
                        (''assets'', JStr (resolve_src env ''assets'')),
                        (''boot'', JStr (resolve_src env ''boot'')),
                        (''stores'', JStr (resolve_src env ''stores''))])]"

text \<open>Lines 716-815.\<close>

definition pass_build :: "env \<Rightarrow> json \<Rightarrow> js_error + json" where
  "pass_build env cfg =
     ebind (getPath cfg [''metaConf'', ''debugging''])
       (\<lambda>debugging.
          ebind (if \<not> strictEq debugging (JBool True) \<and> ctx_mode_bex env
                 then ebind (getPath cfg [''bex'', ''minify''])
                        (\<lambda>m. Inr (strictEq m (JBool True)))
                 else Inr False)
            (\<lambda>bexMinify.
               ebind (getPath cfg [''build'', ''vueOptionsAPI''])
                 (\<lambda>api. mergeDefaultsAt ''build''
                           (buildDefaults env debugging bexMinify
                              (\<not> strictEq api (JBool False)))
                           cfg)))"

text \<open>
  \<^verbatim>\<open>cfg.vendor.k = cfg.vendor.k.length > 0 ? new RegExp(cfg.vendor.k.filter(v => v).join('|')) : void 0\<close>
  (lines 818-824).
\<close>

definition vendorRegExp :: "env \<Rightarrow> string \<Rightarrow> json \<Rightarrow> js_error + json" where
  "vendorRegExp env k cfg =
     ebind (getPath cfg [''vendor'', k])
       (\<lambda>v. ebind (lengthPositive v)
          (\<lambda>pos. if pos then
                    ebind (asArray ''filter'' v)
                      (\<lambda>xs. ebind (newRegExp env (arrJoin ''|'' (filter truthy xs)))
                         (\<lambda>r. setPath cfg [''vendor'', k] r))
                  else setPath cfg [''vendor'', k] JUndefined))"

definition pass_vendor :: "env \<Rightarrow> json \<Rightarrow> js_error + json" where
  "pass_vendor env cfg =
     ebind (getPath cfg [''vendor'', ''disable''])
       (\<lambda>d. if \<not> strictEq d (JBool True)
             then echain [vendorRegExp env ''add'', vendorRegExp env ''remove''] cfg
             else Inr cfg)"

text \<open>
  Lines 827-833. The branch taken for \<^verbatim>\<open>true\<close> calls \<^verbatim>\<open>filter\<close> on that boolean, which
  throws.
\<close>

definition pass_transpile :: "env \<Rightarrow> json \<Rightarrow> js_error + json" where
  "pass_transpile env cfg =
     ebind (getPath cfg [''build'', ''webpackTranspileDependencies''])
       (\<lambda>v. if strictEq v (JBool True)
             then Inl (TypeError ''cfg.build.webpackTranspileDependencies.filter is not a function'')
             else setPath cfg [''metaConf'', ''webpackTranspileBanner''] (JStr (dim env ''no'')))"

text \<open>Lines 835-841.\<close>

definition pass_esbuildTarget :: "json \<Rightarrow> js_error + json" where
  "pass_esbuildTarget =
     echain [setIfFalsy [''build'', ''esbuildTarget'', ''browser'']
               (JArr [JStr ''es2019'', JStr ''edge88'', JStr ''firefox78'',
                      JStr ''chrome87'', JStr ''safari13.1'']),
             setIfFalsy [''build'', ''esbuildTarget'', ''node''] (JStr ''node16'')]"

text \<open>Lines 843-852.\<close>

definition pass_routerMode :: "env \<Rightarrow> json \<Rightarrow> js_error + json" where
  "pass_routerMode env cfg =
     (if ctx_mode_ssr env then setPath cfg [''build'', ''vueRouterMode''] (JStr ''history'')
      else if ctx_mode_cordova env \<or> ctx_mode_capacitor env
              \<or> ctx_mode_electron env \<or> ctx_mode_bex env
      then assignAt [''build'']
             [(''htmlFilename'', JStr ''index.html''),
              (''vueRouterMode'', JStr ''hash''),
              (''gzip'', JBool False)] cfg
      else Inr cfg)"

text \<open>Lines 854-870.\<close>

definition pass_distDir :: "env \<Rightarrow> json \<Rightarrow> js_error + json" where
  "pass_distDir env =
     echain [(\<lambda>cfg. if ctx_dev env \<and> ctx_mode_bex env then
                       ebind (getPath cfg [''build'', ''distDir''])
                         (\<lambda>d. ebind (needString ''basename'' d)
                            (\<lambda>ds. let name = path_basename env ds
                                   in setPath cfg [''build'', ''distDir'']
                                        (JStr (path_join env (path_dirname env ds)
                                           (if name = ''bex'' then ''bex--dev''
                                            else ''bex-dev--'' @ name)))))
                     else Inr cfg),
             (\<lambda>cfg. ebind (getPath cfg [''build'', ''distDir''])
                       (\<lambda>d. ebind (needString ''isAbsolute'' d)
                          (\<lambda>ds. if \<not> path_isAbsolute env ds
                                 then setPath cfg [''build'', ''distDir'']
                                        (JStr (resolve_app env ds))
                                 else Inr cfg)))]"

text \<open>Lines 872-880.\<close>

definition pass_publicPath :: "env \<Rightarrow> json \<Rightarrow> js_error + json" where
  "pass_publicPath env =
     echain [(\<lambda>cfg. ebind (getPath cfg [''build'', ''publicPath''])
                       (\<lambda>pp. ebind
                          (if truthy pp \<and> ctx_modeName env \<in> {''spa'', ''pwa'', ''ssr''}
                           then ebind (stringReceiver ''endsWith'' pp)
                                  (\<lambda>s. Inr (JStr (formatPublicPath s)))
                           else Inr (JStr (if ctx_modeName env
                                              \<in> {''capacitor'', ''cordova'', ''electron'', ''bex''}
                                           then [] else ''/'')))
                          (\<lambda>v. setPath cfg [''build'', ''publicPath''] v))),
             (\<lambda>cfg. ebind (getPath cfg [''build'', ''vueRouterBase''])
                       (\<lambda>rb. if rb \<noteq> JUndefined
                              then setPath cfg [''build'', ''vueRouterBase''] rb
                              else ebind (getPath cfg [''build'', ''publicPath''])
                                     (\<lambda>pp. ebind (needString ''formatRouterBase'' pp)
                                        (\<lambda>s. ebind (formatRouterBase s)
                                           (\<lambda>b. setPath cfg [''build'', ''vueRouterBase'']
                                                   (JStr b))))))]"

subsection \<open>Lines 882-995: source files, dev server protocol, server-side rendering\<close>

definition pass_sourceFiles :: "env \<Rightarrow> json \<Rightarrow> js_error + json" where
  "pass_sourceFiles env =
     mergeDefaultsAt ''sourceFiles''
       [(''rootComponent'', JStr ''src/App.vue''),
        (''router'', JStr ''src/router/index''),
        (''store'', JStr (''src/'' @ storeProvider_pathKey env @ ''/index'')),
        (''indexHtmlTemplate'', JStr ''index.html''),
        (''pwaRegisterServiceWorker'', JStr ''src-pwa/register-service-worker''),
        (''pwaServiceWorker'', JStr ''src-pwa/custom-service-worker''),
        (''pwaManifestFile'', JStr ''src-pwa/manifest.json''),
        (''electronMain'', JStr ''src-electron/electron-main''),
        (''bexManifestFile'', JStr ''src-bex/manifest.json'')]"

text \<open>Lines 896-903.\<close>

definition pass_filesValidation :: "env \<Rightarrow> bool \<Rightarrow> json \<Rightarrow> json act" where
  "pass_filesValidation env failOnError cfg =
     bindA (lift (getp cfg ''sourceFiles''))
       (\<lambda>sf. if \<not> appFilesValidations env sf
              then failSite failOnError ValidationError
                     ''Files validation not passed successfully''
                     (''. Please fix the issues.'' @ nl)
              else ret cfg)"

text \<open>Lines 905-917.\<close>

definition pass_store :: "env \<Rightarrow> json \<Rightarrow> js_error + json" where
  "pass_store env =
     echain [(\<lambda>cfg. ebind (getPath cfg [''sourceFiles'', ''store''])
                       (\<lambda>st. ebind (needString ''resolve.app'' st)
                          (\<lambda>s. assignAt [''metaConf'']
                                  [(''hasStore'',
                                      JBool (resolveExtension env (resolve_app env s) \<noteq> JUndefined)),
                                   (''storePackage'', storeProvider_name env)]
                                  cfg))),
             (\<lambda>cfg. ebind (getp cfg ''preFetch'')
                       (\<lambda>p. setp cfg ''preFetch'' (if truthy p then p else JBool False))),
             (\<lambda>cfg. ebind (getPath cfg [''capacitor'', ''capacitorCliPreparationParams''])
                       (\<lambda>ps. ebind (lengthIsZero ps)
                          (\<lambda>z. if ctx_mode_capacitor env \<and> z
                                then setPath cfg [''capacitor'', ''capacitorCliPreparationParams'']
                                       (JArr [JStr ''sync'', ctx_targetName env])
                                else Inr cfg)))]"

text \<open>Lines 923-942.\<close>

definition pass_serverType :: "json \<Rightarrow> js_error + json" where
  "pass_serverType cfg =
     ebind (getPath cfg [''devServer'', ''server''])
       (\<lambda>srv.
          if isString srv
          then setPath cfg [''devServer'', ''server''] (JObj [(''type'', srv)])
          else ebind (getPath cfg [''devServer'', ''https''])
                 (\<lambda>https.
                    if https \<noteq> JUndefined then
                      ebind (delPath cfg [''devServer'', ''https''])
                        (\<lambda>cfg1.
                           if \<not> strictEq https (JBool False)
                           then setPath cfg1 [''devServer'', ''server'']
                                  (JObj ([(''type'', JStr ''https'')]
                                         @ (if isObject https then [(''options'', https)] else [])))
                           else Inr cfg1)
                    else Inr cfg))"

text \<open>
  Lines 959-971, for one of the properties \<^verbatim>\<open>ca\<close>, \<^verbatim>\<open>pfx\<close>, \<^verbatim>\<open>key\<close>, \<^verbatim>\<open>cert\<close>: a file that
  cannot be read is reported and the property removed.
\<close>

definition readCertificateFile :: "env \<Rightarrow> string \<Rightarrow> json \<Rightarrow> json act" where
  "readCertificateFile env prop cfg =
     bindA (lift (getPath cfg [''devServer'', ''server'', ''options'', prop]))
       (\<lambda>v. case v of
               JStr file \<Rightarrow>
                 (case readFileSync env file of
                    Some content \<Rightarrow>
                      lift (setPath cfg [''devServer'', ''server'', ''options'', prop] content)
                  | None \<Rightarrow>
                      andThen (emitAll [ConsoleError, ConsoleLog])
                        (bindA (lift (delPath cfg [''devServer'', ''server'', ''options'', prop]))
                           (\<lambda>cfg1.
                              andThen
                                (emit (Warn (''The devServer.server.options.'' @ prop
                                             @ '' file could not be read. Removed the config.'')))
                                (ret cfg1))))
             | _ \<Rightarrow> ret cfg)"

text \<open>Lines 944-973.\<close>

definition pass_https :: "env \<Rightarrow> json \<Rightarrow> json act" where
  "pass_https env cfg =
     (if ctx_dev env then
        bindA (lift (getPath cfg [''devServer'', ''server'', ''type'']))
          (\<lambda>t. if strictEq t (JStr ''https'') then
                  bindA (lift (getPath cfg [''devServer'', ''server'', ''options'']))
                    (\<lambda>options.
                       if options = JUndefined then
                         andThen (emit GetCertificate)
                           (lift (setPath cfg [''devServer'', ''server'', ''options'']
                                    (JObj [(''key'', sslCertificate env),
                                           (''cert'', sslCertificate env)])))
                       else
                         chain [readCertificateFile env ''ca'',
                                readCertificateFile env ''pfx'',
                                readCertificateFile env ''key'',
                                readCertificateFile env ''cert''] cfg)
                else ret cfg)
      else ret cfg)"

text \<open>Lines 975-995. Line 994 writes \<^verbatim>\<open>ctx.mode.pwa\<close>, in the context and in the result.\<close>

definition pass_ssr :: "env \<Rightarrow> json \<Rightarrow> json act" where
  "pass_ssr env cfg =
     (if ctx_mode_ssr env then
        bindA (lift (echain
                 [(\<lambda>c. ebind (getPath c [''ssr'', ''manualPostHydrationTrigger''])
                          (\<lambda>m. if \<not> strictEq m (JBool True)
                                then setPath c [''metaConf'', ''needsAppMountHook''] (JBool True)
                                else Inr c)),
                  normalizeAt [''ssr'', ''middlewares''] ''app/src-ssr/middlewares''] cfg))
          (\<lambda>cfg1.
             bindA (lift (getPath cfg1 [''ssr'', ''pwa'']))
               (\<lambda>pwa.
                  bindA (if strictEq pwa (JBool True) then
                           andThen (emit AddPwaMode)
                             (lift (setPath cfg1 [''build'', ''rawDefine'', ''__QUASAR_SSR_PWA__'']
                                      (JBool True)))
                         else ret cfg1)
                    (\<lambda>cfg2.
                       bindA (lift (setPath cfg2 [''ctx'', ''mode'', ''pwa'']
                                      (JBool (strictEq pwa (JBool True)))))
                         (\<lambda>cfg3.
                            andThen (modify (\<lambda>s. s\<lparr>modePwa := strictEq pwa (JBool True)\<rparr>))
                              (ret cfg3)))))
      else ret cfg)"

subsection \<open>Lines 997-1096: the dev server\<close>

text \<open>The second argument of the merge of lines 1006-1067.\<close>

definition devServerModeDefaults :: "env \<Rightarrow> json \<Rightarrow> json \<Rightarrow> json \<Rightarrow> json" where
  "devServerModeDefaults env publicPath htmlFilename vueRouterMode =
     (if ctx_mode_ssr env
      then JObj [(''devMiddleware'', JObj [(''index'', JBool False)]),
                 (''static'', JObj [(''serveIndex'', JBool False)])]
      else JObj [(''historyApiFallback'',
                    if strictEq vueRouterMode (JStr ''history'')
                    then JObj [(''index'',
                            JStr (toStr (if truthy publicPath then publicPath else JStr ''/'')
                                  @ toStr htmlFilename))]
                    else JBool False),
                 (''devMiddleware'', JObj [(''index'', htmlFilename)])])"

text \<open>Lines 998-1067.\<close>

definition pass_devServerDefaults :: "env \<Rightarrow> json \<Rightarrow> js_error + json" where
  "pass_devServerDefaults env cfg =
     (if ctx_dev env then
        ebind (getPath cfg [''devServer'', ''setupMiddlewares''])
          (\<lambda>originalSetup.
             ebind (if ctx_mode_bex env then
                      ebind (getPath cfg [''devServer'', ''devMiddleware''])
                        (\<lambda>dm. ebind (setPath cfg [''devServer'', ''devMiddleware'']
                                        (if truthy dm then dm else JObj []))
                           (\<lambda>c. setPath c [''devServer'', ''devMiddleware'', ''writeToDisk'']
                                   (JBool True)))
                    else Inr cfg)
               (\<lambda>cfg1.
                  ebind (getPath cfg1 [''build'', ''publicPath''])
                    (\<lambda>pp. ebind (getPath cfg1 [''build'', ''vueRouterMode''])
                       (\<lambda>rm. ebind (getPath cfg1 [''build'', ''htmlFilename''])
                          (\<lambda>hf. ebind (getp cfg1 ''devServer'')
                             (\<lambda>ds. ebind
                                (merge [(''hot'', JBool True),
                                        (''allowedHosts'', JStr ''all''),
                                        (''compress'', JBool True),
                                        (''open'', JBool True),
                                        (''client'', JObj [(''overlay'',
                                                      JObj [(''warnings'', JBool False)])]),
                                        (''server'', JObj [(''type'', JStr ''http'')]),
                                        (''devMiddleware'', JObj [(''publicPath'', pp),
                                                                  (''stats'', JBool False)])]
                                   [devServerModeDefaults env pp hf rm,
                                    ds,
                                    JObj [(''setupMiddlewares'', JFunction ''setupMiddlewares'')]])
                                (\<lambda>m. setp cfg1 ''devServer'' m)))))))
      else Inr cfg)"

text \<open>Lines 1069-1082.\<close>

definition pass_vueDevtools :: "env \<Rightarrow> json \<Rightarrow> json act" where
  "pass_vueDevtools env cfg =
     (if ctx_dev env then
        bindA (if strictEq (ctx_vueDevtools env) (JBool True) then ret True
               else bindA (lift (getPath cfg [''devServer'', ''vueDevtools'']))
                      (\<lambda>dv. ret (strictEq dv (JBool True))))
          (\<lambda>wanted.
             if wanted then
               bindA (getState vueDevtools)
                 (\<lambda>known.
                    bindA (case known of
                             Some hp \<Rightarrow> ret hp
                           | None \<Rightarrow>
                               bindA (lift (getPath cfg [''devServer'', ''host'']))
                                 (\<lambda>h. bindA (lift (stringReceiver ''toLowerCase'' h))
                                    (\<lambda>hs. andThen (emit (Probe (JNum 11111) (JStr ''0.0.0.0'')))
                                       (bindA (lift (findClosestOpenPort env (JNum 11111)
                                                       (JStr ''0.0.0.0'')))
                                          (\<lambda>port.
                                             let hp = (if toLowerCase hs \<in> set (localHostList env)
                                                       then JStr ''localhost'' else h, port)
                                             in andThen (modify (\<lambda>s. s\<lparr>vueDevtools := Some hp\<rparr>))
                                                  (ret hp))))))
                      (\<lambda>hp. lift (setPath cfg [''metaConf'', ''vueDevtools'']
                                     (JObj [(''host'', fst hp), (''port'', snd hp)]))))
             else ret cfg)
      else ret cfg)"

text \<open>Lines 1084-1095.\<close>

definition pass_openBrowser :: "env \<Rightarrow> json \<Rightarrow> js_error + json" where
  "pass_openBrowser env cfg =
     (if ctx_dev env then
        ebind (if ctx_mode_cordova env \<or> ctx_mode_capacitor env \<or> ctx_mode_electron env then
                 (if ctx_mode_electron env
                  then setPath cfg [''devServer'', ''server'', ''type''] (JStr ''http'')
                  else Inr cfg)
               else
                 ebind (getPath cfg [''devServer'', ''open''])
                   (\<lambda>opn. if truthy opn
                           then setPath cfg [''metaConf'', ''openBrowser'']
                                  (if \<not> isMinimalTerminal env then opn else JBool False)
                           else Inr cfg))
          (\<lambda>cfg1. delPath cfg1 [''devServer'', ''open''])
      else Inr cfg)"

subsection \<open>Lines 1098-1188: compression, progressive web app, URLs, environment\<close>

text \<open>Lines 1098-1115.\<close>

definition pass_gzip :: "env \<Rightarrow> json \<Rightarrow> js_error + json" where
  "pass_gzip env cfg =
     ebind (getPath cfg [''build'', ''gzip''])
       (\<lambda>g. if truthy g then
               (let gzip = (if strictEq g (JBool True) then JObj [] else g)
                in ebind (getp gzip ''extensions'')
                     (\<lambda>e. ebind (if truthy e then delp gzip ''extensions'' else Inr gzip)
                        (\<lambda>gzip1.
                           ebind (asArray ''join''
                                    (if truthy e then e else JArr [JStr ''js'', JStr ''css'']))
                             (\<lambda>ext.
                                ebind (newRegExp env
                                         ([CHR 0x5C] @ ''.('' @ arrJoin ''|'' ext @ '')$''))
                                  (\<lambda>test.
                                     ebind (merge [(''algorithm'', JStr ''gzip''),
                                                   (''test'', test),
                                                   (''threshold'', JNum 10240),
                                                   (''minRatio'', JDecimal 8 1)]
                                              [gzip1])
                                       (\<lambda>m. setPath cfg [''build'', ''gzip''] m))))))
             else Inr cfg)"

text \<open>Lines 1138-1143.\<close>

definition pwaFiles :: "env \<Rightarrow> json \<Rightarrow> js_error + json" where
  "pwaFiles env =
     echain [(\<lambda>cfg. ebind (getPath cfg [''build'', ''publicPath''])
                       (\<lambda>pp. ebind (getPath cfg [''pwa'', ''swFilename''])
                          (\<lambda>sw. setPath cfg [''build'', ''env'', ''SERVICE_WORKER_FILE'']
                                  (JStr (toStr pp @ toStr sw))))),
             (\<lambda>cfg. ebind (getPath cfg [''sourceFiles'', ''pwaManifestFile''])
                       (\<lambda>mf. ebind (needString ''resolve.app'' mf)
                          (\<lambda>s. setPath cfg [''metaConf'', ''pwaManifestFile'']
                                  (JStr (resolve_app env s))))),
             (\<lambda>cfg. ebind (getPath cfg [''sourceFiles'', ''pwaServiceWorker''])
                       (\<lambda>sw. ebind (needString ''resolve.app'' sw)
                          (\<lambda>s. let r = resolveExtension env (resolve_app env s)
                                in setPath cfg [''sourceFiles'', ''pwaServiceWorker'']
                                     (if truthy r then r else sw))))]"

text \<open>Lines 1117-1147. \<^verbatim>\<open>this.#ctx.mode.pwa\<close> is read from the state, where line 994 wrote it.\<close>

definition pass_pwa :: "env \<Rightarrow> bool \<Rightarrow> json \<Rightarrow> json act" where
  "pass_pwa env failOnError cfg =
     bindA (getState modePwa)
       (\<lambda>pwa.
          if pwa then
            bindA (lift (mergeDefaultsAt ''pwa''
                           [(''workboxMode'', JStr ''GenerateSW''),
                            (''injectPwaMetaTags'', JBool True),
                            (''swFilename'', JStr ''sw.js''),
                            (''manifestFilename'', JStr ''manifest.json''),
                            (''useCredentialsForManifestTag'', JBool False)] cfg))
              (\<lambda>cfg1.
                 bindA (lift (getPath cfg1 [''pwa'', ''workboxMode'']))
                   (\<lambda>wm.
                      if \<not> includesStr [''GenerateSW'', ''InjectManifest''] wm then
                        failSite failOnError ValidationError
                          (''Workbox strategy '' @ [CHR 0x22] @ toStr wm @ [CHR 0x22] @ '' is invalid. ''
                           @ ''Valid quasar.config file > pwa > workboxMode options are: GenerateSW or InjectManifest.'')
                          ('' Please fix it.'' @ nl)
                      else lift (pwaFiles env cfg1)))
          else if ctx_mode_bex env then
            lift (ebind (getPath cfg [''sourceFiles'', ''bexManifestFile''])
                    (\<lambda>mf. ebind (needString ''resolve.app'' mf)
                       (\<lambda>s. setPath cfg [''metaConf'', ''bexManifestFile'']
                               (JStr (resolve_app env s)))))
          else ret cfg)"

text \<open>Lines 1149-1160.\<close>

definition pass_appUrl :: "env \<Rightarrow> json \<Rightarrow> js_error + json" where
  "pass_appUrl env cfg =
     (if ctx_dev env then
        ebind (getPath cfg [''devServer'', ''host''])
          (\<lambda>h. ebind (getPath cfg [''devServer'', ''server'', ''type''])
             (\<lambda>t. ebind (getPath cfg [''devServer'', ''port''])
                (\<lambda>p. ebind (getPath cfg [''build'', ''publicPath''])
                   (\<lambda>pp.
                      let hostname = (if strictEq h (JStr ''0.0.0.0'') then JStr ''localhost'' else h)
                      in echain [(\<lambda>c. setPath c [''metaConf'', ''APP_URL'']
                                         (JStr (''http''
                                            @ (if strictEq t (JStr ''https'') then ''s'' else [])
                                            @ ''://'' @ toStr hostname @ '':'' @ toStr p @ toStr pp))),
                                 (\<lambda>c. setPath c [''metaConf'', ''getUrl''] (JFunction ''getUrl''))]
                           cfg))))
      else if ctx_mode_cordova env \<or> ctx_mode_capacitor env \<or> ctx_mode_bex env
      then setPath cfg [''metaConf'', ''APP_URL''] (JStr ''index.html'')
      else Inr cfg)"

text \<open>Lines 1162-1176.\<close>

definition pass_buildEnv :: "env \<Rightarrow> json \<Rightarrow> js_error + json" where
  "pass_buildEnv env =
     echain [(\<lambda>cfg. ebind (getPath cfg [''build'', ''env''])
                       (\<lambda>target. ebind (getPath cfg [''metaConf'', ''debugging''])
                          (\<lambda>debugging. ebind (getPath cfg [''build'', ''vueRouterMode''])
                             (\<lambda>rm. ebind (getPath cfg [''build'', ''vueRouterBase''])
                                (\<lambda>rb. ebind (objectAssign target
                                          [(''NODE_ENV'',
                                              JStr (if ctx_prod env then ''production''
                                                    else ''development'')),
                                           (''CLIENT'', JBool True),
                                           (''SERVER'', JBool False),
                                           (''DEV'', JBool (ctx_dev env)),
                                           (''PROD'', JBool (ctx_prod env)),
                                           (''DEBUGGING'', JBool (strictEq debugging (JBool True))),
                                           (''MODE'', JStr (ctx_modeName env)),
                                           (''VUE_ROUTER_MODE'', rm),
                                           (''VUE_ROUTER_BASE'', rb)])
                                   (\<lambda>t'. setPath cfg [''build'', ''env''] t')))))),
             (\<lambda>cfg. ebind (getPath cfg [''metaConf'', ''APP_URL''])
                       (\<lambda>u. if truthy u then setPath cfg [''build'', ''env'', ''APP_URL''] u
                             else Inr cfg))]"

text \<open>Lines 1178-1188.\<close>

definition pass_fileEnv :: "env \<Rightarrow> json \<Rightarrow> json act" where
  "pass_fileEnv env cfg =
     (case readFileEnv env cfg of
        (fileEnv, usedEnvFiles, envFromCache) \<Rightarrow>
          bindA (lift (setPath cfg [''metaConf'', ''fileEnv''] fileEnv))
            (\<lambda>cfg1.
               andThen
                 (if \<not> envFromCache \<and> usedEnvFiles \<noteq> []
                  then emit (Log (''Using .env files: '' @ arrJoin '', '' usedEnvFiles))
                  else ret ())
                 (ret cfg1)))"

subsection \<open>Lines 1190-1298: electron, HTML variables\<close>

text \<open>\<^verbatim>\<open>userCfg.electron?.k\<close>.\<close>

definition userElectron :: "json \<Rightarrow> string \<Rightarrow> js_error + json" where
  "userElectron userCfg k =
     ebind (getp userCfg ''electron'')
       (\<lambda>e. if e = JUndefined \<or> e = JNull then Inr JUndefined else getp e k)"

text \<open>Lines 1196-1202: the inspect port, probed once.\<close>

definition electronDev :: "env \<Rightarrow> json \<Rightarrow> json \<Rightarrow> json act" where
  "electronDev env userCfg cfg =
     bindA (getState electronInspectPort)
       (\<lambda>known.
          bindA (case known of
                   Some p \<Rightarrow> ret p
                 | None \<Rightarrow>
                     bindA (lift (userElectron userCfg ''inspectPort''))
                       (\<lambda>ip. let from = (if truthy ip then ip else JNum 5858)
                              in andThen (emit (Probe from (JStr ''127.0.0.1'')))
                                   (bindA (lift (findClosestOpenPort env from (JStr ''127.0.0.1'')))
                                      (\<lambda>p. andThen (modify (\<lambda>s. s\<lparr>electronInspectPort := Some p\<rparr>))
                                              (andThen (emit ConsoleLog) (ret p))))))
            (\<lambda>p. bindA (lift (getPath cfg [''electron'', ''inspectPort'']))
                    (\<lambda>_. andThen (emit ConsoleLog)
                            (lift (setPath cfg [''electron'', ''inspectPort''] p)))))"

text \<open>Lines 1249-1281, after the bundler is known.\<close>

definition electronBundler :: "json \<Rightarrow> js_error + json" where
  "electronBundler cfg =
     ebind (getPath cfg [''electron'', ''bundler''])
       (\<lambda>bundler. ebind (getPath cfg [''ctx'', ''targetName''])
          (\<lambda>target. ebind (getPath cfg [''ctx'', ''archName''])
             (\<lambda>arch.
                if strictEq bundler (JStr ''packager'') then
                  echain [(\<lambda>c. if truthy target
                                 then setPath c [''electron'', ''packager'', ''platform''] target
                                 else Inr c),
                          (\<lambda>c. if truthy arch
                                 then setPath c [''electron'', ''packager'', ''arch''] arch
                                 else Inr c)] cfg
                else
                  echain [(\<lambda>c. ebind (getPath c [''electron'', ''builder''])
                                  (\<lambda>b. setPath c [''electron'', ''builder''] (JObj [(''config'', b)]))),
                          (\<lambda>c. if includesStr [''mac'', ''darwin'', ''all''] target
                                 then setPath c [''electron'', ''builder'', ''mac''] (JArr [])
                                 else Inr c),
                          (\<lambda>c. if includesStr [''linux'', ''all''] target
                                 then setPath c [''electron'', ''builder'', ''linux''] (JArr [])
                                 else Inr c),
                          (\<lambda>c. if includesStr [''win'', ''win32'', ''all''] target
                                 then setPath c [''electron'', ''builder'', ''win''] (JArr [])
                                 else Inr c),
                          (\<lambda>c. if truthy arch
                                 then setPath c [''electron'', ''builder'', toStr arch] (JBool True)
                                 else Inr c),
                          (\<lambda>c. ebind (getPath c [''ctx'', ''publish''])
                                  (\<lambda>pub. if truthy pub
                                          then setPath c [''electron'', ''builder'', ''publish''] pub
                                          else Inr c))] cfg)))"

text \<open>Lines 1205-1283: the production branch.\<close>

definition electronProd :: "env \<Rightarrow> json \<Rightarrow> json act" where
  "electronProd env cfg =
     bindA (lift
        (ebind (getPath cfg [''build'', ''distDir''])
           (\<lambda>d. ebind (getp cfg ''electron'')
              (\<lambda>el. ebind (needString ''join'' d)
                 (\<lambda>dist.
                    let icon = resolve_electron env ''icons/icon.png'';
                        builderIcon =
                          (if process_platform env = ''linux''
                           then (if existsSync env icon then icon
                                 else resolve_electron env ''icons/linux-512x512.png'')
                           else resolve_electron env ''icons/icon'');
                        productName =
                          (if truthy (appPkg_productName env) then appPkg_productName env
                           else if truthy (appPkg_name env) then appPkg_name env
                           else JStr ''Quasar App'')
                    in ebind
                         (merge [(''packager'', JObj [(''asar'', JBool True),
                                    (''icon'', JStr (resolve_electron env ''icons/icon'')),
                                    (''overwrite'', JBool True)]),
                                 (''builder'', JObj [(''appId'', JStr ''quasar-app''),
                                    (''icon'', JStr builderIcon),
                                    (''productName'', productName),
                                    (''directories'',
                                       JObj [(''buildResources'', JStr (resolve_electron env []))])])]
                            [el,
                             JObj [(''packager'',
                                      JObj [(''dir'', JStr (path_join env dist ''UnPackaged'')),
                                            (''out'', JStr (path_join env dist ''Packaged''))]),
                                   (''builder'',
                                      JObj [(''directories'',
                                         JObj [(''app'', JStr (path_join env dist ''UnPackaged'')),
                                               (''output'', JStr (path_join env dist ''Packaged''))])])]])
                         (\<lambda>m. ebind (setp cfg ''electron'' m)
                            (\<lambda>cfg1. ebind (getPath cfg1 [''ctx'', ''bundlerName''])
                               (\<lambda>bn. if truthy bn
                                      then setPath cfg1 [''electron'', ''bundler''] bn
                                      else setIfFalsy [''electron'', ''bundler'']
                                             (electron_defaultName env) cfg1))))))))
       (\<lambda>cfg2.
          bindA (lift (getPath cfg2 [''electron'', ''bundler'']))
            (\<lambda>bundler.
               andThen (emit (EnsureElectronArgv bundler))
                 (bindA (lift (electronBundler cfg2))
                    (\<lambda>cfg3. andThen (emit (EnsureInstall bundler)) (ret cfg3)))))"

text \<open>Lines 1190-1285.\<close>

definition pass_electron :: "env \<Rightarrow> json \<Rightarrow> json \<Rightarrow> json act" where
  "pass_electron env userCfg cfg =
     (if ctx_mode_electron env then
        bindA (lift (ebind (userElectron userCfg ''preloadScripts'')
                       (\<lambda>ps. if \<not> truthy ps
                              then setPath cfg [''electron'', ''preloadScripts'']
                                     (JArr [JStr ''electron-preload''])
                              else Inr cfg)))
          (\<lambda>cfg1. if ctx_dev env then electronDev env userCfg cfg1 else electronProd env cfg1)
      else ret cfg)"

text \<open>Lines 1287-1296.\<close>

definition pass_htmlVariables :: "env \<Rightarrow> json \<Rightarrow> js_error + json" where
  "pass_htmlVariables env =
     echain [(\<lambda>cfg. ebind (getp cfg ''ctx'')
                       (\<lambda>ctx. ebind (getPath cfg [''build'', ''env''])
                          (\<lambda>benv. ebind (escapeHTMLTagContent (appPkg_productName env))
                             (\<lambda>pn. ebind (escapeHTMLAttribute (appPkg_description env))
                                (\<lambda>pd. mergeDefaultsAt ''htmlVariables''
                                         [(''ctx'', ctx),
                                          (''process'', JObj [(''env'', benv)]),
                                          (''productName'', pn),
                                          (''productDescription'', pd)] cfg))))),
             (\<lambda>cfg. if ctx_mode_capacitor env then
                       ebind (getPath cfg [''metaConf'', ''versions'', ''capacitorPluginSplashscreen''])
                         (\<lambda>v. if truthy v then
                                 ebind (getPath cfg [''capacitor'', ''hideSplashscreen''])
                                   (\<lambda>h. if \<not> strictEq h (JBool False)
                                         then setPath cfg [''metaConf'', ''needsAppMountHook'']
                                                (JBool True)
                                         else Inr cfg)
                               else Inr cfg)
                     else Inr cfg)]"

subsection \<open>The whole derivation\<close>

definition pure :: "(json \<Rightarrow> js_error + json) \<Rightarrow> json \<Rightarrow> json act" where
  "pure p cfg = lift (p cfg)"

text \<open>Lines 576-1298, on the configuration that line 571 builds.\<close>

definition passes :: "env \<Rightarrow> json \<Rightarrow> bool \<Rightarrow> (json \<Rightarrow> json act) list" where
  "passes env userCfg failOnError =
     [pure (pass_ssrDefaults env),
      pass_devServerAddress env failOnError,
      pure pass_assets,
      pure pass_componentCase,
      pure pass_framework,
      pure pass_eslint,
      pure (pass_build env),
      pure (pass_vendor env),
      pure (pass_transpile env),
      pure pass_esbuildTarget,
      pure (pass_routerMode env),
      pure (pass_distDir env),
      pure (pass_publicPath env),
      pure (pass_sourceFiles env),
      pass_filesValidation env failOnError,
      pure (pass_store env),
      pure pass_serverType,
      pass_https env,
      pass_ssr env,
      pure (pass_devServerDefaults env),
      pass_vueDevtools env,
      pure (pass_openBrowser env),
      pure (pass_gzip env),
      pass_pwa env failOnError,
      pure (pass_appUrl env),
      pure (pass_buildEnv env),
      pass_fileEnv env,
      pass_electron env userCfg,
      pure (pass_htmlVariables env)]"

text \<open>Lines 464-1298: what follows the removal of the temporary file.\<close>

definition derive :: "env \<Rightarrow> json \<Rightarrow> bool \<Rightarrow> json act" where
  "derive env userCfg failOnError =
     bindA (getState modePwa)
       (\<lambda>pwa. bindA (lift (mergeAll (skeleton env pwa) [userCfg]))
          (\<lambda>raw. bindA (pass_extensions env failOnError (pass_animationsAll env raw))
             (chain (passes env userCfg failOnError))))"

definition msgNotFunction :: string where
  "msgNotFunction = ''The default export value of the quasar.config file is not a function.''"

definition msgRuntimeErrors :: "env \<Rightarrow> string" where
  "msgRuntimeErrors env =
     ''The quasar.config file has runtime errors. Please check the Node.js stack above against the''
     @ '' temporarily created '' @ path_basename env (tempFile env) @ '' file''
     @ '' then DELETE it ('' @ [CHR 0x22] @ ''quasar clean --qconf'' @ [CHR 0x22] @ '' can be used).''"

definition msgNotObject :: string where
  "msgNotObject = ''The quasar.config file does not default exports an Object.''"

text \<open>
  \<^verbatim>\<open>#computeConfig(quasarConfigFn, failOnError)\<close> (source lines 413-1299). \<open>called\<close> is what
  \<^verbatim>\<open>await quasarConfigFn(this.#ctx)\<close> gives when \<^verbatim>\<open>quasarConfigFn\<close> is a function: the
  exception it throws or the value it resolves to.
\<close>

definition computeConfig :: "env \<Rightarrow> json \<Rightarrow> js_error + json \<Rightarrow> bool \<Rightarrow> json act" where
  "computeConfig env quasarConfigFn called failOnError =
     (if \<not> isFunction quasarConfigFn then
        andThen removeTempFile
          (failSite failOnError LoadError msgNotFunction ('' Please fix it.'' @ nl))
      else
        case called of
          Inl e \<Rightarrow>
            andThen (emitAll [ConsoleLog, ConsoleError])
              (failSite failOnError LoadError (msgRuntimeErrors env)
                 ('' Please fix the errors in the original file.'' @ nl))
        | Inr userCfg \<Rightarrow>
            if \<not> isObject userCfg then
              andThen removeTempFile
                (failSite failOnError ShapeError msgNotObject ('' Please fix it.'' @ nl))
            else
              andThen removeTempFile (derive env userCfg failOnError))"

section \<open>Reading the configuration file\<close>

text \<open>
  One compilation of the configuration module, as the code sees it: whether the compiler
  reported errors; what loading the compiled file gives, an exception or the value
  \<^verbatim>\<open>result.default || result\<close>; and what calling that value with the context gives when it
  is a function.
\<close>

record cycle =
  compileFails :: bool
  imported :: "js_error + json"
  called :: "js_error + json"

definition msgCompile :: string where
  "msgCompile = ''Could not compile the quasar.config file because it has errors.''"

definition msgBuildRuntime :: "env \<Rightarrow> string" where
  "msgBuildRuntime env =
     ''The quasar.config file has runtime errors. Please check the Node.js stack above against the''
     @ '' temporarily created '' @ path_basename env (tempFile env) @ '' file, fix the original file''
     @ '' then DELETE the temporary one ('' @ [CHR 0x22] @ ''quasar clean --qconf''
     @ [CHR 0x22] @ '' can be used).''"

definition msgImport :: "env \<Rightarrow> string" where
  "msgImport env =
     ''Importing quasar.config file results in error. Please check the''
     @ '' Node.js stack above against the temporarily created ''
     @ path_basename env (tempFile env) @ '' file''
     @ '' and fix the original file then DELETE the temporary one (''
     @ [CHR 0x22] @ ''quasar clean --qconf'' @ [CHR 0x22] @ '' can be used).''"

text \<open>The compiler writes its output file when, and only when, it compiled.\<close>

definition compilerOutput :: "cycle \<Rightarrow> unit act" where
  "compilerOutput cyc =
     (if compileFails cyc then ret ()
      else modify (\<lambda>s. s\<lparr>tempFileExists := True\<rparr>))"

text \<open>\<^verbatim>\<open>#build\<close> (source lines 273-304): the one-shot read.\<close>

definition build :: "env \<Rightarrow> cycle \<Rightarrow> json act" where
  "build env cyc =
     andThen (compilerOutput cyc)
       (if compileFails cyc then
          andThen removeTempFile
            (andThen (emitAll [ConsoleLog, ConsoleError])
               (fatal CompileError msgCompile))
        else
          case imported cyc of
            Inl e \<Rightarrow>
              andThen (emitAll [ConsoleLog, ConsoleError])
                (fatal LoadError (msgBuildRuntime env))
          | Inr quasarConfigFn \<Rightarrow> computeConfig env quasarConfigFn (called cyc) True)"

text \<open>
  Modelled from the spec: \<^verbatim>\<open>debounce\<close> of the package \<^verbatim>\<open>lodash\<close>, which is not part of this
  repository, with the wait of 550 that source line 191 passes and the defaults it leaves:
  a call restarts the wait and replaces the pending argument; when the wait has passed
  without another call the callback is invoked once, with the argument of the last call
  (section 4.2 of the specification). Time is a count of milliseconds.
\<close>

definition debounceWait :: nat where
  "debounceWait = 550"

definition debouncedCall :: "nat \<Rightarrow> json \<Rightarrow> unit act" where
  "debouncedCall now quasarConf =
     modify (\<lambda>s. s\<lparr>pendingUpdate := Some (now + debounceWait, quasarConf)\<rparr>)"

text \<open>The timer: at time \<open>now\<close> a pending call whose wait has passed reaches the callback.\<close>

definition fireTimer :: "nat \<Rightarrow> session \<Rightarrow> session" where
  "fireTimer now s =
     (case pendingUpdate s of
        Some (due, quasarConf) \<Rightarrow>
          if due \<le> now
          then s\<lparr>pendingUpdate := None, callbackCalls := callbackCalls s @ [quasarConf]\<rparr>
          else s
      | None \<Rightarrow> s)"

text \<open>What one rebuild ends with, when it neither gives up nor throws.\<close>

datatype delivery = Discarded | FirstBuildDone | Scheduled

text \<open>\<^verbatim>\<open>build.onStart\<close> of the watcher plugin (source lines 318-324).\<close>

definition onStart :: "unit act" where
  "onStart =
     bindA (getState isFirst)
       (\<lambda>first. if \<not> first
                 then emitAll [Log [],
                               Log ''The quasar.config file (or its dependencies) changed. Reading it again...'',
                               UpdateAppPackageJson]
                 else ret ())"

text \<open>
  \<^verbatim>\<open>build.onEnd\<close> of the watcher plugin (source lines 326-399), at time \<open>now\<close>. The first
  build resolves the promise that \<^verbatim>\<open>#buildAndWatch\<close> returned; a later one calls the
  debounced callback.
\<close>

definition onEnd :: "env \<Rightarrow> nat \<Rightarrow> cycle \<Rightarrow> delivery act" where
  "onEnd env now cyc =
     bindA (getState isFirst)
       (\<lambda>first. bindA (getState isWatching)
          (\<lambda>watching.
             if \<not> first \<and> \<not> watching then ret Discarded
             else if compileFails cyc then
               andThen removeTempFile
                 (failSite first CompileError msgCompile ('' Please fix them.'' @ nl))
             else
               case imported cyc of
                 Inl e \<Rightarrow>
                   andThen (emitAll [ConsoleLog, ConsoleError])
                     (failSite first LoadError (msgImport env) nl)
               | Inr quasarConfigFn \<Rightarrow>
                   bindA (computeConfig env quasarConfigFn (called cyc) first)
                     (\<lambda>quasarConf.
                        if first then
                          andThen (modify (\<lambda>s. s\<lparr>isFirst := False,
                                                   firstBuildResult := Some quasarConf\<rparr>))
                            (ret FirstBuildDone)
                        else
                          andThen (emit (Log ''Scheduled to apply quasar.config changes in 550ms''))
                            (andThen (debouncedCall now quasarConf) (ret Scheduled)))))"

text \<open>One rebuild of the watching compiler: start, compile, end.\<close>

definition rebuild :: "env \<Rightarrow> nat \<Rightarrow> cycle \<Rightarrow> delivery act" where
  "rebuild env now cyc =
     andThen onStart (andThen (compilerOutput cyc) (onEnd env now cyc))"

text \<open>\<^verbatim>\<open>watch()\<close> (source lines 247-249).\<close>

definition watch :: "session \<Rightarrow> session" where
  "watch s = s\<lparr>isWatching := True\<rparr>"

text \<open>
  What happens to a watching session: the compiler finishes a rebuild at some time, the
  caller issues \<^verbatim>\<open>watch()\<close>, or time passes.
\<close>

datatype event =
    Rebuild nat env cycle
  | Watch
  | Tick nat

definition step :: "event \<Rightarrow> delivery act" where
  "step ev =
     (case ev of
        Rebuild now env cyc \<Rightarrow> (\<lambda>s. rebuild env now cyc (fireTimer now s))
      | Watch \<Rightarrow> (\<lambda>s. (Ok Discarded, watch s))
      | Tick now \<Rightarrow> (\<lambda>s. (Ok Discarded, fireTimer now s)))"

text \<open>
  A run of events. A rebuild that gave up with a warning leaves the session running; the
  end of the process, or an exception that nothing catches, ends the run.
\<close>

fun run :: "event list \<Rightarrow> session \<Rightarrow> unit outcome \<times> session" where
  "run [] s = (Ok (), s)"
| "run (ev # evs) s =
     (case step ev s of
        (Ok _, s') \<Rightarrow> run evs s'
      | (Stopped _, s') \<Rightarrow> run evs s'
      | (Exited k, s') \<Rightarrow> (Exited k, s')
      | (Threw e, s') \<Rightarrow> (Threw e, s'))"

text \<open>
  The state a session starts in. The two module-level variables of source line 117 and
  the flag \<^verbatim>\<open>ctx.mode.pwa\<close> are whatever the process left them at.
\<close>

definition startSession :: "bool \<Rightarrow> string option \<Rightarrow> bool \<Rightarrow> session" where
  "startSession running cached pwa =
     \<lparr>address = None, isWatching = False, vueDevtools = None, electronInspectPort = None,
      modePwa = pwa, cachedExternalHost = cached, addressRunning = running,
      tempFileExists = False, isFirst = True, firstBuildResult = None,
      pendingUpdate = None, callbackCalls = [], trace = []\<rparr>"

section \<open>Properties of steps\<close>

text \<open>
  A step obeys \<open>I\<close>, \<open>R\<close>, \<open>S\<close>, \<open>E\<close> when, started in a state where \<open>I\<close> holds, it ends in a
  state where \<open>I\<close> holds and that \<open>R\<close> relates to the start, in which \<open>S\<close> holds if the step
  gave up with a warning and \<open>E\<close> if it ended the process.
\<close>

definition obeys ::
  "(session \<Rightarrow> bool) \<Rightarrow> (session \<Rightarrow> session \<Rightarrow> bool) \<Rightarrow> (session \<Rightarrow> bool) \<Rightarrow> (session \<Rightarrow> bool)
   \<Rightarrow> 'a act \<Rightarrow> bool" where
  "obeys I R S E m =
     (\<forall>s. I s \<longrightarrow>
        (case m s of
           (r, s') \<Rightarrow> I s' \<and> R s s'
                      \<and> (\<forall>k. r = Stopped k \<longrightarrow> S s')
                      \<and> (\<forall>k. r = Exited k \<longrightarrow> E s')))"

text \<open>An effect that neither reports a fatal error nor ends the process.\<close>

definition benign :: "effect \<Rightarrow> bool" where
  "benign e = (case e of Fatal _ \<Rightarrow> False | ProcessExit \<Rightarrow> False | _ \<Rightarrow> True)"

text \<open>
  A change of the state that stays inside the derivation: it leaves alone the temporary
  file, the phase of the session, what reached the caller, the flag \<^verbatim>\<open>ctx.mode.pwa\<close> and
  the trace, and it does not clear \<^verbatim>\<open>addressRunning\<close>.
\<close>

definition internalUpdate :: "(session \<Rightarrow> session) \<Rightarrow> bool" where
  "internalUpdate f =
     (\<forall>s. tempFileExists (f s) = tempFileExists s
          \<and> isFirst (f s) = isFirst s
          \<and> isWatching (f s) = isWatching s
          \<and> firstBuildResult (f s) = firstBuildResult s
          \<and> pendingUpdate (f s) = pendingUpdate s
          \<and> callbackCalls (f s) = callbackCalls s
          \<and> modePwa (f s) = modePwa s
          \<and> trace (f s) = trace s
          \<and> (addressRunning s \<longrightarrow> addressRunning (f s)))"

text \<open>
  What \<open>I\<close>, \<open>R\<close>, \<open>S\<close>, \<open>E\<close> must allow for the derivation with a given \<open>failOnError\<close> to obey
  them: \<open>R\<close> is a preorder, and each thing the derivation does to the state obeys them.
\<close>

definition suitable ::
  "(session \<Rightarrow> bool) \<Rightarrow> (session \<Rightarrow> session \<Rightarrow> bool) \<Rightarrow> (session \<Rightarrow> bool) \<Rightarrow> (session \<Rightarrow> bool)
   \<Rightarrow> bool \<Rightarrow> bool" where
  "suitable I R S E failOnError =
     ((\<forall>s. R s s)
      \<and> (\<forall>s s' s''. R s s' \<longrightarrow> R s' s'' \<longrightarrow> R s s'')
      \<and> (\<forall>e s. I s \<longrightarrow> benign e \<longrightarrow>
             I (s\<lparr>trace := trace s @ [e]\<rparr>) \<and> R s (s\<lparr>trace := trace s @ [e]\<rparr>))
      \<and> (\<forall>f s. internalUpdate f \<longrightarrow> I s \<longrightarrow> I (f s) \<and> R s (f s))
      \<and> (\<forall>k msg extra. obeys I R S E (failSite failOnError k msg extra :: json act)))"

text \<open>
  The end of \<^verbatim>\<open>onAddress\<close> after a failed probe (lines 160-164) obeys them too; this is
  asked only of a derivation that may call \<^verbatim>\<open>onAddress\<close>.
\<close>

definition exitOk ::
  "(session \<Rightarrow> bool) \<Rightarrow> (session \<Rightarrow> session \<Rightarrow> bool) \<Rightarrow> (session \<Rightarrow> bool) \<Rightarrow> (session \<Rightarrow> bool)
   \<Rightarrow> bool" where
  "exitOk I R S E =
     (\<forall>k. obeys I R S E
            (bindA (getState addressRunning)
               (\<lambda>running. if \<not> running then processExit k else ret JNull)))"

text \<open>
  The write of \<^verbatim>\<open>ctx.mode.pwa\<close> (line 994) obeys them too; this is asked only of a
  derivation for server-side rendering, the one that reaches that line.
\<close>

definition pwaOk ::
  "(session \<Rightarrow> bool) \<Rightarrow> (session \<Rightarrow> session \<Rightarrow> bool) \<Rightarrow> (session \<Rightarrow> bool) \<Rightarrow> (session \<Rightarrow> bool)
   \<Rightarrow> bool" where
  "pwaOk I R S E = (\<forall>b. obeys I R S E (modify (\<lambda>s. s\<lparr>modePwa := b\<rparr>)))"

text \<open>The derivation calls \<^verbatim>\<open>onAddress\<close> under these conditions only (lines 588 and 625).\<close>

definition usesOnAddress :: "env \<Rightarrow> bool" where
  "usesOnAddress env =
     (ctx_dev env \<and> \<not> ctx_mode_bex env \<and> strictEq (opts_verifyAddress env) (JBool True))"

text \<open>
  The fields through which a session reaches its caller hold the same values: the first
  result, the pending and the delivered updates, and the phase of the session.
\<close>

definition sameValues :: "session \<Rightarrow> session \<Rightarrow> bool" where
  "sameValues s s' =
     (firstBuildResult s' = firstBuildResult s
      \<and> pendingUpdate s' = pendingUpdate s
      \<and> callbackCalls s' = callbackCalls s
      \<and> isFirst s' = isFirst s
      \<and> isWatching s' = isWatching s)"

text \<open>The trace grew, and by nothing that reports a fatal error or ends the process.\<close>

definition quietlyExtends :: "session \<Rightarrow> session \<Rightarrow> bool" where
  "quietlyExtends s s' = (\<exists>es. trace s' = trace s @ es \<and> (\<forall>e \<in> set es. benign e))"

definition isWarn :: "effect \<Rightarrow> bool" where
  "isWarn e = (case e of Warn _ \<Rightarrow> True | _ \<Rightarrow> False)"

definition endsWithWarning :: "session \<Rightarrow> bool" where
  "endsWithWarning s = (trace s \<noteq> [] \<and> isWarn (last (trace s)))"

text \<open>
  Every configuration that reached the caller holds the context object \<^verbatim>\<open>this.#ctx\<close> by
  reference: \<^verbatim>\<open>merge\<close> keeps the \<^verbatim>\<open>ctx\<close> of its first argument (lines 466-467), and the
  derivation writes one field of it, \<^verbatim>\<open>ctx.mode.pwa\<close> (line 994), which the session holds
  as \<^verbatim>\<open>modePwa\<close>. What was delivered is the same object as before when its values are the
  same and that flag is.
\<close>

definition sameContext :: "session \<Rightarrow> session \<Rightarrow> bool" where
  "sameContext s s' = (modePwa s' = modePwa s)"

text \<open>
  Nothing reached the caller and the trace grew by nothing fatal; with \<open>shared\<close>, the
  context object that the delivered configurations share was not written either.
\<close>

definition quietly :: "bool \<Rightarrow> session \<Rightarrow> session \<Rightarrow> bool" where
  "quietly shared s s' =
     (sameValues s s' \<and> (shared \<longrightarrow> sameContext s s') \<and> quietlyExtends s s')"

text \<open>The temporary file and what reached the caller are as they were.\<close>

definition untouched :: "session \<Rightarrow> session \<Rightarrow> bool" where
  "untouched s s' = (tempFileExists s' = tempFileExists s \<and> sameValues s s')"

text \<open>
  The compiled file was written and then threw, when it was loaded or when the function
  it exports was called: the case in which the code leaves the file on disk.
\<close>

definition leftForInspection :: "cycle \<Rightarrow> bool" where
  "leftForInspection cyc =
     (\<not> compileFails cyc
      \<and> (case imported cyc of
             Inl _ \<Rightarrow> True
           | Inr quasarConfigFn \<Rightarrow> isFunction quasarConfigFn \<and> isl (called cyc)))"

text \<open>The state in which \<^verbatim>\<open>onEnd\<close> finds the session.\<close>

definition atEnd :: "cycle \<Rightarrow> session \<Rightarrow> session" where
  "atEnd cyc s = snd (compilerOutput cyc (snd (onStart s)))"

text \<open>The state in which the derivation starts, line 462 having removed the temporary file.\<close>

definition atDerive :: "cycle \<Rightarrow> session \<Rightarrow> session" where
  "atDerive cyc s =
     (atEnd cyc s)\<lparr>tempFileExists := False, trace := trace (atEnd cyc s) @ [RemoveTempFile]\<rparr>"

text \<open>
  The error that a cycle meets before the derivation starts, if any: the compilation fails
  (lines 331-344), loading the compiled file throws (lines 351-366), the export is not a
  function (lines 414-424), calling it throws (lines 432-447), or it returns no object
  (lines 449-460).
\<close>

definition earlyError :: "cycle \<Rightarrow> error_kind option" where
  "earlyError cyc =
     (if compileFails cyc then Some CompileError
      else case imported cyc of
             Inl _ \<Rightarrow> Some LoadError
           | Inr quasarConfigFn \<Rightarrow>
               if \<not> isFunction quasarConfigFn then Some LoadError
               else case called cyc of
                      Inl _ \<Rightarrow> Some LoadError
                    | Inr userCfg \<Rightarrow> if \<not> isObject userCfg then Some ShapeError else None)"

text \<open>The last things reported are a fatal error and the end of the process.\<close>

definition endsFatally :: "session \<Rightarrow> bool" where
  "endsFatally s =
     (case rev (trace s) of
        ProcessExit # Fatal _ # _ \<Rightarrow> True
      | _ \<Rightarrow> False)"

text \<open>
  Two runs of a step that differ in \<^verbatim>\<open>failOnError\<close> only: where the lenient one gives up
  with a warning, the strict one has reported the same message as fatal and ended the
  process, from the same state; in every other case the two do the same.
\<close>

definition fatalTwin :: "'a act \<Rightarrow> 'a act \<Rightarrow> bool" where
  "fatalTwin strict lenient =
     (\<forall>s. case lenient s of
            (Stopped k, s') \<Rightarrow>
              (\<exists>msg extra s0.
                  s' = s0\<lparr>trace := trace s0 @ [Warn (msg @ extra)]\<rparr>
                  \<and> strict s = (Exited k, s0\<lparr>trace := trace s0 @ [Fatal msg, ProcessExit]\<rparr>))
          | (r, s') \<Rightarrow> strict s = (r, s'))"
section \<open>A concrete session\<close>

text \<open>
  An environment, compilations and session states to run the model on: a single-page
  application in development, no extension installed, every port free.
\<close>

definition exampleEnv :: env where
  "exampleEnv =
     \<lparr>opts_host = JUndefined, opts_port = JUndefined, opts_verifyAddress = JBool True,
      ctx_dev = True, ctx_prod = False, ctx_debug = False, ctx_modeName = ''spa'',
      ctx_mode_ssr = False, ctx_mode_bex = False, ctx_mode_cordova = False,
      ctx_mode_capacitor = False, ctx_mode_electron = False,
      ctx_targetName = JUndefined, ctx_archName = JUndefined, ctx_bundlerName = JUndefined,
      ctx_publish = JUndefined, ctx_vueDevtools = JBool False,
      quasarPkg_version = ''2.0.0'', appPkg_productName = JStr ''App'',
      appPkg_name = JStr ''app'', appPkg_description = JStr ''An app'',
      appPaths_srcDir = ''/app/src'', appPaths_appDir = ''/app'',
      resolve_app = (\<lambda>d. ''/app/'' @ d), resolve_src = (\<lambda>d. ''/app/src/'' @ d),
      resolve_electron = (\<lambda>d. ''/app/src-electron/'' @ d),
      versions = [], cssVariables = [], storeProvider_pathKey = ''stores'',
      storeProvider_name = JStr ''pinia'', transformAssetUrls = JObj [],
      animationsModule = JArr [], extensionHooks = [],
      localHostList = [''0.0.0.0'', ''localhost'', ''127.0.0.1'', ''::1''],
      getExternalIP = ''192.168.1.5'',
      findClosestOpenPort = (\<lambda>p h. Inr p),
      appFilesValidations = (\<lambda>_. True), resolveExtension = (\<lambda>_. JUndefined),
      isMinimalTerminal = False, readFileEnv = (\<lambda>_. (JObj [], [], False)),
      sslCertificate = JStr ''certificate'', readFileSync = (\<lambda>_. None),
      existsSync = (\<lambda>_. False), process_platform = ''linux'',
      path_join = (\<lambda>a b. a @ ''/'' @ b), path_basename = (\<lambda>p. p),
      path_dirname = (\<lambda>p. p), path_isAbsolute = (\<lambda>p. startsWith p ''/''),
      electron_defaultName = JStr ''packager'', regexpValid = (\<lambda>_. True),
      green = (\<lambda>s. s), dim = (\<lambda>s. s),
      tempFile = ''quasar.config.js.temporary.compiled.1.mjs''\<rparr>"

text \<open>A compilation that succeeds and yields the empty configuration.\<close>

definition goodCycle :: cycle where
  "goodCycle =
     \<lparr>compileFails = False, imported = Inr (JFunction ''config''), called = Inr (JObj [])\<rparr>"

text \<open>A compilation with syntax errors.\<close>

definition brokenCycle :: cycle where
  "brokenCycle =
     \<lparr>compileFails = True, imported = Inl (SyntaxError ''unused''), called = Inr JUndefined\<rparr>"

text \<open>A compilation whose output throws when it is loaded.\<close>

definition throwingCycle :: cycle where
  "throwingCycle =
     \<lparr>compileFails = False, imported = Inl (TypeError ''thrown by the module''),
      called = Inr JUndefined\<rparr>"

text \<open>A compilation whose function returns \<^verbatim>\<open>null\<close>.\<close>

definition shapelessCycle :: cycle where
  "shapelessCycle =
     \<lparr>compileFails = False, imported = Inr (JFunction ''config''), called = Inr JNull\<rparr>"

text \<open>The environment with one App Extension installed, whose hook throws.\<close>

definition hookedEnv :: env where
  "hookedEnv =
     exampleEnv\<lparr>extensionHooks := [(''ext'', \<lambda>_. Inl (HookError ''thrown by the hook''))]\<rparr>"

text \<open>
  A session whose first build was delivered, with the address it bound: before the caller
  issued \<^verbatim>\<open>watch()\<close>, and after.
\<close>

definition pendingSession :: session where
  "pendingSession =
     \<lparr>address = Some \<lparr>from_host = JStr ''0.0.0.0'', from_port = JNum 9000,
                      to_host = JStr ''0.0.0.0'', to_port = JNum 9000\<rparr>,
      isWatching = False, vueDevtools = None, electronInspectPort = None,
      modePwa = False, cachedExternalHost = None, addressRunning = True,
      tempFileExists = False, isFirst = False, firstBuildResult = Some (JObj []),
      pendingUpdate = None, callbackCalls = [], trace = []\<rparr>"

definition liveSession :: session where
  "liveSession = watch pendingSession"

text \<open>
  A configuration that requests \<open>0.0.0.0:9000\<close>, and an environment in which that port is
  taken and 9001 is the closest free one.
\<close>

definition requestCfg :: json where
  "requestCfg =
     JObj [(''devServer'', JObj [(''host'', JStr ''0.0.0.0''), (''port'', JNum 9000)])]"

definition busyEnv :: env where
  "busyEnv = exampleEnv\<lparr>findClosestOpenPort := (\<lambda>p h. Inr (JNum 9001))\<rparr>"

text \<open>The environment of an application whose source files do not pass validation.\<close>

definition invalidEnv :: env where
  "invalidEnv = exampleEnv\<lparr>appFilesValidations := (\<lambda>_. False)\<rparr>"
section \<open>Shapes of configurations\<close>

text \<open>
  The shape of a value: its type, the exact value, or an object with given shapes under
  given keys. \<open>Falsy\<close> is what a condition takes for false, \<open>Isnt x\<close> any value but \<open>x\<close>.
\<close>

datatype shape =
    Any
  | Exactly json
  | Isnt json
  | Falsy
  | AString
  | AnArray
  | AnObject "(string \<times> shape) list"

fun conforms :: "json \<Rightarrow> shape \<Rightarrow> bool"
  and conformsAll :: "props \<Rightarrow> (string \<times> shape) list \<Rightarrow> bool" where
  "conforms v Any = True"
| "conforms v (Exactly x) = (v = x)"
| "conforms v (Isnt x) = (v \<noteq> x)"
| "conforms v Falsy = (\<not> truthy v)"
| "conforms v AString = (case v of JStr _ \<Rightarrow> True | _ \<Rightarrow> False)"
| "conforms v AnArray = (case v of JArr _ \<Rightarrow> True | _ \<Rightarrow> False)"
| "conforms v (AnObject fs) = (case v of JObj kv \<Rightarrow> conformsAll kv fs | _ \<Rightarrow> False)"
| "conformsAll kv [] = True"
| "conformsAll kv (f # fs) =
     (conforms (lookup kv (fst f)) (snd f) \<and> conformsAll kv fs)"

text \<open>
  The fixed schema of a resolved configuration: every documented top-level key, with the
  type the default skeleton gives it.
\<close>

definition documentedSchema :: shape where
  "documentedSchema =
     AnObject [(''boot'', AnArray), (''css'', AnArray), (''extras'', AnArray),
               (''animations'', AnArray),
               (''framework'', AnObject []), (''vendor'', AnObject []),
               (''eslint'', AnObject []), (''sourceFiles'', AnObject []),
               (''htmlVariables'', AnObject []), (''devServer'', AnObject []),
               (''build'', AnObject []), (''ssr'', AnObject []), (''pwa'', AnObject []),
               (''electron'', AnObject []), (''cordova'', AnObject []),
               (''capacitor'', AnObject []), (''bex'', AnObject []),
               (''metaConf'', AnObject [])]"

text \<open>
  What is known of the configuration between two passes when the user supplied nothing:
  a shape for every key that some pass changes, and below the keys that keep their shape
  throughout.
\<close>

record shapes =
  devServerS :: shape
  buildS :: shape
  sourceFilesS :: shape
  vendorS :: shape
  pwaS :: shape

definition stage :: "env \<Rightarrow> shapes \<Rightarrow> shape" where
  "stage env sh =
     AnObject [(''ctx'', AnObject [(''mode'', AnObject []),
                                   (''bundlerName'', Exactly (ctx_bundlerName env)),
                                   (''targetName'', Exactly (ctx_targetName env)),
                                   (''archName'', Exactly (ctx_archName env)),
                                   (''publish'', Exactly (ctx_publish env))]),
               (''boot'', Exactly (JArr [])),
               (''css'', Exactly (JArr [])),
               (''extras'', Exactly (JArr [])),
               (''animations'', Exactly (JArr [])),
               (''framework'', AnObject [(''components'', Exactly (JArr [])),
                                         (''directives'', Exactly (JArr [])),
                                         (''plugins'', Exactly (JArr [])),
                                         (''config'', Exactly (JObj []))]),
               (''vendor'', vendorS sh),
               (''eslint'', AnObject []),
               (''sourceFiles'', sourceFilesS sh),
               (''htmlVariables'', AnObject []),
               (''devServer'', devServerS sh),
               (''build'', buildS sh),
               (''ssr'', AnObject [(''middlewares'', Exactly (JArr [])),
                                   (''pwa'', Isnt (JBool True)),
                                   (''manualPostHydrationTrigger'', Isnt (JBool True))]),
               (''pwa'', pwaS sh),
               (''electron'', AnObject [(''packager'', AnObject []),
                                        (''builder'', AnObject [])]),
               (''cordova'', AnObject []),
               (''capacitor'', AnObject [(''capacitorCliPreparationParams'', AnArray),
                                         (''hideSplashscreen'', Exactly JUndefined)]),
               (''bex'', AnObject [(''minify'', Exactly JUndefined)]),
               (''metaConf'', AnObject [(''debugging'',
                                           Exactly (JBool (ctx_dev env \<or> ctx_debug env))),
                                        (''versions'', Exactly (JObj (versions env)))])]"

text \<open>
  The dev server options: as the defaults of lines 466-539 have them, after the address
  was bound (lines 588-650), and after the defaults of lines 997-1067 were merged in.
\<close>

definition devServer0 :: shape where
  "devServer0 = Exactly (JObj [(''server'', JObj [])])"

definition hostShape :: "env \<Rightarrow> shape" where
  "hostShape env =
     (if ctx_dev env \<and> \<not> ctx_mode_bex env then AString else Exactly JUndefined)"

definition devServer1 :: "env \<Rightarrow> shape" where
  "devServer1 env =
     AnObject [(''server'', Exactly (JObj [])),
               (''host'', hostShape env),
               (''https'', Exactly JUndefined),
               (''setupMiddlewares'', Exactly JUndefined),
               (''devMiddleware'', Exactly JUndefined),
               (''vueDevtools'', Exactly JUndefined)]"

definition devServer2 :: "env \<Rightarrow> shape" where
  "devServer2 env =
     AnObject [(''server'', AnObject []),
               (''host'', hostShape env),
               (''vueDevtools'', Exactly JUndefined)]"

text \<open>
  The build options: as the defaults have them, after the defaults of lines 716-815 were
  merged in, and after the public path was formatted (lines 872-880).
\<close>

definition build0 :: "env \<Rightarrow> shape" where
  "build0 env = Exactly (lookup (skeleton env False) ''build'')"

definition build1 :: shape where
  "build1 =
     AnObject [(''esbuildTarget'', AnObject []),
               (''webpackTranspileDependencies'', Exactly (JArr [])),
               (''distDir'', AString),
               (''publicPath'', Exactly JUndefined),
               (''vueRouterBase'', Exactly JUndefined),
               (''gzip'', Falsy),
               (''env'', AnObject []),
               (''rawDefine'', AnObject [])]"

definition build2 :: shape where
  "build2 =
     AnObject [(''distDir'', AString),
               (''publicPath'', AString),
               (''gzip'', Falsy),
               (''env'', AnObject []),
               (''rawDefine'', AnObject [])]"

definition sourceFiles1 :: shape where
  "sourceFiles1 =
     AnObject [(''store'', AString),
               (''pwaManifestFile'', AString),
               (''pwaServiceWorker'', AString),
               (''bexManifestFile'', AString)]"

definition vendor0 :: shape where
  "vendor0 = Exactly (JObj [(''add'', JArr []), (''remove'', JArr [])])"

text \<open>The shapes of the defaults of lines 466-539, before any pass.\<close>

definition initialShapes :: "env \<Rightarrow> shapes" where
  "initialShapes env =
     \<lparr>devServerS = devServer0, buildS = build0 env,
      sourceFilesS = Exactly (JObj []), vendorS = vendor0, pwaS = Exactly (JObj [])\<rparr>"

text \<open>The shapes when the files validation of lines 896-903 is reached, and at the end.\<close>

definition validationShapes :: "env \<Rightarrow> shapes" where
  "validationShapes env =
     \<lparr>devServerS = devServer1 env, buildS = build2, sourceFilesS = sourceFiles1,
      vendorS = AnObject [], pwaS = Exactly (JObj [])\<rparr>"

definition finalShapes :: "env \<Rightarrow> shapes" where
  "finalShapes env =
     \<lparr>devServerS = devServer2 env, buildS = build2, sourceFilesS = AnObject [],
      vendorS = AnObject [], pwaS = AnObject []\<rparr>"

text \<open>
  What the derivation needs of its surroundings to go through when the user supplied
  nothing: no App Extension is installed, the source files pass validation, a free port is
  always found, the host of the command line and the product name and description of
  \<^verbatim>\<open>package.json\<close> are strings if given, the mode has a default port if none is given, and
  the Vue devtools are not asked for in a browser extension.
\<close>

definition cooperative :: "env \<Rightarrow> bool" where
  "cooperative env =
     (extensionHooks env = []
      \<and> (\<forall>sf. appFilesValidations env sf)
      \<and> (\<forall>p h. \<exists>q. findClosestOpenPort env p h = Inr q)
      \<and> (truthy (opts_host env) \<longrightarrow> isString (opts_host env))
      \<and> (truthy (appPkg_productName env) \<longrightarrow> isString (appPkg_productName env))
      \<and> (truthy (appPkg_description env) \<longrightarrow> isString (appPkg_description env))
      \<and> (ctx_dev env \<and> \<not> ctx_mode_bex env \<and> \<not> truthy (opts_port env)
           \<longrightarrow> defaultPortMapping (ctx_modeName env) \<noteq> None)
      \<and> \<not> (ctx_dev env \<and> ctx_mode_bex env \<and> ctx_vueDevtools env = JBool True))"

text \<open>
  The address cache holds a host that is a string: what a binding leaves when the
  requested host was one.
\<close>

definition typedCache :: "session \<Rightarrow> bool" where
  "typedCache s = (case address s of None \<Rightarrow> True | Some c \<Rightarrow> isString (to_host c))"

text \<open>
  A pass that succeeds: from a configuration with property \<open>P\<close>, in a session whose
  address cache is typed, it returns a configuration with property \<open>Q\<close> and leaves such a
  session.
\<close>

definition yields :: "(json \<Rightarrow> bool) \<Rightarrow> (json \<Rightarrow> json act) \<Rightarrow> (json \<Rightarrow> bool) \<Rightarrow> bool" where
  "yields P m Q =
     (\<forall>cfg s. P cfg \<and> typedCache s \<longrightarrow>
        (\<exists>cfg' s'. m cfg s = (Ok cfg', s') \<and> Q cfg' \<and> typedCache s'))"

section \<open>Theorems\<close>

subsection \<open>Steps of the derivation obey what its primitives obey\<close>

named_theorems obeys_intros

lemma benign_simps [simp]:
  "benign (Log a)" "benign (Warn a)" "benign (Tip a)" "\<not> benign (Fatal a)"
  "benign ConsoleLog" "benign ConsoleError" "\<not> benign ProcessExit" "benign RemoveTempFile"
  "benign (Probe p h)" "benign QueryExternalIP" "benign UpdateAppPackageJson"
  "benign AddPwaMode" "benign GetCertificate" "benign (EnsureElectronArgv b)"
  "benign (EnsureInstall b)"
  by (simp_all add: benign_def)

lemma obeys_ret [obeys_intros]: "suitable I R S E fl \<Longrightarrow> obeys I R S E (ret a)"
  by (simp add: obeys_def ret_def suitable_def)

lemma obeys_lift [obeys_intros]: "suitable I R S E fl \<Longrightarrow> obeys I R S E (lift r)"
  by (simp add: obeys_def lift_def suitable_def split: sum.split)

lemma obeys_getState [obeys_intros]: "suitable I R S E fl \<Longrightarrow> obeys I R S E (getState f)"
  by (simp add: obeys_def getState_def suitable_def)

lemma obeys_stopless_bindA:
  assumes su: "suitable I R S E fl"
    and m: "obeys I R S E m"
    and f: "\<And>a. obeys I R S E (f a)"
  shows "obeys I R S E (bindA m f)"
  unfolding obeys_def
proof (intro allI impI)
  fix s assume i: "I s"
  obtain r s' where ms: "m s = (r, s')" by (cases "m s")
  from m i ms have m': "I s'" "R s s'" "\<forall>k. r = Stopped k \<longrightarrow> S s'" "\<forall>k. r = Exited k \<longrightarrow> E s'"
    by (auto simp: obeys_def)
  from su have tr: "\<And>a b c. R a b \<Longrightarrow> R b c \<Longrightarrow> R a c"
    unfolding suitable_def by blast
  show "case bindA m f s of
          (r, s') \<Rightarrow> I s' \<and> R s s' \<and> (\<forall>k. r = Stopped k \<longrightarrow> S s') \<and> (\<forall>k. r = Exited k \<longrightarrow> E s')"
  proof (cases r)
    case (Ok a)
    obtain r2 s2 where fs: "f a s' = (r2, s2)" by (cases "f a s'")
    from f [of a] m'(1) fs have "I s2" "R s' s2" "\<forall>k. r2 = Stopped k \<longrightarrow> S s2"
      "\<forall>k. r2 = Exited k \<longrightarrow> E s2"
      by (auto simp: obeys_def)
    with m'(2) tr Ok ms fs show ?thesis by (auto simp: bindA_def)
  next
    case (Stopped k)
    with m' ms show ?thesis by (simp add: bindA_def)
  next
    case (Exited k)
    with m' ms show ?thesis by (simp add: bindA_def)
  next
    case (Threw e)
    with m' ms show ?thesis by (simp add: bindA_def)
  qed
qed

lemmas obeys_bindA [obeys_intros] = obeys_stopless_bindA

lemma obeys_andThen [obeys_intros]:
  "suitable I R S E fl \<Longrightarrow> obeys I R S E m \<Longrightarrow> obeys I R S E n \<Longrightarrow> obeys I R S E (andThen m n)"
  unfolding andThen_def by (rule obeys_bindA)

lemma obeys_emit [obeys_intros]:
  "suitable I R S E fl \<Longrightarrow> benign e \<Longrightarrow> obeys I R S E (emit e)"
  by (simp add: obeys_def emit_def suitable_def)

lemma obeys_emitAll [obeys_intros]:
  "suitable I R S E fl \<Longrightarrow> \<forall>e \<in> set es. benign e \<Longrightarrow> obeys I R S E (emitAll es)"
  by (induction es) (auto intro: obeys_intros)

lemma obeys_modify [obeys_intros]:
  "suitable I R S E fl \<Longrightarrow> internalUpdate f \<Longrightarrow> obeys I R S E (modify f)"
  by (simp add: obeys_def modify_def suitable_def)

lemma obeys_failSite [obeys_intros]:
  "suitable I R S E fl \<Longrightarrow> obeys I R S E (failSite fl k msg extra :: json act)"
  by (simp add: suitable_def)

lemma obeys_exit [obeys_intros]:
  "suitable I R S E fl \<Longrightarrow> exitOk I R S E \<Longrightarrow>
   obeys I R S E (bindA (getState addressRunning)
                   (\<lambda>running. if \<not> running then processExit k else ret JNull))"
  by (simp add: exitOk_def)

lemma obeys_chain [obeys_intros]:
  "suitable I R S E fl \<Longrightarrow> (\<And>p c. p \<in> set ps \<Longrightarrow> obeys I R S E (p c)) \<Longrightarrow>
   obeys I R S E (chain ps cfg)"
  by (induction ps arbitrary: cfg) (auto intro: obeys_intros)

lemma obeys_pure [obeys_intros]: "suitable I R S E fl \<Longrightarrow> obeys I R S E (pure p cfg)"
  by (simp add: pure_def obeys_lift)

lemma obeys_runHooks [obeys_intros]:
  "suitable I R S E fl \<Longrightarrow> obeys I R S E (runHooks hs raw)"
  by (induction hs arbitrary: raw)
     (auto intro!: obeys_intros split: sum.split)

lemma obeys_pass_extensions [obeys_intros]:
  "suitable I R S E fl \<Longrightarrow> obeys I R S E (pass_extensions env fl raw)"
  unfolding pass_extensions_def
  by (auto intro!: obeys_intros split: sum.split)

lemma obeys_externalHost [obeys_intros]:
  "suitable I R S E fl \<Longrightarrow> obeys I R S E (externalHost env host mode)"
  unfolding externalHost_def
  by (auto intro!: obeys_intros simp: internalUpdate_def split: option.split)

lemma benign_networkWarning [simp]: "e \<in> set (networkWarning err) \<Longrightarrow> benign e"
  by (auto simp: networkWarning_def split: if_splits)

lemma obeys_onAddress [obeys_intros]:
  "suitable I R S E fl \<Longrightarrow> exitOk I R S E \<Longrightarrow> obeys I R S E (onAddress env host port mode)"
  unfolding onAddress_def
  by (auto intro!: obeys_intros simp: internalUpdate_def
           split: sum.split)

lemma obeys_negotiate [obeys_intros]:
  "suitable I R S E fl \<Longrightarrow> (strictEq (opts_verifyAddress env) (JBool True) \<longrightarrow> exitOk I R S E) \<Longrightarrow> obeys I R S E (negotiate env fl cfg h p)"
  unfolding negotiate_def
  by (auto intro!: obeys_intros simp: internalUpdate_def)

lemma obeys_pass_devServerAddress [obeys_intros]:
  "suitable I R S E fl \<Longrightarrow> (usesOnAddress env \<longrightarrow> exitOk I R S E) \<Longrightarrow> obeys I R S E (pass_devServerAddress env fl cfg)"
  unfolding pass_devServerAddress_def pass_requestedAddress_def pass_bindAddress_def
  by (auto intro!: obeys_intros simp: usesOnAddress_def split: option.split)

lemma obeys_pass_filesValidation [obeys_intros]:
  "suitable I R S E fl \<Longrightarrow> obeys I R S E (pass_filesValidation env fl cfg)"
  unfolding pass_filesValidation_def
  by (auto intro!: obeys_intros)

lemma obeys_readCertificateFile [obeys_intros]:
  "suitable I R S E fl \<Longrightarrow> obeys I R S E (readCertificateFile env prop cfg)"
  unfolding readCertificateFile_def
  by (auto intro!: obeys_intros split: json.split option.split)

lemma obeys_pass_https [obeys_intros]:
  "suitable I R S E fl \<Longrightarrow> obeys I R S E (pass_https env cfg)"
  unfolding pass_https_def
  by (auto intro!: obeys_intros)

lemma obeys_pass_vueDevtools [obeys_intros]:
  "suitable I R S E fl \<Longrightarrow> obeys I R S E (pass_vueDevtools env cfg)"
  unfolding pass_vueDevtools_def
  by (auto intro!: obeys_intros simp: internalUpdate_def Let_def split: option.split)

lemma obeys_pass_pwa [obeys_intros]:
  "suitable I R S E fl \<Longrightarrow> obeys I R S E (pass_pwa env fl cfg)"
  unfolding pass_pwa_def
  by (auto intro!: obeys_intros)

lemma obeys_pass_fileEnv [obeys_intros]:
  "suitable I R S E fl \<Longrightarrow> obeys I R S E (pass_fileEnv env cfg)"
  unfolding pass_fileEnv_def
  by (auto intro!: obeys_intros split: prod.split)

lemma obeys_if [obeys_intros]:
  "(b \<Longrightarrow> obeys I R S E m) \<Longrightarrow> (\<not> b \<Longrightarrow> obeys I R S E n) \<Longrightarrow>
   obeys I R S E (if b then m else n)"
  by simp

lemma obeys_case_option [obeys_intros]:
  "(x = None \<Longrightarrow> obeys I R S E m) \<Longrightarrow> (\<And>a. x = Some a \<Longrightarrow> obeys I R S E (f a)) \<Longrightarrow>
   obeys I R S E (case x of None \<Rightarrow> m | Some a \<Rightarrow> f a)"
  by (cases x) simp_all

lemma obeys_case_sum [obeys_intros]:
  "(\<And>a. x = Inl a \<Longrightarrow> obeys I R S E (f a)) \<Longrightarrow> (\<And>b. x = Inr b \<Longrightarrow> obeys I R S E (g b)) \<Longrightarrow>
   obeys I R S E (case x of Inl a \<Rightarrow> f a | Inr b \<Rightarrow> g b)"
  by (cases x) simp_all

lemma obeys_Let [obeys_intros]:
  "(\<And>x. x = v \<Longrightarrow> obeys I R S E (f x)) \<Longrightarrow> obeys I R S E (Let v f)"
  by simp

lemma obeys_pass_ssr [obeys_intros]:
  assumes su: "suitable I R S E fl" and pw: "ctx_mode_ssr env \<longrightarrow> pwaOk I R S E"
  shows "obeys I R S E (pass_ssr env cfg)"
proof (cases "ctx_mode_ssr env")
  case False
  with su show ?thesis by (simp add: pass_ssr_def obeys_ret)
next
  case True
  with pw have w: "obeys I R S E (modify (\<lambda>s. s\<lparr>modePwa := b\<rparr>))" for b
    by (simp add: pwaOk_def)
  from True su show ?thesis
    unfolding pass_ssr_def
    by (simp, intro obeys_bindA obeys_andThen obeys_if obeys_lift obeys_emit obeys_ret w)
       simp_all
qed

lemma obeys_electronDev [obeys_intros]:
  "suitable I R S E fl \<Longrightarrow> obeys I R S E (electronDev env userCfg cfg)"
  unfolding electronDev_def
  by (intro obeys_intros; (assumption | simp add: internalUpdate_def))

lemma obeys_electronProd [obeys_intros]:
  "suitable I R S E fl \<Longrightarrow> obeys I R S E (electronProd env cfg)"
  unfolding electronProd_def
  by (intro obeys_intros; (assumption | simp))

lemma obeys_pass_electron [obeys_intros]:
  "suitable I R S E fl \<Longrightarrow> obeys I R S E (pass_electron env userCfg cfg)"
  unfolding pass_electron_def
  by (intro obeys_intros; assumption)

lemma obeys_derive:
  "suitable I R S E fl \<Longrightarrow> (usesOnAddress env \<longrightarrow> exitOk I R S E)
   \<Longrightarrow> (ctx_mode_ssr env \<longrightarrow> pwaOk I R S E) \<Longrightarrow> obeys I R S E (derive env userCfg fl)"
  unfolding derive_def passes_def
  by (auto intro!: obeys_intros)

subsection \<open>The derivation as a whole\<close>

lemma obeysD:
  "obeys I R S E m \<Longrightarrow> I s \<Longrightarrow>
   I (snd (m s)) \<and> R s (snd (m s))
   \<and> (\<forall>k. fst (m s) = Stopped k \<longrightarrow> S (snd (m s)))
   \<and> (\<forall>k. fst (m s) = Exited k \<longrightarrow> E (snd (m s)))"
  unfolding obeys_def by (cases "m s") auto

lemma obeys_computeConfig:
  assumes su: "suitable I R S E fl"
    and ex: "usesOnAddress env \<longrightarrow> exitOk I R S E"
    and pw: "ctx_mode_ssr env \<longrightarrow> pwaOk I R S E"
    and rm: "obeys I R S E removeTempFile"
  shows "obeys I R S E (computeConfig env fn cl fl)"
  unfolding computeConfig_def
  using su ex rm obeys_derive [OF su ex pw]
  by (intro obeys_intros; (assumption | simp)?)

text \<open>With \<open>failOnError\<close> set, giving up means ending the process.\<close>

lemma suitable_fatal: "suitable (\<lambda>_. True) (\<lambda>_ _. True) (\<lambda>_. False) (\<lambda>_. True) True"
  by (simp add: suitable_def obeys_def failSite_def fatal_def)

lemma exitOk_fatal: "exitOk (\<lambda>_. True) (\<lambda>_ _. True) (\<lambda>_. False) (\<lambda>_. True)"
  by (simp add: exitOk_def obeys_def bindA_def getState_def processExit_def ret_def)

lemma pwaOk_fatal: "pwaOk (\<lambda>_. True) (\<lambda>_ _. True) (\<lambda>_. False) (\<lambda>_. True)"
  by (simp add: pwaOk_def obeys_def modify_def)

lemma computeConfig_failOnError:
  "fst (computeConfig env fn cl True s) \<noteq> Stopped k"
proof -
  have "obeys (\<lambda>_. True) (\<lambda>_ _. True) (\<lambda>_. False) (\<lambda>_. True) (computeConfig env fn cl True)"
    by (rule obeys_computeConfig [OF suitable_fatal])
       (simp_all add: exitOk_fatal pwaOk_fatal obeys_def removeTempFile_def)
  from obeysD [OF this, of s] show ?thesis
    by auto
qed

text \<open>Without it, and once an address was bound, giving up means a warning and no more.\<close>

lemma quietly_refl: "quietly sh s s"
  by (simp add: quietly_def sameValues_def sameContext_def quietlyExtends_def)

lemma quietly_trans: "quietly sh s s' \<Longrightarrow> quietly sh s' s'' \<Longrightarrow> quietly sh s s''"
  by (auto simp: quietly_def sameValues_def sameContext_def quietlyExtends_def)

lemma quietly_emit: "benign e \<Longrightarrow> quietly sh s (s\<lparr>trace := trace s @ [e]\<rparr>)"
  by (simp add: quietly_def sameValues_def sameContext_def quietlyExtends_def)

lemma quietly_internal: "internalUpdate f \<Longrightarrow> quietly sh s (f s)"
  by (simp add: quietly_def sameValues_def sameContext_def quietlyExtends_def internalUpdate_def)

lemma suitable_warn:
  "suitable (\<lambda>s. b \<longrightarrow> addressRunning s) (quietly sh) endsWithWarning (\<lambda>_. False) False"
  unfolding suitable_def
proof (intro conjI allI impI)
  fix k msg extra
  show "obeys (\<lambda>s. b \<longrightarrow> addressRunning s) (quietly sh) endsWithWarning (\<lambda>_. False)
          (failSite False k msg extra :: json act)"
    by (simp add: obeys_def failSite_def andThen_def bindA_def emit_def stop_def
          quietly_emit endsWithWarning_def isWarn_def)
next
  fix s :: session show "quietly sh s s" by (rule quietly_refl)
next
  fix s s' s'' :: session assume "quietly sh s s'" "quietly sh s' s''"
  then show "quietly sh s s''" by (rule quietly_trans)
next
  fix e and s :: session assume "benign e"
  then show "quietly sh s (s\<lparr>trace := trace s @ [e]\<rparr>)" by (rule quietly_emit)
next
  fix f and s :: session assume "internalUpdate f"
  then show "quietly sh s (f s)" by (rule quietly_internal)
next
  fix e and s :: session assume "b \<longrightarrow> addressRunning s" "b"
  then show "addressRunning (s\<lparr>trace := trace s @ [e]\<rparr>)" by simp
next
  fix f and s :: session assume "internalUpdate f" "b \<longrightarrow> addressRunning s" "b"
  then show "addressRunning (f s)" by (simp add: internalUpdate_def)
qed

lemma exitOk_warn:
  "exitOk (\<lambda>s. True \<longrightarrow> addressRunning s) (quietly sh) endsWithWarning (\<lambda>_. False)"
  by (simp add: exitOk_def obeys_def bindA_def getState_def processExit_def ret_def quietly_refl)

lemma pwaOk_warn:
  "pwaOk (\<lambda>s. b \<longrightarrow> addressRunning s) (quietly False) endsWithWarning (\<lambda>_. False)"
  by (simp add: pwaOk_def obeys_def modify_def quietly_def sameValues_def quietlyExtends_def)

lemma computeConfig_warns:
  assumes "usesOnAddress env \<longrightarrow> addressRunning s"
  shows "fst (computeConfig env fn cl False s) \<noteq> Exited k
         \<and> (fst (computeConfig env fn cl False s) = Stopped k
              \<longrightarrow> endsWithWarning (snd (computeConfig env fn cl False s)))
         \<and> quietly (\<not> ctx_mode_ssr env) s (snd (computeConfig env fn cl False s))
         \<and> (usesOnAddress env \<longrightarrow> addressRunning (snd (computeConfig env fn cl False s)))"
proof -
  have "obeys (\<lambda>s. usesOnAddress env \<longrightarrow> addressRunning s) (quietly (\<not> ctx_mode_ssr env))
          endsWithWarning (\<lambda>_. False) (computeConfig env fn cl False)"
  proof (rule obeys_computeConfig [OF suitable_warn])
    show "usesOnAddress env \<longrightarrow>
          exitOk (\<lambda>s. usesOnAddress env \<longrightarrow> addressRunning s) (quietly (\<not> ctx_mode_ssr env))
            endsWithWarning (\<lambda>_. False)"
      using exitOk_warn by auto
    show "ctx_mode_ssr env \<longrightarrow>
          pwaOk (\<lambda>s. usesOnAddress env \<longrightarrow> addressRunning s) (quietly (\<not> ctx_mode_ssr env))
            endsWithWarning (\<lambda>_. False)"
      using pwaOk_warn by auto
    show "obeys (\<lambda>s. usesOnAddress env \<longrightarrow> addressRunning s) (quietly (\<not> ctx_mode_ssr env))
            endsWithWarning (\<lambda>_. False) removeTempFile"
      by (simp add: obeys_def removeTempFile_def quietly_def sameValues_def sameContext_def
            quietlyExtends_def)
  qed
  from obeysD [OF this, of s] assms show ?thesis
    by auto
qed

text \<open>The derivation leaves alone the temporary file and what reached the caller.\<close>

lemma suitable_untouched: "suitable (\<lambda>_. True) untouched (\<lambda>_. True) (\<lambda>_. True) fl"
  by (auto simp: suitable_def obeys_def failSite_def fatal_def andThen_def bindA_def emit_def
        stop_def untouched_def sameValues_def internalUpdate_def)

lemma exitOk_untouched: "exitOk (\<lambda>_. True) untouched (\<lambda>_. True) (\<lambda>_. True)"
  by (simp add: exitOk_def obeys_def bindA_def getState_def processExit_def ret_def
        untouched_def sameValues_def)

lemma pwaOk_untouched: "pwaOk (\<lambda>_. True) untouched (\<lambda>_. True) (\<lambda>_. True)"
  by (simp add: pwaOk_def obeys_def modify_def untouched_def sameValues_def)

lemma derive_untouched: "untouched s (snd (derive env userCfg fl s))"
proof -
  have "obeys (\<lambda>_. True) untouched (\<lambda>_. True) (\<lambda>_. True) (derive env userCfg fl)"
    by (rule obeys_derive [OF suitable_untouched])
       (simp_all add: exitOk_untouched pwaOk_untouched)
  from obeysD [OF this, of s] show ?thesis by simp
qed

lemma failSite_run:
  "(failSite fl k m e :: 'a act) s
   = (if fl then (Exited k, s\<lparr>trace := trace s @ [Fatal m, ProcessExit]\<rparr>)
      else (Stopped k, s\<lparr>trace := trace s @ [Warn (m @ e)]\<rparr>))"
  by (simp add: failSite_def fatal_def andThen_def bindA_def emit_def stop_def)

lemma removeThenFail_run:
  "andThen removeTempFile (failSite fl k m e :: 'a act) s
   = (if fl then
        (Exited k, s\<lparr>tempFileExists := False,
                     trace := trace s @ [RemoveTempFile, Fatal m, ProcessExit]\<rparr>)
      else
        (Stopped k, s\<lparr>tempFileExists := False,
                      trace := trace s @ [RemoveTempFile, Warn (m @ e)]\<rparr>))"
  by (simp add: failSite_run andThen_def bindA_def removeTempFile_def)

lemma logThenFail_run:
  "andThen (emitAll [ConsoleLog, ConsoleError]) (failSite fl k m e :: 'a act) s
   = (if fl then
        (Exited k, s\<lparr>trace := trace s @ [ConsoleLog, ConsoleError, Fatal m, ProcessExit]\<rparr>)
      else
        (Stopped k, s\<lparr>trace := trace s @ [ConsoleLog, ConsoleError, Warn (m @ e)]\<rparr>))"
  by (simp add: failSite_run andThen_def bindA_def emit_def ret_def)

lemmas [simp del] = emitAll.simps

lemma removeThenDerive_run:
  "andThen removeTempFile (derive env u fl) s
   = derive env u fl (s\<lparr>tempFileExists := False, trace := trace s @ [RemoveTempFile]\<rparr>)"
  by (simp add: andThen_def bindA_def removeTempFile_def)

lemma computeConfig_untouched:
  "tempFileExists (snd (computeConfig env fn cl fl s))
     = (tempFileExists s \<and> isFunction fn \<and> isl cl)
   \<and> sameValues s (snd (computeConfig env fn cl fl s))"
proof (cases "isFunction fn")
  case False
  then show ?thesis
    by (simp add: computeConfig_def removeThenFail_run sameValues_def)
next
  case fn: True
  show ?thesis
  proof (cases cl)
    case (Inl e)
    with fn show ?thesis
      by (simp add: computeConfig_def logThenFail_run sameValues_def del: emitAll.simps)
  next
    case (Inr u)
    show ?thesis
    proof (cases "isObject u")
      case False
      with fn Inr show ?thesis
        by (simp add: computeConfig_def removeThenFail_run sameValues_def)
    next
      case True
      with fn Inr show ?thesis
        using derive_untouched
          [of "s\<lparr>tempFileExists := False, trace := trace s @ [RemoveTempFile]\<rparr>" env u fl]
        by (simp add: computeConfig_def removeThenDerive_run untouched_def sameValues_def)
    qed
  qed
qed

subsection \<open>The same step with and without \<^verbatim>\<open>failOnError\<close>\<close>

named_theorems twin_intros

lemma fatalTwin_same:
  assumes "obeys (\<lambda>_. True) (\<lambda>_ _. True) (\<lambda>_. False) (\<lambda>_. True) m"
  shows "fatalTwin m m"
  unfolding fatalTwin_def
proof
  fix s
  obtain r s' where ms: "m s = (r, s')" by (cases "m s")
  with obeysD [OF assms, of s] have "\<forall>k. r \<noteq> Stopped k" by auto
  with ms show "case m s of
          (Stopped k, s') \<Rightarrow>
            (\<exists>msg extra s0. s' = s0\<lparr>trace := trace s0 @ [Warn (msg @ extra)]\<rparr>
               \<and> m s = (Exited k, s0\<lparr>trace := trace s0 @ [Fatal msg, ProcessExit]\<rparr>))
        | (r, s') \<Rightarrow> m s = (r, s')"
    by (cases r) simp_all
qed

lemma fatalTwin_bindA [twin_intros]:
  assumes m: "fatalTwin m1 m2" and f: "\<And>a. fatalTwin (f1 a) (f2 a)"
  shows "fatalTwin (bindA m1 f1) (bindA m2 f2)"
  unfolding fatalTwin_def
proof
  fix s
  obtain r s' where ms: "m2 s = (r, s')" by (cases "m2 s")
  show "case bindA m2 f2 s of
          (Stopped k, s') \<Rightarrow>
            (\<exists>msg extra s0. s' = s0\<lparr>trace := trace s0 @ [Warn (msg @ extra)]\<rparr>
               \<and> bindA m1 f1 s = (Exited k, s0\<lparr>trace := trace s0 @ [Fatal msg, ProcessExit]\<rparr>))
        | (r, s') \<Rightarrow> bindA m1 f1 s = (r, s')"
  proof (cases r)
    case (Ok a)
    with m ms have "m1 s = (Ok a, s')" by (auto simp: fatalTwin_def dest!: spec [of _ s])
    obtain r2 s2 where fs: "f2 a s' = (r2, s2)" by (cases "f2 a s'")
    with f [of a] have "case r2 of
          Stopped k \<Rightarrow>
            (\<exists>msg extra s0. s2 = s0\<lparr>trace := trace s0 @ [Warn (msg @ extra)]\<rparr>
               \<and> f1 a s' = (Exited k, s0\<lparr>trace := trace s0 @ [Fatal msg, ProcessExit]\<rparr>))
        | _ \<Rightarrow> f1 a s' = (r2, s2)"
      by (auto simp: fatalTwin_def dest!: spec [of _ s'] split: outcome.splits)
    with Ok ms fs \<open>m1 s = (Ok a, s')\<close> show ?thesis
      by (cases r2) (simp_all add: bindA_def)
  next
    case (Stopped k)
    with m ms obtain msg extra s0
      where "s' = s0\<lparr>trace := trace s0 @ [Warn (msg @ extra)]\<rparr>"
        and "m1 s = (Exited k, s0\<lparr>trace := trace s0 @ [Fatal msg, ProcessExit]\<rparr>)"
      by (auto simp: fatalTwin_def dest!: spec [of _ s])
    with Stopped ms show ?thesis
      by (simp add: bindA_def) blast
  next
    case (Exited k)
    with m ms show ?thesis
      by (auto simp: bindA_def fatalTwin_def dest!: spec [of _ s])
  next
    case (Threw e)
    with m ms show ?thesis
      by (auto simp: bindA_def fatalTwin_def dest!: spec [of _ s])
  qed
qed

lemma fatalTwin_andThen [twin_intros]:
  "fatalTwin m1 m2 \<Longrightarrow> fatalTwin n1 n2 \<Longrightarrow> fatalTwin (andThen m1 n1) (andThen m2 n2)"
  unfolding andThen_def by (rule fatalTwin_bindA)

lemma fatalTwin_failSite [twin_intros]:
  "fatalTwin (failSite True k msg extra) (failSite False k msg extra)"
  unfolding fatalTwin_def by (auto simp: failSite_run)

lemma fatalTwin_if [twin_intros]:
  "(b \<Longrightarrow> fatalTwin m1 m2) \<Longrightarrow> (\<not> b \<Longrightarrow> fatalTwin n1 n2)
   \<Longrightarrow> fatalTwin (if b then m1 else n1) (if b then m2 else n2)"
  by simp

lemma fatalTwin_case_option [twin_intros]:
  "(x = None \<Longrightarrow> fatalTwin m1 m2) \<Longrightarrow> (\<And>a. x = Some a \<Longrightarrow> fatalTwin (f1 a) (f2 a))
   \<Longrightarrow> fatalTwin (case x of None \<Rightarrow> m1 | Some a \<Rightarrow> f1 a) (case x of None \<Rightarrow> m2 | Some a \<Rightarrow> f2 a)"
  by (cases x) simp_all

lemma fatalTwin_case_sum [twin_intros]:
  "(\<And>a. x = Inl a \<Longrightarrow> fatalTwin (f1 a) (f2 a)) \<Longrightarrow> (\<And>b. x = Inr b \<Longrightarrow> fatalTwin (g1 b) (g2 b))
   \<Longrightarrow> fatalTwin (case x of Inl a \<Rightarrow> f1 a | Inr b \<Rightarrow> g1 b) (case x of Inl a \<Rightarrow> f2 a | Inr b \<Rightarrow> g2 b)"
  by (cases x) simp_all

lemma stopless_fatalTwin:
  "(\<And>I R S E. suitable I R S E True \<Longrightarrow> exitOk I R S E \<Longrightarrow> pwaOk I R S E \<Longrightarrow> obeys I R S E m)
   \<Longrightarrow> fatalTwin m m"
  by (rule fatalTwin_same) (simp add: suitable_fatal exitOk_fatal pwaOk_fatal)

lemma fatalTwin_pass_extensions:
  "fatalTwin (pass_extensions env True raw) (pass_extensions env False raw)"
  unfolding pass_extensions_def
  by (intro twin_intros stopless_fatalTwin; (intro obeys_intros; (assumption | simp)))

lemma fatalTwin_negotiate:
  "fatalTwin (negotiate env True cfg h p) (negotiate env False cfg h p)"
  unfolding negotiate_def
  by (intro twin_intros stopless_fatalTwin; (intro obeys_intros; (assumption | simp add: internalUpdate_def)))

lemma fatalTwin_pass_devServerAddress:
  "fatalTwin (pass_devServerAddress env True cfg) (pass_devServerAddress env False cfg)"
  unfolding pass_devServerAddress_def pass_bindAddress_def pass_requestedAddress_def
  by (intro twin_intros fatalTwin_negotiate stopless_fatalTwin;
      (intro obeys_intros; (assumption | simp add: internalUpdate_def)))

lemma fatalTwin_pass_filesValidation:
  "fatalTwin (pass_filesValidation env True cfg) (pass_filesValidation env False cfg)"
  unfolding pass_filesValidation_def
  by (intro twin_intros stopless_fatalTwin; (intro obeys_intros; (assumption | simp)))

lemma fatalTwin_pass_pwa:
  "fatalTwin (pass_pwa env True cfg) (pass_pwa env False cfg)"
  unfolding pass_pwa_def
  by (intro twin_intros stopless_fatalTwin; (intro obeys_intros; (assumption | simp)))

lemma fatalTwin_chain:
  "list_all2 (\<lambda>p q. \<forall>c. fatalTwin (p c) (q c)) ps qs \<Longrightarrow> fatalTwin (chain ps cfg) (chain qs cfg)"
proof (induction ps qs arbitrary: cfg rule: list_all2_induct)
  case Nil
  show ?case by (simp add: stopless_fatalTwin obeys_ret)
next
  case (Cons p ps q qs)
  then show ?case by (auto intro!: fatalTwin_bindA)
qed

lemma fatalTwin_pure: "fatalTwin (pure p c) (pure p c)"
  by (rule stopless_fatalTwin) (rule obeys_pure)

lemma fatalTwin_passes:
  "list_all2 (\<lambda>p q. \<forall>c. fatalTwin (p c) (q c)) (passes env u True) (passes env u False)"
  unfolding passes_def
  by (simp add: fatalTwin_pure fatalTwin_pass_devServerAddress fatalTwin_pass_filesValidation
        fatalTwin_pass_pwa)
     (intro conjI allI stopless_fatalTwin; (intro obeys_intros; (assumption | simp)))

lemma fatalTwin_derive: "fatalTwin (derive env u True) (derive env u False)"
  unfolding derive_def
  by (intro twin_intros fatalTwin_pass_extensions fatalTwin_chain fatalTwin_passes
        stopless_fatalTwin; (intro obeys_intros; (assumption | simp)))

lemma derive_hook_fails:
  assumes h: "extensionHooks env = (x, fn) # hs" and f: "\<And>raw. fn raw = Inl e"
  shows "derive env (JObj u) fl s
         = (if fl then
              (Exited PluginError,
               s\<lparr>trace := trace s @ [Log (''Extension('' @ x @ ''): Extending quasar.config file configuration...''),
                     ConsoleLog, ConsoleError,
                     Fatal ''One of your installed App Extensions failed to run'', ProcessExit]\<rparr>)
            else
              (Stopped PluginError,
               s\<lparr>trace := trace s @ [Log (''Extension('' @ x @ ''): Extending quasar.config file configuration...''),
                     ConsoleLog, ConsoleError,
                     Warn (''One of your installed App Extensions failed to run'' @ ''.'' @ nl)]\<rparr>))"
proof -
  have m: "mergeAll (skeleton env p) [JObj u] = Inr (mergeTo (skeleton env p) u)" for p
    by (simp add: mergeAll_def mergeStep_def skeleton_def lookup_def truthy_def)
  show ?thesis
    unfolding derive_def pass_extensions_def
    by (simp add: bindA_def getState_def lift_def m h f andThen_def emit_def ret_def
          failSite_run emitAll.simps)
qed

subsection \<open>One rebuild of a watching session\<close>

lemma onStart_run:
  "onStart s = (Ok (), if isFirst s then s
                       else s\<lparr>trace := trace s @ [Log [],
                              Log ''The quasar.config file (or its dependencies) changed. Reading it again...'',
                              UpdateAppPackageJson]\<rparr>)"
  by (simp add: onStart_def bindA_def getState_def emitAll.simps andThen_def emit_def ret_def)

lemma compilerOutput_run:
  "compilerOutput cyc s
   = (Ok (), if compileFails cyc then s else s\<lparr>tempFileExists := True\<rparr>)"
  by (simp add: compilerOutput_def ret_def modify_def)

lemma rebuild_run: "rebuild env now cyc s = onEnd env now cyc (atEnd cyc s)"
  by (simp add: rebuild_def andThen_def bindA_def onStart_run compilerOutput_run atEnd_def)

lemma atEnd_simps [simp]:
  "isFirst (atEnd cyc s) = isFirst s"
  "isWatching (atEnd cyc s) = isWatching s"
  "addressRunning (atEnd cyc s) = addressRunning s"
  "firstBuildResult (atEnd cyc s) = firstBuildResult s"
  "pendingUpdate (atEnd cyc s) = pendingUpdate s"
  "callbackCalls (atEnd cyc s) = callbackCalls s"
  "tempFileExists (atEnd cyc s) = (if compileFails cyc then tempFileExists s else True)"
  by (simp_all add: atEnd_def onStart_run compilerOutput_run)

lemma atEnd_quietly: "quietly sh s (atEnd cyc s)"
  by (auto simp: quietly_def sameValues_def sameContext_def quietlyExtends_def atEnd_def
        onStart_run compilerOutput_run)

lemma onEnd_discard:
  "\<not> isFirst s \<Longrightarrow> \<not> isWatching s \<Longrightarrow> onEnd env now cyc s = (Ok Discarded, s)"
  by (simp add: onEnd_def bindA_def getState_def ret_def)

lemma onEnd_compileFails:
  "isFirst s \<or> isWatching s \<Longrightarrow> compileFails cyc \<Longrightarrow>
   onEnd env now cyc s
   = andThen removeTempFile
       (failSite (isFirst s) CompileError msgCompile ('' Please fix them.'' @ nl)) s"
  by (auto simp: onEnd_def bindA_def getState_def)

lemma onEnd_importThrows:
  "isFirst s \<or> isWatching s \<Longrightarrow> \<not> compileFails cyc \<Longrightarrow> imported cyc = Inl e \<Longrightarrow>
   onEnd env now cyc s
   = andThen (emitAll [ConsoleLog, ConsoleError])
       (failSite (isFirst s) LoadError (msgImport env) nl) s"
  by (auto simp: onEnd_def bindA_def getState_def)

lemma onEnd_computes:
  "isFirst s \<or> isWatching s \<Longrightarrow> \<not> compileFails cyc \<Longrightarrow> imported cyc = Inr fn \<Longrightarrow>
   onEnd env now cyc s
   = (case computeConfig env fn (called cyc) (isFirst s) s of
        (Ok quasarConf, s') \<Rightarrow>
          if isFirst s
          then (Ok FirstBuildDone, s'\<lparr>isFirst := False, firstBuildResult := Some quasarConf\<rparr>)
          else (Ok Scheduled,
                s'\<lparr>trace := trace s' @ [Log ''Scheduled to apply quasar.config changes in 550ms''],
                   pendingUpdate := Some (now + debounceWait, quasarConf)\<rparr>)
      | (Stopped k, s') \<Rightarrow> (Stopped k, s')
      | (Exited k, s') \<Rightarrow> (Exited k, s')
      | (Threw x, s') \<Rightarrow> (Threw x, s'))"
  by (auto simp: onEnd_def bindA_def getState_def andThen_def modify_def ret_def emit_def
        debouncedCall_def split: prod.splits outcome.splits)

text \<open>The first build: it delivers, ends the process, or throws; it never just warns.\<close>

lemma onEnd_first:
  assumes "isFirst s"
  shows "fst (onEnd env now cyc s) \<noteq> Stopped k
         \<and> fst (onEnd env now cyc s) \<noteq> Ok Discarded
         \<and> fst (onEnd env now cyc s) \<noteq> Ok Scheduled"
proof (cases "compileFails cyc")
  case True
  with assms show ?thesis
    by (simp add: onEnd_compileFails removeThenFail_run)
next
  case nf: False
  show ?thesis
  proof (cases "imported cyc")
    case (Inl e)
    with assms nf show ?thesis
      by (simp add: onEnd_importThrows logThenFail_run)
  next
    case (Inr fn)
    obtain r s' where c: "computeConfig env fn (called cyc) True s = (r, s')"
      by (cases "computeConfig env fn (called cyc) True s")
    with computeConfig_failOnError [of env fn "called cyc" s k] have "r \<noteq> Stopped k" by simp
    with assms nf Inr c show ?thesis
      by (cases r) (simp_all add: onEnd_computes)
  qed
qed

text \<open>A later build of a live session: it schedules an update, warns, or throws.\<close>

lemma onEnd_live:
  assumes nf: "\<not> isFirst s" and w: "isWatching s"
    and ar: "usesOnAddress env \<longrightarrow> addressRunning s"
  shows "fst (onEnd env now cyc s) \<noteq> Exited k
         \<and> (fst (onEnd env now cyc s) = Stopped k \<longrightarrow>
              endsWithWarning (snd (onEnd env now cyc s))
              \<and> quietly (\<not> ctx_mode_ssr env) s (snd (onEnd env now cyc s)))
         \<and> (usesOnAddress env \<longrightarrow> addressRunning (snd (onEnd env now cyc s)))"
proof (cases "compileFails cyc")
  case True
  with nf w ar show ?thesis
    by (simp add: onEnd_compileFails removeThenFail_run endsWithWarning_def isWarn_def
          quietly_def sameValues_def sameContext_def quietlyExtends_def)
next
  case cf: False
  show ?thesis
  proof (cases "imported cyc")
    case (Inl e)
    with nf w cf ar show ?thesis
      by (simp add: onEnd_importThrows logThenFail_run endsWithWarning_def isWarn_def
            quietly_def sameValues_def sameContext_def quietlyExtends_def)
  next
    case (Inr fn)
    obtain r s' where c: "computeConfig env fn (called cyc) False s = (r, s')"
      by (cases "computeConfig env fn (called cyc) False s")
    from computeConfig_warns [OF ar, of fn "called cyc" k] c
    have "r \<noteq> Exited k" "r = Stopped k \<longrightarrow> endsWithWarning s'"
      "quietly (\<not> ctx_mode_ssr env) s s'"
      "usesOnAddress env \<longrightarrow> addressRunning s'"
      by simp_all
    with nf w cf Inr c show ?thesis
      by (cases r) (simp_all add: onEnd_computes)
  qed
qed

lemma onEnd_tempFile:
  "tempFileExists (snd (onEnd env now cyc s))
   = (if \<not> isFirst s \<and> \<not> isWatching s then tempFileExists s
      else if compileFails cyc then False
      else case imported cyc of
             Inl _ \<Rightarrow> tempFileExists s
           | Inr fn \<Rightarrow> tempFileExists s \<and> isFunction fn \<and> isl (called cyc))"
proof (cases "\<not> isFirst s \<and> \<not> isWatching s")
  case True
  then show ?thesis by (simp add: onEnd_discard)
next
  case fw: False
  show ?thesis
  proof (cases "compileFails cyc")
    case True
    with fw show ?thesis
      by (auto simp: onEnd_compileFails removeThenFail_run)
  next
    case cf: False
    show ?thesis
    proof (cases "imported cyc")
      case (Inl e)
      with fw cf show ?thesis
        by (auto simp: onEnd_importThrows logThenFail_run)
    next
      case (Inr fn)
      obtain r s' where c: "computeConfig env fn (called cyc) (isFirst s) s = (r, s')"
        by (cases "computeConfig env fn (called cyc) (isFirst s) s")
      from computeConfig_untouched [of env fn "called cyc" "isFirst s" s] c
      have "tempFileExists s' = (tempFileExists s \<and> isFunction fn \<and> isl (called cyc))"
        by simp
      with fw cf Inr c show ?thesis
        by (cases r) (auto simp: onEnd_computes)
    qed
  qed
qed

subsection \<open>Failure policy and the temporary file\<close>

lemma rebuild_discard:
  assumes "\<not> isFirst s" and "\<not> isWatching s"
  shows "rebuild env now cyc s = (Ok Discarded, atEnd cyc s)"
  using assms by (simp add: rebuild_run onEnd_discard)

lemma atEnd_trace:
  "trace (atEnd cyc s)
   = (if isFirst s then trace s
      else trace s @ [Log [],
             Log ''The quasar.config file (or its dependencies) changed. Reading it again...'',
             UpdateAppPackageJson])"
  by (simp add: atEnd_def onStart_run compilerOutput_run)

lemma build_tempFile_aux:
  "tempFileExists (snd (build env cyc s)) = leftForInspection cyc"
proof (cases "compileFails cyc")
  case True
  then show ?thesis
    by (simp add: build_def compilerOutput_run andThen_def bindA_def removeTempFile_def
          emit_def fatal_def ret_def leftForInspection_def emitAll.simps)
next
  case cf: False
  show ?thesis
  proof (cases "imported cyc")
    case (Inl e)
    with cf show ?thesis
      by (simp add: build_def compilerOutput_run andThen_def bindA_def
            emit_def fatal_def ret_def leftForInspection_def emitAll.simps)
  next
    case (Inr fn)
    with cf show ?thesis
      using computeConfig_untouched [of env fn "called cyc" True "s\<lparr>tempFileExists := True\<rparr>"]
      by (simp add: build_def compilerOutput_run andThen_def bindA_def leftForInspection_def)
  qed
qed

lemma rebuild_tempFile_aux:
  "tempFileExists (snd (rebuild env now cyc s))
   = (if \<not> isFirst s \<and> \<not> isWatching s
      then (if compileFails cyc then tempFileExists s else True)
      else leftForInspection cyc)"
  by (auto simp: rebuild_run onEnd_tempFile leftForInspection_def split: sum.splits)

lemma build_never_stops: "fst (build env cyc s) \<noteq> Stopped k"
proof (cases "compileFails cyc")
  case True
  then show ?thesis
    by (simp add: build_def compilerOutput_run andThen_def bindA_def removeTempFile_def
          emit_def fatal_def ret_def emitAll.simps)
next
  case cf: False
  show ?thesis
  proof (cases "imported cyc")
    case (Inl e)
    with cf show ?thesis
      by (simp add: build_def compilerOutput_run andThen_def bindA_def
            emit_def fatal_def ret_def emitAll.simps)
  next
    case (Inr fn)
    with cf show ?thesis
      using computeConfig_failOnError [of env fn "called cyc" "s\<lparr>tempFileExists := True\<rparr>" k]
      by (simp add: build_def compilerOutput_run andThen_def bindA_def)
  qed
qed

lemma quietly_no_fatal:
  "quietly sh s s' \<Longrightarrow> trace s' = trace s @ es \<Longrightarrow> Fatal m \<notin> set es \<and> ProcessExit \<notin> set es"
  by (auto simp: quietly_def quietlyExtends_def)


lemma startSession_simps [simp]:
  "isFirst (startSession r c p)" "\<not> isWatching (startSession r c p)"
  "trace (startSession r c p) = []" "\<not> tempFileExists (startSession r c p)"
  by (simp_all add: startSession_def)

lemma liveSession_simps [simp]:
  "\<not> isFirst liveSession" "isWatching liveSession" "addressRunning liveSession"
  "\<not> isFirst pendingSession" "\<not> isWatching pendingSession" "trace pendingSession = []"
  "trace liveSession = []" "\<not> tempFileExists liveSession"
  by (simp_all add: liveSession_def pendingSession_def watch_def)

lemma rebuild_broken_first:
  "isFirst s \<Longrightarrow> fst (rebuild env now brokenCycle s) = Exited CompileError"
  by (simp add: rebuild_run onEnd_compileFails removeThenFail_run brokenCycle_def)

lemma rebuild_broken_live:
  "\<not> isFirst s \<Longrightarrow> isWatching s \<Longrightarrow> fst (rebuild env now brokenCycle s) = Stopped CompileError"
  by (simp add: rebuild_run onEnd_compileFails removeThenFail_run brokenCycle_def)

lemma computeConfig_earlyError:
  assumes "earlyError cyc = Some k" "\<not> compileFails cyc" "imported cyc = Inr fn"
  shows "fst (computeConfig env fn (called cyc) True s) = Exited k
         \<and> endsFatally (snd (computeConfig env fn (called cyc) True s))"
  using assms
  by (auto simp: earlyError_def computeConfig_def removeThenFail_run logThenFail_run
        endsFatally_def split: if_splits sum.splits)

lemma rebuild_earlyError_first:
  assumes e: "earlyError cyc = Some k" and i: "isFirst s"
  shows "fst (rebuild env now cyc s) = Exited k \<and> endsFatally (snd (rebuild env now cyc s))"
proof (cases "compileFails cyc")
  case True
  with e i show ?thesis
    by (simp add: rebuild_run onEnd_compileFails removeThenFail_run earlyError_def
          endsFatally_def)
next
  case cf: False
  show ?thesis
  proof (cases "imported cyc")
    case (Inl x)
    with e i cf show ?thesis
      by (simp add: rebuild_run onEnd_importThrows logThenFail_run earlyError_def
            endsFatally_def)
  next
    case (Inr fn)
    from computeConfig_earlyError [OF e cf Inr, of env "atEnd cyc s"] i cf Inr show ?thesis
      by (auto simp: rebuild_run onEnd_computes split: prod.splits outcome.splits)
  qed
qed

lemma build_earlyError:
  assumes e: "earlyError cyc = Some k"
  shows "fst (build env cyc s) = Exited k \<and> endsFatally (snd (build env cyc s))"
proof (cases "compileFails cyc")
  case True
  with e show ?thesis
    by (simp add: earlyError_def endsFatally_def build_def compilerOutput_run
          andThen_def bindA_def removeTempFile_def emit_def fatal_def ret_def emitAll.simps)
next
  case cf: False
  show ?thesis
  proof (cases "imported cyc")
    case (Inl x)
    with e cf show ?thesis
      by (simp add: earlyError_def endsFatally_def build_def compilerOutput_run
            andThen_def bindA_def emit_def fatal_def ret_def emitAll.simps)
  next
    case (Inr fn)
    from computeConfig_earlyError [OF e cf Inr, of env "s\<lparr>tempFileExists := True\<rparr>"] cf Inr
    show ?thesis
      by (simp add: build_def compilerOutput_run andThen_def bindA_def)
  qed
qed

lemma rebuild_earlyError_live:
  assumes e: "earlyError cyc = Some k" and i: "\<not> isFirst s" and w: "isWatching s"
  shows "fst (rebuild env now cyc s) = Stopped k \<and> endsWithWarning (snd (rebuild env now cyc s))
         \<and> quietly True s (snd (rebuild env now cyc s))"
proof -
  have "fst (onEnd env now cyc (atEnd cyc s)) = Stopped k
        \<and> endsWithWarning (snd (onEnd env now cyc (atEnd cyc s)))
        \<and> quietly True (atEnd cyc s) (snd (onEnd env now cyc (atEnd cyc s)))"
  proof (cases "compileFails cyc")
    case True
    with e i w show ?thesis
      by (simp add: onEnd_compileFails removeThenFail_run earlyError_def endsWithWarning_def
            isWarn_def quietly_def sameValues_def sameContext_def quietlyExtends_def)
  next
    case cf: False
    show ?thesis
    proof (cases "imported cyc")
      case (Inl x)
      with e i w cf show ?thesis
        by (simp add: onEnd_importThrows logThenFail_run earlyError_def endsWithWarning_def
              isWarn_def quietly_def sameValues_def sameContext_def quietlyExtends_def)
    next
      case (Inr fn)
      from e cf Inr
      have "fst (computeConfig env fn (called cyc) False s') = Stopped k
            \<and> endsWithWarning (snd (computeConfig env fn (called cyc) False s'))
            \<and> quietly True s' (snd (computeConfig env fn (called cyc) False s'))" for s'
        by (auto simp: earlyError_def computeConfig_def removeThenFail_run logThenFail_run
              endsWithWarning_def isWarn_def quietly_def sameValues_def sameContext_def
              quietlyExtends_def split: if_splits sum.splits)
      from this [of "atEnd cyc s"] i w cf Inr show ?thesis
        by (auto simp: onEnd_computes split: prod.splits outcome.splits)
    qed
  qed
  with quietly_trans [OF atEnd_quietly [of True s cyc]] show ?thesis
    by (simp add: rebuild_run)
qed

lemma rebuild_derives:
  assumes e: "earlyError cyc = None" and u: "called cyc = Inr userCfg"
    and fw: "isFirst s \<or> isWatching s"
  shows "rebuild env now cyc s
         = (case derive env userCfg (isFirst s) (atDerive cyc s) of
              (Ok quasarConf, s') \<Rightarrow>
                if isFirst s
                then (Ok FirstBuildDone,
                      s'\<lparr>isFirst := False, firstBuildResult := Some quasarConf\<rparr>)
                else (Ok Scheduled,
                      s'\<lparr>trace := trace s' @ [Log ''Scheduled to apply quasar.config changes in 550ms''],
                         pendingUpdate := Some (now + debounceWait, quasarConf)\<rparr>)
            | (Stopped k, s') \<Rightarrow> (Stopped k, s')
            | (Exited k, s') \<Rightarrow> (Exited k, s')
            | (Threw x, s') \<Rightarrow> (Threw x, s'))"
proof -
  from e obtain fn where fn: "\<not> compileFails cyc" "imported cyc = Inr fn" "isFunction fn"
    by (auto simp: earlyError_def split: if_splits sum.splits)
  from e u fn have o: "isObject userCfg"
    by (auto simp: earlyError_def split: if_splits)
  from fn u o have "computeConfig env fn (called cyc) fl (atEnd cyc s)
                   = derive env userCfg fl (atDerive cyc s)" for fl
    by (simp add: computeConfig_def removeThenDerive_run atDerive_def)
  with fn fw show ?thesis
    by (simp add: rebuild_run onEnd_computes split: prod.splits outcome.splits)
qed

lemma derive_hooked:
  "derive hookedEnv (JObj u) fl s
   = (if fl then
        (Exited PluginError,
         s\<lparr>trace := trace s @ [Log (''Extension('' @ ''ext'' @ ''): Extending quasar.config file configuration...''),
               ConsoleLog, ConsoleError,
               Fatal ''One of your installed App Extensions failed to run'', ProcessExit]\<rparr>)
      else
        (Stopped PluginError,
         s\<lparr>trace := trace s @ [Log (''Extension('' @ ''ext'' @ ''): Extending quasar.config file configuration...''),
               ConsoleLog, ConsoleError,
               Warn (''One of your installed App Extensions failed to run'' @ ''.'' @ nl)]\<rparr>))"
  by (rule derive_hook_fails [where hs = "[]" and e = "HookError ''thrown by the hook''"])
     (simp_all add: hookedEnv_def)

lemma earlyError_examples:
  "earlyError brokenCycle = Some CompileError" "earlyError throwingCycle = Some LoadError"
  "earlyError shapelessCycle = Some ShapeError" "earlyError goodCycle = None"
  "called goodCycle = Inr (JObj [])"
  by (simp_all add: earlyError_def brokenCycle_def throwingCycle_def shapelessCycle_def
        goodCycle_def isFunction_def isObject_def)



text \<open>
  C3. In a one-shot read the temporary file is removed when the compilation fails, when
  the export is not a function, when the function returns no object, and when it returns
  one (before the derivation starts). It is left on disk exactly when loading the
  compiled file, or calling the function it exports, throws.
\<close>

theorem C3_one_shot_temporary_file:
  "tempFileExists (snd (build env cyc s)) = leftForInspection cyc"
  by (rule build_tempFile_aux)

theorem C3_one_shot_temporary_file_counterexample:
  "fst (build exampleEnv throwingCycle (startSession False None False)) = Exited LoadError
   \<and> tempFileExists (snd (build exampleEnv throwingCycle (startSession False None False)))"
  by (simp add: build_def throwingCycle_def compilerOutput_run andThen_def bindA_def
        emit_def fatal_def ret_def emitAll.simps)

text \<open>
  C4. In watch mode the temporary file is removed in every cycle that is not dropped,
  fatal or not: when the compilation fails, when the export is not a function, when the
  function returns no object, and when it returns one. It is left on disk exactly when
  loading the compiled file, or calling the function it exports, throws; a cycle dropped
  before \<^verbatim>\<open>watch()\<close> leaves what the compiler wrote.
\<close>

theorem C4_watch_temporary_file:
  "tempFileExists (snd (rebuild env now cyc s))
   = (if \<not> isFirst s \<and> \<not> isWatching s
      then (if compileFails cyc then tempFileExists s else True)
      else leftForInspection cyc)"
  by (rule rebuild_tempFile_aux)

theorem C4_watch_temporary_file_counterexample:
  "tempFileExists (liveSession\<lparr>tempFileExists := True\<rparr>)
   \<and> fst (rebuild exampleEnv 1000 brokenCycle (liveSession\<lparr>tempFileExists := True\<rparr>))
       = Stopped CompileError
   \<and> \<not> tempFileExists
         (snd (rebuild exampleEnv 1000 brokenCycle (liveSession\<lparr>tempFileExists := True\<rparr>)))"
proof -
  have a: "\<not> isFirst (liveSession\<lparr>tempFileExists := True\<rparr>)"
    "isWatching (liveSession\<lparr>tempFileExists := True\<rparr>)"
    by simp_all
  have b: "leftForInspection brokenCycle = False"
    by (simp add: leftForInspection_def brokenCycle_def)
  from rebuild_broken_live [OF a, of exampleEnv 1000] a b show ?thesis
    by (simp add: rebuild_tempFile_aux)
qed

text \<open>
  C5. A rebuild that completes after the first build was delivered and before the caller
  issued \<^verbatim>\<open>watch()\<close> is dropped: the callback is neither invoked nor scheduled. Nothing is
  warned; the trace only gains the two log lines and the package update of the start of
  the rebuild.
\<close>

theorem C5_rebuild_before_watch:
  "\<not> isFirst s \<and> \<not> isWatching s \<longrightarrow>
     fst (rebuild env now cyc s) = Ok Discarded
     \<and> callbackCalls (snd (rebuild env now cyc s)) = callbackCalls s
     \<and> pendingUpdate (snd (rebuild env now cyc s)) = pendingUpdate s
     \<and> trace (snd (rebuild env now cyc s))
         = trace s @ [Log [],
             Log ''The quasar.config file (or its dependencies) changed. Reading it again...'',
             UpdateAppPackageJson]"
  by (simp add: rebuild_discard atEnd_trace)

theorem C5_rebuild_before_watch_witness:
  "\<not> isFirst pendingSession \<and> \<not> isWatching pendingSession
   \<and> fst (rebuild exampleEnv 1000 goodCycle pendingSession) = Ok Discarded
   \<and> callbackCalls (snd (rebuild exampleEnv 1000 goodCycle pendingSession)) = []
   \<and> pendingUpdate (snd (rebuild exampleEnv 1000 goodCycle pendingSession)) = None"
  using C5_rebuild_before_watch [of pendingSession exampleEnv 1000 goodCycle]
  by (simp add: pendingSession_def)

theorem C5_rebuild_before_watch_counterexample:
  "fst (rebuild exampleEnv 1000 goodCycle pendingSession) = Ok Discarded
   \<and> filter isWarn (trace (snd (rebuild exampleEnv 1000 goodCycle pendingSession))) = []"
  by (simp add: rebuild_discard atEnd_trace isWarn_def)

subsection \<open>Reading the outcome of a step; reading and writing properties\<close>

lemma bindA_Ok_iff:
  "(bindA m f s = (Ok b, s')) = (\<exists>a s1. m s = (Ok a, s1) \<and> f a s1 = (Ok b, s'))"
  by (auto simp: bindA_def split: prod.splits outcome.splits)

lemma andThen_Ok_iff:
  "(andThen m n s = (Ok b, s')) = (\<exists>s1. m s = (Ok (), s1) \<and> n s1 = (Ok b, s'))"
  by (auto simp: andThen_def bindA_Ok_iff)

lemma ret_Ok_iff: "(ret a s = (Ok b, s')) = (a = b \<and> s' = s)"
  by (auto simp: ret_def)

lemma lift_Ok_iff: "(lift r s = (Ok b, s')) = (r = Inr b \<and> s' = s)"
  by (auto simp: lift_def split: sum.splits)

lemma getState_Ok_iff: "(getState f s = (Ok b, s')) = (b = f s \<and> s' = s)"
  by (auto simp: getState_def)

lemma modify_Ok_iff: "(modify f s = (Ok b, s')) = (s' = f s)"
  by (auto simp: modify_def)

lemma emit_Ok_iff: "(emit e s = (Ok b, s')) = (s' = s\<lparr>trace := trace s @ [e]\<rparr>)"
  by (auto simp: emit_def)

lemma failSite_not_Ok: "(failSite fl k m e :: 'a act) s \<noteq> (Ok b, s')"
  by (simp add: failSite_run)

lemma processExit_not_Ok: "(processExit k :: 'a act) s \<noteq> (Ok b, s')"
  by (simp add: processExit_def)

lemmas Ok_iffs = bindA_Ok_iff andThen_Ok_iff ret_Ok_iff lift_Ok_iff getState_Ok_iff
  modify_Ok_iff emit_Ok_iff failSite_not_Ok processExit_not_Ok

lemma ebind_Inr_iff: "(ebind m f = Inr b) = (\<exists>a. m = Inr a \<and> f a = Inr b)"
  by (auto simp: ebind_def split: sum.splits)

lemma lookup_assign [simp]:
  "lookup (assign kv k v) k' = (if k' = k then v else lookup kv k')"
  by (induction kv) (auto simp: lookup_def)

lemma lookup_deleteKey [simp]:
  "lookup (deleteKey kv k) k' = (if k' = k then JUndefined else lookup kv k')"
  by (induction kv) (auto simp: lookup_def deleteKey_def)

lemma getp_JObj [simp]: "getp (JObj kv) k = Inr (lookup kv k)"
  by (simp add: getp_def)

lemma setp_Inr_iff: "(setp v k x = Inr v') = (\<exists>kv. v = JObj kv \<and> v' = JObj (assign kv k x))"
  by (cases v) (auto simp: setp_def)

lemma setp_JObj [simp]: "setp (JObj kv) k x = Inr (JObj (assign kv k x))"
  by (simp add: setp_def)

lemma assign_assign [simp]: "assign (assign kv k v) k v' = assign kv k v'"
  by (induction kv) auto

lemmas [simp del] = getPath.simps setPath.simps delPath.simps

lemma getPath_Nil [simp]: "getPath v [] = Inr v"
  by (simp add: getPath.simps)

lemma getPath_JObj [simp]: "getPath (JObj kv) (k # ks) = getPath (lookup kv k) ks"
  by (simp add: ebind_def getPath.simps)

lemma setPath1_iff:
  "(setPath cfg [a] x = Inr cfg') = (\<exists>kv. cfg = JObj kv \<and> cfg' = JObj (assign kv a x))"
  by (simp add: setp_Inr_iff setPath.simps)

lemma setPath2_iff:
  "(setPath cfg [a, b] x = Inr cfg')
   = (\<exists>kv kb. cfg = JObj kv \<and> lookup kv a = JObj kb
         \<and> cfg' = JObj (assign kv a (JObj (assign kb b x))))"
  by (cases cfg) (auto simp: ebind_Inr_iff setp_Inr_iff getp_def setPath.simps)

lemma setPath3_iff:
  "(setPath cfg [a, b, c] x = Inr cfg')
   = (\<exists>kv kb kc. cfg = JObj kv \<and> lookup kv a = JObj kb \<and> lookup kb b = JObj kc
         \<and> cfg' = JObj (assign kv a (JObj (assign kb b (JObj (assign kc c x))))))"
  by (cases cfg) (auto simp: ebind_Inr_iff setp_Inr_iff setPath2_iff getp_def setPath.simps)


lemma joinValues_simps [simp]:
  "joinValues x JUndefined = JUndefined"
  "joinValues x JNull = JNull"
  "joinValues x (JBool t) = JBool t"
  "joinValues x (JNum n) = JNum n"
  "joinValues x (JDecimal m e) = JDecimal m e"
  "joinValues x (JStr s) = JStr s"
  "joinValues x (JRegExp r) = JRegExp r"
  "joinValues x (JOpaque l) = JOpaque l"
  "joinValues (JObj a) (JObj b) = JObj (mergeTo a b)"
  "joinValues (JArr xs) (JArr ys) = JArr (xs @ ys)"
  "joinValues (JFunction f) (JFunction g) = JFunction (f @ ''+'' @ g)"
  by (simp_all add: joinValues.simps mergeTo_def split: json.splits)

lemma joinValues_other:
  "(\<forall>a. x \<noteq> JObj a) \<Longrightarrow> joinValues x (JObj b) = JObj b"
  "(\<forall>xs. x \<noteq> JArr xs) \<Longrightarrow> joinValues x (JArr ys) = JArr ys"
  "(\<forall>f. x \<noteq> JFunction f) \<Longrightarrow> joinValues x (JFunction g) = JFunction g"
  by (simp_all add: joinValues.simps split: json.splits)

lemma map_of_keyed:
  "map_of (map (\<lambda>k. (k, f k)) ks) k = (if k \<in> set ks then Some (f k) else None)"
  by (induction ks) auto

lemma set_mergedKeys: "set (mergedKeys a b) = fst ` set a \<union> fst ` set b"
  by (auto simp: mergedKeys_def)

lemma lookup_mergeTo:
  "lookup (mergeTo a b) k
   = (if k \<in> fst ` set a \<or> k \<in> fst ` set b
      then (let v = joinValues (lookup a k) (lookup b k)
            in if v = JUndefined then lookup a k else v)
      else JUndefined)"
proof -
  have "map_of (mergeTo a b) k
        = (if k \<in> set (mergedKeys a b)
           then Some (let v = joinValues (lookup a k) (lookup b k)
                      in if v = JUndefined then lookup a k else v)
           else None)"
    unfolding mergeTo_def by (rule map_of_keyed)
  then show ?thesis
    by (simp add: lookup_def [of "mergeTo a b"] set_mergedKeys)
qed


subsection \<open>The address cache\<close>

lemma negotiate_Ok:
  assumes "negotiate env fl cfg h p s = (Ok cfg', s')"
  shows "\<exists>th tp. address s' = Some \<lparr>from_host = h, from_port = p, to_host = th, to_port = tp\<rparr>
           \<and> getPath cfg' [''devServer'', ''host''] = Inr th
           \<and> getPath cfg' [''devServer'', ''port''] = Inr tp"
  using assms unfolding negotiate_def
  by (auto simp: Ok_iffs split: if_splits)

lemma pass_bindAddress_caches:
  assumes ok: "pass_bindAddress env fl cfg s = (Ok cfg', s')"
    and h: "getPath cfg [''devServer'', ''host''] = Inr h"
    and p: "getPath cfg [''devServer'', ''port''] = Inr p"
  shows "\<exists>th tp. address s' = Some \<lparr>from_host = h, from_port = p, to_host = th, to_port = tp\<rparr>
           \<and> getPath cfg' [''devServer'', ''host''] = Inr th
           \<and> getPath cfg' [''devServer'', ''port''] = Inr tp"
proof (cases "address s")
  case None
  with ok h p show ?thesis
    by (auto simp: pass_bindAddress_def Ok_iffs dest!: negotiate_Ok)
next
  case (Some c)
  show ?thesis
  proof (cases "strictEq (from_host c) h \<and> strictEq (from_port c) p")
    case False
    with ok h p Some show ?thesis
      by (auto simp: pass_bindAddress_def Ok_iffs dest!: negotiate_Ok split: if_splits)
  next
    case True
    then have eq: "from_host c = h" "from_port c = p" by (auto simp: strictEq_def)
    from ok h p Some True
    have s': "s' = s" and c1: "\<exists>cfg1. setPath cfg [''devServer'', ''host''] (to_host c) = Inr cfg1
                \<and> setPath cfg1 [''devServer'', ''port''] (to_port c) = Inr cfg'"
      by (auto simp: pass_bindAddress_def Ok_iffs ebind_Inr_iff)
    then obtain cfg1 where a: "setPath cfg [''devServer'', ''host''] (to_host c) = Inr cfg1"
      and b: "setPath cfg1 [''devServer'', ''port''] (to_port c) = Inr cfg'" by blast
    from a b s' Some eq show ?thesis
      by (auto simp: setPath2_iff)
  qed
qed

lemma pass_bindAddress_hit:
  assumes c: "address s = Some c"
    and prim: "\<not> isObject (from_host c)" "\<not> isObject (from_port c)"
    and ds: "cfg = JObj kv" "lookup kv ''devServer'' = JObj ds"
    and h: "lookup ds ''host'' = from_host c"
    and p: "lookup ds ''port'' = from_port c"
  shows "pass_bindAddress env fl cfg s
         = (Ok (JObj (assign kv ''devServer''
                  (JObj (assign (assign ds ''host'' (to_host c)) ''port'' (to_port c))))), s)"
  using assms
  by (simp add: pass_bindAddress_def bindA_def getState_def lift_def strictEq_def ebind_def
        setPath.simps)

lemma address_cache_aux:
  assumes first: "pass_bindAddress env fl cfg1 s1 = (Ok cfg1', s1')"
    and h1: "getPath cfg1 [''devServer'', ''host''] = Inr h"
    and p1: "getPath cfg1 [''devServer'', ''port''] = Inr p"
    and prim: "\<not> isObject h" "\<not> isObject p"
    and same: "address s2 = address s1'"
    and cfg2: "cfg2 = JObj kv" "lookup kv ''devServer'' = JObj ds"
    and h2: "lookup ds ''host'' = h"
    and p2: "lookup ds ''port'' = p"
  shows "\<exists>cfg2'. pass_bindAddress env2 fl2 cfg2 s2 = (Ok cfg2', s2)
           \<and> getPath cfg2' [''devServer'', ''host''] = getPath cfg1' [''devServer'', ''host'']
           \<and> getPath cfg2' [''devServer'', ''port''] = getPath cfg1' [''devServer'', ''port'']"
proof -
  from pass_bindAddress_caches [OF first h1 p1] obtain th tp where
    a: "address s1' = Some \<lparr>from_host = h, from_port = p, to_host = th, to_port = tp\<rparr>"
    and th: "getPath cfg1' [''devServer'', ''host''] = Inr th"
    and tp: "getPath cfg1' [''devServer'', ''port''] = Inr tp"
    by blast
  let ?c = "\<lparr>from_host = h, from_port = p, to_host = th, to_port = tp\<rparr>"
  have "pass_bindAddress env2 fl2 cfg2 s2
        = (Ok (JObj (assign kv ''devServer''
                 (JObj (assign (assign ds ''host'' (to_host ?c)) ''port'' (to_port ?c))))), s2)"
    by (rule pass_bindAddress_hit) (simp_all add: same a prim cfg2 h2 p2)
  with th tp show ?thesis by simp
qed


subsection \<open>Public path and router base\<close>

text \<open>
  C8. An empty public path yields \<open>/\<close>; the non-URL value \<open>foo\<close> yields \<open>/foo/\<close>; the full
  URL \<open>http://x.com/a\<close> keeps its scheme and host and only gains a trailing slash; and the
  router base derived from \<open>http://host:1234/app/sub?x=1#h\<close> is \<open>/app/sub/\<close>, the path
  component alone.
\<close>

theorem C8_public_path_and_router_base:
  "formatPublicPath '''' = ''/''
   \<and> formatPublicPath ''foo'' = ''/foo/''
   \<and> formatPublicPath ''http://x.com/a'' = ''http://x.com/a/''
   \<and> formatRouterBase ''http://host:1234/app/sub?x=1#h'' = Inr ''/app/sub/''"
  by code_simp

subsection \<open>Asset lists\<close>

lemma indexOfElem_self:
  "(indexOfElem ps v i = i) = (\<forall>j < min i (length ps). \<not> strictEq (ps ! j) v)"
proof (cases "find (\<lambda>j. strictEq (ps ! j) v) [0..<min i (length ps)]")
  case None
  then have "\<forall>j < min i (length ps). \<not> strictEq (ps ! j) v"
    by (auto simp: find_None_iff)
  with None show ?thesis by (simp add: indexOfElem_def)
next
  case (Some j)
  then have "j < min i (length ps) \<and> strictEq (ps ! j) v"
    by (auto simp: find_Some_iff)
  with Some show ?thesis by (auto simp: indexOfElem_def)
qed

lemma filter_zip_dedup:
  "map fst (filter (\<lambda>(v, i). \<forall>j < i. \<not> strictEq (pathOf ((pre @ xs) ! j)) (pathOf v))
                   (zip xs [length pre..<length pre + length xs]))
   = dedupFrom pre xs"
proof (induction xs arbitrary: pre)
  case Nil
  show ?case by simp
next
  case (Cons x xs)
  have z: "zip (x # xs) [length pre..<length pre + length (x # xs)]
           = (x, length pre) # zip xs [length (pre @ [x])..<length (pre @ [x]) + length xs]"
    by (simp add: upt_conv_Cons del: upt_Suc)
  have c: "(\<forall>j < length pre. \<not> strictEq (pathOf ((pre @ x # xs) ! j)) (pathOf x))
           = (\<not> (\<exists>y \<in> set pre. strictEq (pathOf y) (pathOf x)))"
    by (fastforce simp: nth_append in_set_conv_nth)
  have a: "pre @ x # xs = (pre @ [x]) @ xs" by simp
  show ?case
    unfolding z a
    using Cons.IH [of "pre @ [x]"] c
    by (simp del: append_assoc add: a [symmetric])
qed

lemma dedupFrom_firstWins:
  "dedupFrom seen xs
   = firstWins (filter (\<lambda>x. \<not> (\<exists>y \<in> set seen. strictEq (pathOf y) (pathOf x))) xs)"
proof (induction xs arbitrary: seen)
  case Nil
  show ?case by simp
next
  case (Cons x xs)
  have f: "filter (\<lambda>z. \<not> (\<exists>y \<in> set (seen @ [x]). strictEq (pathOf y) (pathOf z))) xs
         = filter (\<lambda>y. \<not> strictEq (pathOf y) (pathOf x))
             (filter (\<lambda>z. \<not> (\<exists>y \<in> set seen. strictEq (pathOf y) (pathOf z))) xs)"
    by (auto simp: strictEq_def intro!: filter_cong)
  have g: "\<exists>y \<in> set seen. strictEq (pathOf y) (pathOf x) \<Longrightarrow>
       filter (\<lambda>z. \<not> (\<exists>y \<in> set (seen @ [x]). strictEq (pathOf y) (pathOf z))) xs
       = filter (\<lambda>z. \<not> (\<exists>y \<in> set seen. strictEq (pathOf y) (pathOf z))) xs"
    by (rule filter_cong) (auto simp: strictEq_def)
  show ?case
    using Cons.IH [of "seen @ [x]"] f g by auto
qed

lemma filterIdx_uniquePathFilter: "filterIdx uniquePathFilter xs = firstWins xs"
proof -
  have "filterIdx uniquePathFilter xs
        = map fst (filter (\<lambda>(v, i). \<forall>j < i. \<not> strictEq (pathOf (([] @ xs) ! j)) (pathOf v))
                     (zip xs [length ([]::json list)..<length ([]::json list) + length xs]))"
    unfolding filterIdx_def
    by (rule arg_cong [where f = "map fst"], rule filter_cong)
       (auto simp: uniquePathFilter_def indexOfElem_self set_zip)
  also have "\<dots> = dedupFrom [] xs" by (rule filter_zip_dedup)
  also have "\<dots> = firstWins xs" by (simp add: dedupFrom_firstWins)
  finally show ?thesis .
qed

lemma assetPath_resolvedPath: "assetPath prefix s = resolvedPath prefix s"
  by (cases s) (auto simp: assetPath_def resolvedPath_def)

lemma mapE_parse_strings:
  "mapE (parseAssetProperty prefix) (map JStr es)
   = Inr (map (\<lambda>e. pathEntry (resolvedPath prefix e)) es)"
  by (induction es) (simp_all add: parseAssetProperty_def assetPath_resolvedPath pathEntry_def)

lemma truthy_strings: "filter truthy (map JStr es) = map JStr (filter (\<lambda>e. e \<noteq> []) es)"
  by (induction es) (simp_all add: truthy_def)

lemma pathOf_pathEntry: "pathOf (pathEntry p) = JStr p"
  by (simp add: pathOf_def pathEntry_def lookup_def)

lemma truthy_paths:
  "filter (\<lambda>a. truthy (pathOf a)) (map pathEntry ps) = map pathEntry (filter (\<lambda>p. p \<noteq> []) ps)"
  by (induction ps) (simp_all add: pathOf_pathEntry truthy_def)

lemma firstWins_pathEntries: "firstWins (map pathEntry ps) = map pathEntry (firstOccurrences ps)"
proof (induction ps rule: firstOccurrences.induct)
  case 1
  show ?case by simp
next
  case (2 p ps)
  have "filter (\<lambda>y. \<not> strictEq (pathOf y) (pathOf (pathEntry p))) (map pathEntry ps)
        = map pathEntry (filter (\<lambda>q. q \<noteq> p) ps)"
    by (induction ps) (simp_all add: pathOf_pathEntry strictEq_def isObject_def)
  with 2 show ?case by simp
qed

lemma normalize_strings:
  "normalizeAssets prefix (map JStr es)
   = Inr (map pathEntry
            (firstOccurrences
               (filter (\<lambda>p. p \<noteq> [])
                  (map (resolvedPath prefix) (filter (\<lambda>e. e \<noteq> []) es)))))"
proof -
  have "map (\<lambda>e. pathEntry (resolvedPath prefix e)) xs = map pathEntry (map (resolvedPath prefix) xs)"
    for xs by simp
  then show ?thesis
    by (simp only: normalizeAssets_def truthy_strings mapE_parse_strings ebind_def sum.case
          truthy_paths filterIdx_uniquePathFilter firstWins_pathEntries)
qed

lemma parse_object:
  "parseAssetProperty prefix (JObj (assign kv ''path'' (JStr p)))
   = Inr (JObj (assign kv ''path'' (JStr (resolvedPath prefix p))))"
  by (simp add: parseAssetProperty_def spreadProps_def assetPath_resolvedPath)

text \<open>
  C9. A string entry that starts with the override marker \<open>~\<close> resolves to the rest of the
  entry, any other string entry to the prefix, a slash and the entry, and so does the
  \<^verbatim>\<open>path\<close> of an entry that is an object. A list of string entries becomes the list of
  its resolved paths, each entry mapped, empty ones dropped, and of equal paths the first
  occurrence kept; in general the list is de-duplicated on the resolved path, the first
  occurrence winning. Of five entries with three distinct resolved paths three are kept, in
  the order of their first occurrences; two entries that resolve to one path, one with the
  marker and one without, collapse to the first of them.
\<close>

theorem C9_asset_normalization:
  "parseAssetProperty prefix (JStr s) =
     Inr (JObj [(''path'',
            JStr (if startsWith s ''~'' then drop 1 s else prefix @ ''/'' @ s))])
   \<and> parseAssetProperty prefix (JObj (assign kv ''path'' (JStr p)))
       = Inr (JObj (assign kv ''path'' (JStr (resolvedPath prefix p))))
   \<and> normalizeAssets prefix (map JStr entries)
       = Inr (map pathEntry
                (firstOccurrences
                   (filter (\<lambda>p. p \<noteq> [])
                      (map (resolvedPath prefix) (filter (\<lambda>e. e \<noteq> []) entries)))))
   \<and> normalizeAssets prefix xs =
       ebind (mapE (parseAssetProperty prefix) (filter truthy xs))
         (\<lambda>ys. Inr (firstWins (filter (\<lambda>a. truthy (pathOf a)) ys)))
   \<and> normalizeAssets ''boot''
         [JStr ''a'', JStr ''b'', JStr ''~x/c'', JStr ''a'', JStr ''~boot/b'']
       = Inr [JObj [(''path'', JStr ''boot/a'')], JObj [(''path'', JStr ''boot/b'')],
              JObj [(''path'', JStr ''x/c'')]]
   \<and> normalizeAssets ''src/css''
         [JObj [(''path'', JStr ''~src/css/app.scss''), (''server'', JBool False)],
          JStr ''app.scss'',
          JObj [(''path'', JStr ''other.scss''), (''server'', JBool True)]]
       = Inr [JObj [(''path'', JStr ''src/css/app.scss''), (''server'', JBool False)],
              JObj [(''path'', JStr ''src/css/other.scss''), (''server'', JBool True)]]
   \<and> normalizeAssets ''src/css''
         [JStr ''app.scss'',
          JObj [(''path'', JStr ''~src/css/app.scss''), (''server'', JBool False)]]
       = Inr [JObj [(''path'', JStr ''src/css/app.scss'')]]"
proof -
  have a: "parseAssetProperty prefix (JStr s) =
     Inr (JObj [(''path'',
            JStr (if startsWith s ''~'' then drop 1 s else prefix @ ''/'' @ s))])"
    by (cases s) (auto simp: parseAssetProperty_def assetPath_def startsWith_def)
  have b: "normalizeAssets prefix xs =
       ebind (mapE (parseAssetProperty prefix) (filter truthy xs))
         (\<lambda>ys. Inr (firstWins (filter (\<lambda>a. truthy (pathOf a)) ys)))"
    by (simp add: normalizeAssets_def filterIdx_uniquePathFilter)
  have c: "normalizeAssets ''src/css''
         [JObj [(''path'', JStr ''~src/css/app.scss''), (''server'', JBool False)],
          JStr ''app.scss'',
          JObj [(''path'', JStr ''other.scss''), (''server'', JBool True)]]
       = Inr [JObj [(''path'', JStr ''src/css/app.scss''), (''server'', JBool False)],
              JObj [(''path'', JStr ''src/css/other.scss''), (''server'', JBool True)]]"
    by code_simp
  have d: "normalizeAssets ''src/css''
         [JStr ''app.scss'',
          JObj [(''path'', JStr ''~src/css/app.scss''), (''server'', JBool False)]]
       = Inr [JObj [(''path'', JStr ''src/css/app.scss'')]]"
    by code_simp
  have e: "normalizeAssets ''boot''
         [JStr ''a'', JStr ''b'', JStr ''~x/c'', JStr ''a'', JStr ''~boot/b'']
       = Inr [JObj [(''path'', JStr ''boot/a'')], JObj [(''path'', JStr ''boot/b'')],
              JObj [(''path'', JStr ''x/c'')]]"
    by code_simp
  from a b c d e parse_object normalize_strings show ?thesis by blast
qed
subsection \<open>Running a pass forward\<close>

lemma conforms_AnObject [simp]:
  "conforms v (AnObject fs) = (\<exists>kv. v = JObj kv \<and> conformsAll kv fs)"
  by (cases v) auto

lemma conforms_AString [simp]: "conforms v AString = (\<exists>s. v = JStr s)"
  by (cases v) auto

lemma conforms_AnArray [simp]: "conforms v AnArray = (\<exists>xs. v = JArr xs)"
  by (cases v) auto

lemmas [simp del] = conforms.simps(5-7)

lemma joinValues_undefined_left [simp]: "joinValues JUndefined v = v"
  by (cases v) (simp_all add: joinValues.simps)

lemma lookup_Nil [simp]: "lookup [] k = JUndefined"
  by (simp add: lookup_def)

lemma lookup_Cons [simp]: "lookup ((k, v) # kv) k' = (if k' = k then v else lookup kv k')"
  by (simp add: lookup_def)

lemma lookup_absent: "k \<notin> fst ` set kv \<Longrightarrow> lookup kv k = JUndefined"
  by (induction kv) auto

lemma lookup_mergeTo_all [simp]:
  "lookup (mergeTo a b) k
   = (if joinValues (lookup a k) (lookup b k) = JUndefined then lookup a k
      else joinValues (lookup a k) (lookup b k))"
  by (simp add: lookup_mergeTo lookup_absent Let_def)

lemma joinValues_False_isnt_True [simp]:
  "(joinValues (JBool False) x = JBool True) = (x = JBool True)"
  by (cases x) (simp_all add: joinValues_other)

lemma joinValues_falsy [simp]: "\<not> truthy x \<Longrightarrow> joinValues a x = x"
  by (cases x) (simp_all add: truthy_def)

lemma ebind_Inr [simp]: "ebind (Inr a) f = f a"
  by (simp add: ebind_def)

lemma ebind_Inl [simp]: "ebind (Inl e) f = Inl e"
  by (simp add: ebind_def)

lemma setPath_JObj1 [simp]: "setPath (JObj kv) [a] x = Inr (JObj (assign kv a x))"
  by (simp add: setPath.simps)

lemma setPath_JObj2 [simp]:
  "setPath (JObj kv) (a # b # ks) x
   = ebind (setPath (lookup kv a) (b # ks) x) (\<lambda>c. Inr (JObj (assign kv a c)))"
proof -
  have "setp (JObj kv) a = (\<lambda>c. Inr (JObj (assign kv a c)))" by (rule ext) simp
  then show ?thesis by (simp add: setPath.simps)
qed

lemma delPath_JObj1 [simp]: "delPath (JObj kv) [a] = Inr (JObj (deleteKey kv a))"
  by (simp add: delPath.simps delp_def)

lemma delPath_JObj2 [simp]:
  "delPath (JObj kv) (a # b # ks)
   = ebind (delPath (lookup kv a) (b # ks)) (\<lambda>c. Inr (JObj (assign kv a c)))"
proof -
  have "setp (JObj kv) a = (\<lambda>c. Inr (JObj (assign kv a c)))" by (rule ext) simp
  then show ?thesis by (simp add: delPath.simps)
qed

lemma merge1 [simp]:
  "merge a [JObj b] = (if truthy (lookup a ''then'') then Inl (TypeError ''Promises are not supported'')
                       else Inr (JObj (mergeTo a b)))"
  by (simp add: merge_def mergeAll_def mergeStep_def)

lemma merge2 [simp]:
  "merge a [JObj b, JObj c]
   = (if truthy (lookup a ''then'') then Inl (TypeError ''Promises are not supported'')
      else Inr (JObj (mergeTo (mergeTo a b) c)))"
  by (simp add: merge_def mergeAll_def mergeStep_def)

lemma merge3 [simp]:
  "merge a [JObj b, JObj c, JObj d]
   = (if truthy (lookup a ''then'') then Inl (TypeError ''Promises are not supported'')
      else Inr (JObj (mergeTo (mergeTo (mergeTo a b) c) d)))"
  by (simp add: merge_def mergeAll_def mergeStep_def)

lemma truthy_simps [simp]:
  "truthy JUndefined = False" "truthy JNull = False" "truthy (JBool b) = b"
  "truthy (JObj kv) = True" "truthy (JArr xs) = True" "truthy (JStr s) = (s \<noteq> [])"
  "truthy (JNum n) = (n \<noteq> 0)"
  by (simp_all add: truthy_def)

lemma strictEq_simps [simp]:
  "strictEq JUndefined v = (v = JUndefined)"
  "strictEq (JBool b) v = (v = JBool b)"
  "strictEq (JStr x) v = (v = JStr x)"
  "strictEq (JNum n) v = (v = JNum n)"
  "strictEq (JObj kv) v = False"
  "strictEq (JArr xs) v = False"
  "strictEq v JUndefined = (v = JUndefined)"
  "strictEq v (JBool b) = (v = JBool b)"
  "strictEq v (JStr x) = (v = JStr x)"
  "strictEq v (JNum n) = (v = JNum n)"
  by (auto simp: strictEq_def isObject_def)

lemma yields_pure:
  "(\<And>cfg. P cfg \<Longrightarrow> \<exists>cfg'. p cfg = Inr cfg' \<and> Q cfg') \<Longrightarrow> yields P (pure p) Q"
  by (fastforce simp: yields_def pure_def lift_def)

lemma yields_chain_Nil: "(\<And>cfg. P cfg \<Longrightarrow> Q cfg) \<Longrightarrow> yields P (chain []) Q"
  by (simp add: yields_def ret_def)

lemma yields_chain_Cons:
  "yields P p Q \<Longrightarrow> yields Q (chain ps) T \<Longrightarrow> yields P (chain (p # ps)) T"
  unfolding yields_def by (fastforce simp: bindA_def)

subsection \<open>Each pass on the defaults\<close>

lemma ssrDefaults_ok:
  "conforms cfg (stage env sh)
   \<Longrightarrow> \<exists>cfg'. pass_ssrDefaults env cfg = Inr cfg' \<and> conforms cfg' (stage env sh)"
  unfolding pass_ssrDefaults_def mergeDefaultsAt_def stage_def
  by (clarsimp simp: Let_def)

lemma start_ok:
  "conforms (JObj (assign (mergeTo (skeleton env pwa) []) ''metaConf'' (metaConfInit env)))
     (stage env (initialShapes env))"
  unfolding stage_def initialShapes_def devServer0_def build0_def vendor0_def
  by (simp add: skeleton_def metaConfInit_def ctxValue_def)

lemma derive_start:
  "extensionHooks env = []
   \<Longrightarrow> derive env (JObj []) fl s
       = chain (passes env (JObj []) fl)
           (JObj (assign (mergeTo (skeleton env (modePwa s)) []) ''metaConf'' (metaConfInit env))) s"
  unfolding derive_def pass_extensions_def pass_animationsAll_def
  by (simp add: bindA_def getState_def lift_def ret_def mergeAll_def mergeStep_def skeleton_def)

lemma lengthPositive_JArr [simp]: "lengthPositive (JArr xs) = Inr (xs \<noteq> [])"
  by (simp add: lengthPositive_def lengthOf_def getp_def gtZero_def)

lemma assets_ok:
  "conforms cfg (stage env sh)
   \<Longrightarrow> \<exists>cfg'. pass_assets cfg = Inr cfg' \<and> conforms cfg' (stage env sh)"
  unfolding pass_assets_def normalizeAt_def uniqueIfAny_def stage_def
  by clarsimp

lemma componentCase_ok:
  "conforms cfg (stage env sh)
   \<Longrightarrow> \<exists>cfg'. pass_componentCase cfg = Inr cfg' \<and> conforms cfg' (stage env sh)"
  unfolding pass_componentCase_def stage_def
  by (clarsimp simp: includesStr_def)

lemma framework_ok:
  "conforms cfg (stage env sh)
   \<Longrightarrow> \<exists>cfg'. pass_framework cfg = Inr cfg' \<and> conforms cfg' (stage env sh)"
  unfolding pass_framework_def spinnerComponent_def uniqueAt_def assignAt_def stage_def
  by (clarsimp simp: getUniqueArray_def asArray_def objectAssign_def assignAll_def arrIncludes_def)

lemma eslint_ok:
  "conforms cfg (stage env sh)
   \<Longrightarrow> \<exists>cfg'. pass_eslint cfg = Inr cfg' \<and> conforms cfg' (stage env sh)"
  unfolding pass_eslint_def mergeDefaultsAt_def stage_def
  by clarsimp

lemma stage_obj: "conforms cfg (stage env sh) \<Longrightarrow> \<exists>kv. cfg = JObj kv"
  by (clarsimp simp: stage_def)

lemma stage_build:
  "conforms (JObj kv) (stage env sh)
   \<Longrightarrow> \<forall>k. k \<noteq> ''build'' \<longrightarrow> lookup kv' k = lookup kv k
   \<Longrightarrow> conforms (lookup kv' ''build'') B
   \<Longrightarrow> conforms (JObj kv') (stage env (sh\<lparr>buildS := B\<rparr>))"
  by (simp add: stage_def)

lemma stageD_build: "conforms (JObj kv) (stage env sh) \<Longrightarrow> conforms (lookup kv ''build'') (buildS sh)"
  by (simp add: stage_def)

lemma stageD_metaConf:
  "conforms (JObj kv) (stage env sh)
   \<Longrightarrow> \<exists>m. lookup kv ''metaConf'' = JObj m
          \<and> lookup m ''debugging'' = JBool (ctx_dev env \<or> ctx_debug env)
          \<and> lookup m ''versions'' = JObj (versions env)"
  by (simp add: stage_def)

lemma stageD_bex:
  "conforms (JObj kv) (stage env sh)
   \<Longrightarrow> \<exists>b. lookup kv ''bex'' = JObj b \<and> lookup b ''minify'' = JUndefined"
  by (simp add: stage_def)

lemma build_merged:
  "conforms (JObj (mergeTo (buildDefaults env d m a) [(''esbuildTarget'', JObj []),
                        (''vueLoaderOptions'', JObj [(''transformAssetUrls'', JObj [])]),
                        (''sassLoaderOptions'', JObj []),
                        (''scssLoaderOptions'', JObj []),
                        (''stylusLoaderOptions'', JObj []),
                        (''lessLoaderOptions'', JObj []),
                        (''tsLoaderOptions'', JObj []),
                        (''env'', JObj []),
                        (''rawDefine'', JObj []),
                        (''envFiles'', JArr []),
                        (''webpackTranspileDependencies'', JArr []),
                        (''uglifyOptions'', JObj [(''compress'', JObj []), (''mangle'', JObj [])]),
                        (''htmlMinifyOptions'', JObj [])])) build1"
  by (simp add: build1_def buildDefaults_def)

lemma build_run:
  assumes "lookup kv ''metaConf'' = JObj m" "lookup m ''debugging'' = JBool dbg"
    "lookup kv ''bex'' = JObj bx" "lookup bx ''minify'' = JUndefined"
    "lookup kv ''build'' = lookup (skeleton env False) ''build''"
  shows "\<exists>kv'. pass_build env (JObj kv) = Inr (JObj kv')
           \<and> (\<forall>k. k \<noteq> ''build'' \<longrightarrow> lookup kv' k = lookup kv k)
           \<and> conforms (lookup kv' ''build'') build1"
proof -
  have t: "\<not> truthy (lookup (buildDefaults env d m a) ''then'')" for d m a
    by (simp add: buildDefaults_def)
  show ?thesis
    unfolding pass_build_def mergeDefaultsAt_def
    by (simp add: assms skeleton_def t build_merged)
qed

lemma build_ok:
  assumes c: "conforms cfg (stage env sh)" and b: "buildS sh = build0 env"
  shows "\<exists>cfg'. pass_build env cfg = Inr cfg' \<and> conforms cfg' (stage env (sh\<lparr>buildS := build1\<rparr>))"
proof -
  from c obtain kv where cfg: "cfg = JObj kv" by (auto dest: stage_obj)
  note c' = c [unfolded cfg]
  from stageD_metaConf [OF c'] obtain m where m: "lookup kv ''metaConf'' = JObj m"
    "lookup m ''debugging'' = JBool (ctx_dev env \<or> ctx_debug env)" by blast
  from stageD_bex [OF c'] obtain bx where bx: "lookup kv ''bex'' = JObj bx"
    "lookup bx ''minify'' = JUndefined" by blast
  from stageD_build [OF c'] b have "lookup kv ''build'' = lookup (skeleton env False) ''build''"
    by (simp add: build0_def)
  from build_run [OF m bx this] stage_build [OF c'] cfg show ?thesis by blast
qed

lemma vendor_ok:
  "conforms cfg (stage env sh) \<Longrightarrow> vendorS sh = vendor0
   \<Longrightarrow> \<exists>cfg'. pass_vendor env cfg = Inr cfg'
          \<and> conforms cfg' (stage env (sh\<lparr>vendorS := AnObject []\<rparr>))"
  unfolding pass_vendor_def vendorRegExp_def stage_def vendor0_def
  by clarsimp

lemma transpile_ok:
  "conforms cfg (stage env sh) \<Longrightarrow> buildS sh = build1
   \<Longrightarrow> \<exists>cfg'. pass_transpile env cfg = Inr cfg' \<and> conforms cfg' (stage env sh)"
  unfolding pass_transpile_def stage_def build1_def
  by clarsimp

lemma esbuildTarget_ok:
  "conforms cfg (stage env sh) \<Longrightarrow> buildS sh = build1
   \<Longrightarrow> \<exists>cfg'. pass_esbuildTarget cfg = Inr cfg' \<and> conforms cfg' (stage env sh)"
  unfolding pass_esbuildTarget_def setIfFalsy_def stage_def build1_def
  by clarsimp

lemma routerMode_ok:
  "conforms cfg (stage env sh) \<Longrightarrow> buildS sh = build1
   \<Longrightarrow> \<exists>cfg'. pass_routerMode env cfg = Inr cfg' \<and> conforms cfg' (stage env sh)"
  unfolding pass_routerMode_def assignAt_def stage_def build1_def
  by (clarsimp simp: objectAssign_def assignAll_def)

lemma distDir_ok:
  "conforms cfg (stage env sh) \<Longrightarrow> buildS sh = build1
   \<Longrightarrow> \<exists>cfg'. pass_distDir env cfg = Inr cfg' \<and> conforms cfg' (stage env sh)"
  unfolding pass_distDir_def stage_def build1_def
  by (clarsimp simp: needString_def Let_def)

lemma formatRouterBase_empty: "formatRouterBase [] = Inr []"
  by code_simp

lemma formatRouterBase_slash: "formatRouterBase ''/'' = Inr ''/''"
  by code_simp

lemma publicPath_ok:
  "conforms cfg (stage env sh) \<Longrightarrow> buildS sh = build1
   \<Longrightarrow> \<exists>cfg'. pass_publicPath env cfg = Inr cfg' \<and> conforms cfg' (stage env (sh\<lparr>buildS := build2\<rparr>))"
  unfolding pass_publicPath_def stage_def build1_def build2_def
  by (clarsimp simp: needString_def formatRouterBase_empty formatRouterBase_slash)

lemma sourceFiles_ok:
  "conforms cfg (stage env sh) \<Longrightarrow> sourceFilesS sh = Exactly (JObj [])
   \<Longrightarrow> \<exists>cfg'. pass_sourceFiles env cfg = Inr cfg'
          \<and> conforms cfg' (stage env (sh\<lparr>sourceFilesS := sourceFiles1\<rparr>))"
  unfolding pass_sourceFiles_def mergeDefaultsAt_def stage_def sourceFiles1_def
  by clarsimp

lemma lengthIsZero_JArr [simp]: "lengthIsZero (JArr xs) = Inr (xs = [])"
  by (simp add: lengthIsZero_def lengthOf_def getp_def)

lemma store_ok:
  "conforms cfg (stage env sh) \<Longrightarrow> sourceFilesS sh = sourceFiles1
   \<Longrightarrow> \<exists>cfg'. pass_store env cfg = Inr cfg' \<and> conforms cfg' (stage env sh)"
  unfolding pass_store_def assignAt_def stage_def sourceFiles1_def
  by (clarsimp simp: needString_def objectAssign_def assignAll_def)

lemma serverType_ok:
  "conforms cfg (stage env sh) \<Longrightarrow> devServerS sh = devServer1 env
   \<Longrightarrow> \<exists>cfg'. pass_serverType cfg = Inr cfg' \<and> conforms cfg' (stage env sh)"
  unfolding pass_serverType_def stage_def devServer1_def
  by (clarsimp simp: isString_def)

lemma devServerDefaults_ok:
  "conforms cfg (stage env sh) \<Longrightarrow> devServerS sh = devServer1 env \<Longrightarrow> buildS sh = build2
   \<Longrightarrow> \<exists>cfg'. pass_devServerDefaults env cfg = Inr cfg'
          \<and> conforms cfg' (stage env (sh\<lparr>devServerS := devServer2 env\<rparr>))"
  unfolding pass_devServerDefaults_def stage_def devServer1_def devServer2_def build2_def
  by (clarsimp simp: devServerModeDefaults_def)

lemma openBrowser_ok:
  "conforms cfg (stage env sh) \<Longrightarrow> devServerS sh = devServer2 env
   \<Longrightarrow> \<exists>cfg'. pass_openBrowser env cfg = Inr cfg' \<and> conforms cfg' (stage env sh)"
  unfolding pass_openBrowser_def stage_def devServer2_def
  by clarsimp

lemma gzip_ok:
  "conforms cfg (stage env sh) \<Longrightarrow> buildS sh = build2
   \<Longrightarrow> \<exists>cfg'. pass_gzip env cfg = Inr cfg' \<and> conforms cfg' (stage env sh)"
  unfolding pass_gzip_def stage_def build2_def
  by clarsimp

lemma appUrl_ok:
  "conforms cfg (stage env sh) \<Longrightarrow> devServerS sh = devServer2 env \<Longrightarrow> buildS sh = build2
   \<Longrightarrow> \<exists>cfg'. pass_appUrl env cfg = Inr cfg' \<and> conforms cfg' (stage env sh)"
  unfolding pass_appUrl_def stage_def devServer2_def build2_def
  by (clarsimp simp: Let_def)

lemma buildEnv_ok:
  "conforms cfg (stage env sh) \<Longrightarrow> buildS sh = build2
   \<Longrightarrow> \<exists>cfg'. pass_buildEnv env cfg = Inr cfg' \<and> conforms cfg' (stage env sh)"
  unfolding pass_buildEnv_def stage_def build2_def
  by (clarsimp simp: objectAssign_def assignAll_def)

lemma escapeHTMLTagContent_ok:
  "truthy x \<longrightarrow> isString x \<Longrightarrow> \<exists>s. escapeHTMLTagContent x = Inr (JStr s)"
  by (cases x) (auto simp: escapeHTMLTagContent_def stringReceiver_def isString_def)

lemma escapeHTMLAttribute_ok:
  "truthy x \<longrightarrow> isString x \<Longrightarrow> \<exists>s. escapeHTMLAttribute x = Inr (JStr s)"
  by (cases x) (auto simp: escapeHTMLAttribute_def stringReceiver_def isString_def)

lemma htmlVariables_ok:
  assumes c: "conforms cfg (stage env sh)" and b: "buildS sh = build2"
    and n: "truthy (appPkg_productName env) \<longrightarrow> isString (appPkg_productName env)"
    and d: "truthy (appPkg_description env) \<longrightarrow> isString (appPkg_description env)"
  shows "\<exists>cfg'. pass_htmlVariables env cfg = Inr cfg' \<and> conforms cfg' (stage env sh)"
proof -
  from escapeHTMLTagContent_ok [OF n] obtain pn
    where pn: "escapeHTMLTagContent (appPkg_productName env) = Inr (JStr pn)" by blast
  from escapeHTMLAttribute_ok [OF d] obtain pd
    where pd: "escapeHTMLAttribute (appPkg_description env) = Inr (JStr pd)" by blast
  from c b show ?thesis
    unfolding pass_htmlVariables_def mergeDefaultsAt_def stage_def build2_def
    by (clarsimp simp: pn pd)
qed

subsection \<open>Binding the address on the defaults\<close>

lemmas run_defs = bindA_def andThen_def ret_def lift_def emit_def getState_def modify_def

lemma stage_devServer:
  "conforms (JObj kv) (stage env sh)
   \<Longrightarrow> \<forall>k. k \<noteq> ''devServer'' \<longrightarrow> lookup kv' k = lookup kv k
   \<Longrightarrow> conforms (lookup kv' ''devServer'') D
   \<Longrightarrow> conforms (JObj kv') (stage env (sh\<lparr>devServerS := D\<rparr>))"
  by (simp add: stage_def)

lemma stageD_devServer:
  "conforms (JObj kv) (stage env sh) \<Longrightarrow> conforms (lookup kv ''devServer'') (devServerS sh)"
  by (simp add: stage_def)

lemma stageD_ssr:
  "conforms (JObj kv) (stage env sh)
   \<Longrightarrow> \<exists>r. lookup kv ''ssr'' = JObj r \<and> lookup r ''pwa'' \<noteq> JBool True"
  by (clarsimp simp: stage_def)

lemma externalHost_ok:
  "\<exists>h' s'. externalHost env (JStr hs) mode s = (Ok (JStr h'), s') \<and> address s' = address s"
  unfolding externalHost_def
  by (auto simp: run_defs stringReceiver_def split: option.splits)

lemma onAddress_ok:
  assumes "\<forall>p h. \<exists>q. findClosestOpenPort env p h = Inr q"
  shows "\<exists>h' p' s'. onAddress env (JStr hs) p mode s
                       = (Ok (JObj [(''host'', JStr h'), (''port'', p')]), s')
                     \<and> address s' = address s"
proof -
  from externalHost_ok obtain h' s1
    where e: "externalHost env (JStr hs) mode s = (Ok (JStr h'), s1)" and a: "address s1 = address s"
    by blast
  from assms obtain q where q: "findClosestOpenPort env p (JStr h') = Inr q" by blast
  show ?thesis
    unfolding onAddress_def
    by (simp add: run_defs e q a emitAll.simps)
qed

lemma negotiate_ok:
  assumes ports: "\<forall>p h. \<exists>q. findClosestOpenPort env p h = Inr q"
    and ds: "lookup kv ''devServer'' = JObj ds"
  shows "\<exists>kv' ds' h' s'. negotiate env fl (JObj kv) (JStr hs) p s = (Ok (JObj kv'), s')
           \<and> (\<forall>k. k \<noteq> ''devServer'' \<longrightarrow> lookup kv' k = lookup kv k)
           \<and> lookup kv' ''devServer'' = JObj ds'
           \<and> lookup ds' ''host'' = JStr h'
           \<and> (\<forall>k. k \<notin> {''host'', ''port'', ''open''} \<longrightarrow> lookup ds' k = lookup ds k)
           \<and> typedCache s'"
proof (cases "strictEq (opts_verifyAddress env) (JBool True)")
  case True
  from onAddress_ok [OF ports] obtain h' p' s1
    where o: "onAddress env (JStr hs) p (ctx_modeName env) s
              = (Ok (JObj [(''host'', JStr h'), (''port'', p')]), s1)"
    by blast
  show ?thesis
    unfolding negotiate_def
    using True by (simp add: run_defs o ds typedCache_def isString_def)
next
  case False
  then show ?thesis
    unfolding negotiate_def
    by (simp add: run_defs ds typedCache_def isString_def)
qed

lemma bindAddress_ok:
  assumes ports: "\<forall>p h. \<exists>q. findClosestOpenPort env p h = Inr q"
    and ds: "lookup kv ''devServer'' = JObj ds" and h: "lookup ds ''host'' = JStr hs"
    and t: "typedCache s"
  shows "\<exists>kv' ds' h' s'. pass_bindAddress env fl (JObj kv) s = (Ok (JObj kv'), s')
           \<and> (\<forall>k. k \<noteq> ''devServer'' \<longrightarrow> lookup kv' k = lookup kv k)
           \<and> lookup kv' ''devServer'' = JObj ds'
           \<and> lookup ds' ''host'' = JStr h'
           \<and> (\<forall>k. k \<notin> {''host'', ''port'', ''open''} \<longrightarrow> lookup ds' k = lookup ds k)
           \<and> typedCache s'"
proof -
  note n = negotiate_ok [OF ports ds, of fl hs "lookup ds ''port''" s]
  show ?thesis
  proof (cases "address s")
    case None
    with n show ?thesis
      unfolding pass_bindAddress_def by (simp add: run_defs ds h)
  next
    case (Some c)
    show ?thesis
    proof (cases "strictEq (from_host c) (JStr hs) \<and> strictEq (from_port c) (lookup ds ''port'')")
      case False
      with n Some show ?thesis
        unfolding pass_bindAddress_def by (auto simp: run_defs ds h)
    next
      case True
      from t Some obtain th where "to_host c = JStr th"
        by (cases "to_host c") (auto simp: typedCache_def isString_def)
      with True Some t show ?thesis
        unfolding pass_bindAddress_def by (simp add: run_defs ds h)
    qed
  qed
qed

lemma requestedAddress_ok:
  assumes host: "truthy (opts_host env) \<longrightarrow> isString (opts_host env)"
    and port: "\<not> truthy (opts_port env) \<longrightarrow> defaultPortMapping (ctx_modeName env) \<noteq> None"
    and ds: "lookup kv ''devServer'' = JObj [(''server'', JObj [])]"
    and r: "lookup kv ''ssr'' = JObj r"
  shows "\<exists>kv' ds' h' s'. pass_requestedAddress env (JObj kv) s = (Ok (JObj kv'), s')
           \<and> (\<forall>k. k \<noteq> ''devServer'' \<longrightarrow> lookup kv' k = lookup kv k)
           \<and> lookup kv' ''devServer'' = JObj ds'
           \<and> lookup ds' ''host'' = JStr h'
           \<and> (\<forall>k. k \<notin> {''host'', ''port''} \<longrightarrow> lookup ds' k = lookup [(''server'', JObj [])] k)
           \<and> address s' = address s"
proof -
  show ?thesis
  proof (cases "truthy (opts_host env)")
    case True
    with host obtain h where "opts_host env = JStr h"
      by (cases "opts_host env") (auto simp: isString_def)
    with True port show ?thesis
      unfolding pass_requestedAddress_def setIfFalsy_def defaultPort_def
      by (auto simp: run_defs ds r)
  next
    case False
    with port show ?thesis
      unfolding pass_requestedAddress_def setIfFalsy_def defaultPort_def
      by (auto simp: run_defs ds r)
  qed
qed

subsection \<open>The address cache\<close>

lemma bindAddress_fresh:
  assumes a: "address s = None"
    and v: "opts_verifyAddress env = JBool True"
    and m: "ctx_modeName env \<noteq> ''cordova''" "ctx_modeName env \<noteq> ''capacitor''"
    and q: "findClosestOpenPort env (JNum p) (JStr h) = Inr (JNum q)"
    and ds: "lookup kv ''devServer'' = JObj ds"
    and h: "lookup ds ''host'' = JStr h" and p: "lookup ds ''port'' = JNum p"
  shows "\<exists>cfg' s'. pass_bindAddress env fl (JObj kv) s = (Ok cfg', s')
           \<and> getPath cfg' [''devServer'', ''host''] = Inr (JStr h)
           \<and> getPath cfg' [''devServer'', ''port''] = Inr (JNum q)"
  unfolding pass_bindAddress_def negotiate_def onAddress_def externalHost_def
  by (simp add: run_defs a v m q ds h p emitAll.simps)

text \<open>
  C7. When a request for a host and a port, both primitive values, has been bound, a later
  request for the same host and port in a session whose cache still holds that binding is
  answered from the cache: it returns the host and the port that the first one bound, and
  it leaves the session as it was, so that no port was probed and no host resolved again.
  This holds whatever the environment of the second request is.
\<close>

theorem C7_address_cache:
  assumes first: "pass_bindAddress env fl cfg s = (Ok cfg', s')"
    and h1: "getPath cfg [''devServer'', ''host''] = Inr h"
    and p1: "getPath cfg [''devServer'', ''port''] = Inr p"
    and prim: "\<not> isObject h" "\<not> isObject p"
    and same: "address sB = address s'"
    and cfg2: "cfgB = JObj kv" "lookup kv ''devServer'' = JObj ds"
    and h2: "lookup ds ''host'' = h"
    and p2: "lookup ds ''port'' = p"
  shows "\<exists>cfgB'. pass_bindAddress envB flB cfgB sB = (Ok cfgB', sB)
           \<and> getPath cfgB' [''devServer'', ''host''] = getPath cfg' [''devServer'', ''host'']
           \<and> getPath cfgB' [''devServer'', ''port''] = getPath cfg' [''devServer'', ''port'']"
  using assms by (rule address_cache_aux)

theorem C7_address_cache_witness:
  "\<exists>cfg1' s1' cfg2'.
      pass_bindAddress busyEnv True requestCfg (startSession False None False) = (Ok cfg1', s1')
      \<and> getPath cfg1' [''devServer'', ''host''] = Inr (JStr ''0.0.0.0'')
      \<and> getPath cfg1' [''devServer'', ''port''] = Inr (JNum 9001)
      \<and> pass_bindAddress exampleEnv False requestCfg s1' = (Ok cfg2', s1')
      \<and> getPath cfg2' [''devServer'', ''host''] = Inr (JStr ''0.0.0.0'')
      \<and> getPath cfg2' [''devServer'', ''port''] = Inr (JNum 9001)"
proof -
  have "\<exists>cfg' s'. pass_bindAddress busyEnv True
            (JObj [(''devServer'', JObj [(''host'', JStr ''0.0.0.0''), (''port'', JNum 9000)])])
            (startSession False None False) = (Ok cfg', s')
           \<and> getPath cfg' [''devServer'', ''host''] = Inr (JStr ''0.0.0.0'')
           \<and> getPath cfg' [''devServer'', ''port''] = Inr (JNum 9001)"
    by (rule bindAddress_fresh
          [where ds = "[(''host'', JStr ''0.0.0.0''), (''port'', JNum 9000)]" and p = 9000])
       (simp_all add: busyEnv_def exampleEnv_def startSession_def)
  then obtain cfg1' s1'
    where f: "pass_bindAddress busyEnv True requestCfg (startSession False None False) = (Ok cfg1', s1')"
      and h: "getPath cfg1' [''devServer'', ''host''] = Inr (JStr ''0.0.0.0'')"
      and p: "getPath cfg1' [''devServer'', ''port''] = Inr (JNum 9001)"
    by (auto simp: requestCfg_def)
  have "\<exists>cfg2'. pass_bindAddress exampleEnv False requestCfg s1' = (Ok cfg2', s1')
           \<and> getPath cfg2' [''devServer'', ''host''] = getPath cfg1' [''devServer'', ''host'']
           \<and> getPath cfg2' [''devServer'', ''port''] = getPath cfg1' [''devServer'', ''port'']"
    by (rule C7_address_cache
          [OF f, where h = "JStr ''0.0.0.0''" and p = "JNum 9000" and sB = s1'
             and kv = "[(''devServer'', JObj [(''host'', JStr ''0.0.0.0''), (''port'', JNum 9000)])]"
             and ds = "[(''host'', JStr ''0.0.0.0''), (''port'', JNum 9000)]"])
       (simp_all add: requestCfg_def isObject_def)
  with f h p show ?thesis by auto
qed

subsection \<open>The passes that act on the session, on the defaults\<close>

lemma devServerAddress_ok:
  assumes c: "conforms cfg (stage env sh)" and d: "devServerS sh = devServer0"
    and ports: "\<forall>p h. \<exists>q. findClosestOpenPort env p h = Inr q"
    and host: "truthy (opts_host env) \<longrightarrow> isString (opts_host env)"
    and port: "ctx_dev env \<and> \<not> ctx_mode_bex env \<and> \<not> truthy (opts_port env)
               \<longrightarrow> defaultPortMapping (ctx_modeName env) \<noteq> None"
    and t: "typedCache s"
  shows "\<exists>cfg' s'. pass_devServerAddress env fl cfg s = (Ok cfg', s')
           \<and> conforms cfg' (stage env (sh\<lparr>devServerS := devServer1 env\<rparr>))
           \<and> typedCache s'"
proof -
  from c obtain kv where cfg: "cfg = JObj kv" by (auto dest: stage_obj)
  note c' = c [unfolded cfg]
  from stageD_devServer [OF c'] d have ds: "lookup kv ''devServer'' = JObj [(''server'', JObj [])]"
    by (simp add: devServer0_def)
  show ?thesis
  proof (cases "ctx_dev env \<and> \<not> ctx_mode_bex env")
    case False
    then have "conforms (lookup kv ''devServer'') (devServer1 env)"
      by (auto simp: ds devServer1_def hostShape_def)
    with stage_devServer [OF c', of kv] have "conforms (JObj kv) (stage env (sh\<lparr>devServerS := devServer1 env\<rparr>))"
      by simp
    moreover from False have "pass_devServerAddress env fl cfg s = (Ok cfg, s)"
      by (auto simp: pass_devServerAddress_def ret_def)
    ultimately show ?thesis
      using t cfg by simp
  next
    case True
    from stageD_ssr [OF c'] obtain r where r: "lookup kv ''ssr'' = JObj r" by blast
    from True port have port': "\<not> truthy (opts_port env) \<longrightarrow> defaultPortMapping (ctx_modeName env) \<noteq> None"
      by simp
    from requestedAddress_ok [OF host port' ds r, of s] obtain kv1 ds1 h1 s1
      where r1: "pass_requestedAddress env (JObj kv) s = (Ok (JObj kv1), s1)"
        and f1: "\<forall>k. k \<noteq> ''devServer'' \<longrightarrow> lookup kv1 k = lookup kv k"
        and d1: "lookup kv1 ''devServer'' = JObj ds1"
        and h1: "lookup ds1 ''host'' = JStr h1"
        and g1: "\<forall>k. k \<notin> {''host'', ''port''} \<longrightarrow> lookup ds1 k = lookup [(''server'', JObj [])] k"
        and a1: "address s1 = address s"
      by (elim exE conjE) (rule that)
    from t a1 have t1: "typedCache s1" by (simp add: typedCache_def)
    from bindAddress_ok [OF ports d1 h1 t1, of fl] obtain kv2 ds2 h2 s2
      where r2: "pass_bindAddress env fl (JObj kv1) s1 = (Ok (JObj kv2), s2)"
        and f2: "\<forall>k. k \<noteq> ''devServer'' \<longrightarrow> lookup kv2 k = lookup kv1 k"
        and d2: "lookup kv2 ''devServer'' = JObj ds2"
        and h2: "lookup ds2 ''host'' = JStr h2"
        and g2: "\<forall>k. k \<notin> {''host'', ''port'', ''open''} \<longrightarrow> lookup ds2 k = lookup ds1 k"
        and t2: "typedCache s2"
      by (elim exE conjE) (rule that)
    from f1 f2 have f: "\<forall>k. k \<noteq> ''devServer'' \<longrightarrow> lookup kv2 k = lookup kv k" by simp
    from g1 g2 have g: "\<forall>k. k \<notin> {''host'', ''port'', ''open''} \<longrightarrow> lookup ds2 k = lookup [(''server'', JObj [])] k"
      by simp
    from True h2 have "conforms (lookup kv2 ''devServer'') (devServer1 env)"
      by (simp add: d2 devServer1_def hostShape_def g)
    from stage_devServer [OF c' f this] r1 r2 t2 True cfg show ?thesis
      by (simp add: pass_devServerAddress_def bindA_def)
  qed
qed

lemma filesValidation_ok:
  assumes c: "conforms cfg (stage env sh)" and v: "\<forall>sf. appFilesValidations env sf"
    and t: "typedCache s"
  shows "\<exists>cfg' s'. pass_filesValidation env fl cfg s = (Ok cfg', s')
           \<and> conforms cfg' (stage env sh) \<and> typedCache s'"
proof -
  from c obtain kv where cfg: "cfg = JObj kv" by (auto dest: stage_obj)
  with c v t show ?thesis
    by (simp add: pass_filesValidation_def run_defs)
qed

lemma https_ok:
  assumes c: "conforms cfg (stage env sh)" and d: "devServerS sh = devServer1 env"
    and t: "typedCache s"
  shows "\<exists>cfg' s'. pass_https env cfg s = (Ok cfg', s')
           \<and> conforms cfg' (stage env sh) \<and> typedCache s'"
proof -
  from c obtain kv where cfg: "cfg = JObj kv" by (auto dest: stage_obj)
  from stageD_devServer [OF c [unfolded cfg]] d
  have "\<exists>ds. lookup kv ''devServer'' = JObj ds \<and> lookup ds ''server'' = JObj []"
    by (clarsimp simp: devServer1_def)
  with c t cfg show ?thesis
    by (auto simp: pass_https_def run_defs)
qed

lemma ssr_ok:
  assumes c: "conforms cfg (stage env sh)" and t: "typedCache s"
  shows "\<exists>cfg' s'. pass_ssr env cfg s = (Ok cfg', s')
           \<and> conforms cfg' (stage env sh) \<and> typedCache s'"
  using assms unfolding pass_ssr_def normalizeAt_def stage_def
  by (clarsimp simp: run_defs typedCache_def)

lemma fileEnv_ok:
  assumes c: "conforms cfg (stage env sh)" and t: "typedCache s"
  shows "\<exists>cfg' s'. pass_fileEnv env cfg s = (Ok cfg', s')
           \<and> conforms cfg' (stage env sh) \<and> typedCache s'"
  using assms unfolding pass_fileEnv_def stage_def
  by (clarsimp simp: run_defs typedCache_def split: prod.splits)

lemma typedCache_update [simp]:
  "typedCache (s\<lparr>trace := tr\<rparr>) = typedCache s"
  "typedCache (s\<lparr>vueDevtools := v\<rparr>) = typedCache s"
  "typedCache (s\<lparr>electronInspectPort := e\<rparr>) = typedCache s"
  "typedCache (s\<lparr>modePwa := b\<rparr>) = typedCache s"
  by (simp_all add: typedCache_def)

lemma vueDevtools_ok:
  assumes c: "conforms cfg (stage env sh)" and d: "devServerS sh = devServer2 env"
    and ports: "\<forall>p h. \<exists>q. findClosestOpenPort env p h = Inr q"
    and nb: "\<not> (ctx_dev env \<and> ctx_mode_bex env \<and> ctx_vueDevtools env = JBool True)"
    and t: "typedCache s"
  shows "\<exists>cfg' s'. pass_vueDevtools env cfg s = (Ok cfg', s')
           \<and> conforms cfg' (stage env sh) \<and> typedCache s'"
proof (cases "ctx_dev env \<and> ctx_vueDevtools env = JBool True")
  case False
  with c d t show ?thesis
    unfolding pass_vueDevtools_def stage_def devServer2_def
    by (clarsimp simp: run_defs)
next
  case True
  with nb have nbex: "\<not> ctx_mode_bex env" by simp
  from ports obtain q where q: "findClosestOpenPort env (JNum 11111) (JStr ''0.0.0.0'') = Inr q"
    by blast
  from c d t True nbex show ?thesis
    unfolding pass_vueDevtools_def stage_def devServer2_def hostShape_def
    by (clarsimp simp: run_defs q stringReceiver_def Let_def split: option.splits)
qed

lemma pwa_ok:
  assumes c: "conforms cfg (stage env sh)" and b: "buildS sh = build2"
    and f: "sourceFilesS sh = sourceFiles1" and p: "pwaS sh = Exactly (JObj [])"
    and t: "typedCache s"
  shows "\<exists>cfg' s'. pass_pwa env fl cfg s = (Ok cfg', s')
           \<and> conforms cfg' (stage env (sh\<lparr>sourceFilesS := AnObject [], pwaS := AnObject []\<rparr>))
           \<and> typedCache s'"
  using assms
  unfolding pass_pwa_def pwaFiles_def mergeDefaultsAt_def stage_def build2_def sourceFiles1_def
  by (clarsimp simp: run_defs needString_def includesStr_def Let_def)

lemma userElectron_empty [simp]: "userElectron (JObj []) k = Inr JUndefined"
  by (simp add: userElectron_def)

lemma electronDev_ok:
  assumes c: "conforms cfg (stage env sh)"
    and ports: "\<forall>p h. \<exists>q. findClosestOpenPort env p h = Inr q"
    and t: "typedCache s"
  shows "\<exists>cfg' s'. electronDev env (JObj []) cfg s = (Ok cfg', s')
           \<and> conforms cfg' (stage env sh) \<and> typedCache s'"
proof -
  from ports obtain q where q: "findClosestOpenPort env (JNum 5858) (JStr ''127.0.0.1'') = Inr q"
    by blast
  from c t show ?thesis
    unfolding electronDev_def stage_def
    by (clarsimp simp: run_defs q Let_def split: option.splits)
qed

lemma electronBundler_ok:
  assumes c: "conforms cfg (stage env sh)"
  shows "\<exists>cfg'. electronBundler cfg = Inr cfg' \<and> conforms cfg' (stage env sh)"
  using c unfolding electronBundler_def stage_def
  by (clarsimp simp: includesStr_def)

lemma bind_lift_ok:
  assumes "\<exists>x. a = Inr x \<and> P x"
    and "\<And>x. P x \<Longrightarrow> \<exists>y s'. f x s = (Ok y, s') \<and> Q y s'"
  shows "\<exists>y s'. bindA (lift a) f s = (Ok y, s') \<and> Q y s'"
  using assms by (auto simp: bindA_def lift_def)

lemma stage_electron:
  "conforms (JObj kv) (stage env sh)
   \<Longrightarrow> \<forall>k. k \<noteq> ''electron'' \<longrightarrow> lookup kv' k = lookup kv k
   \<Longrightarrow> lookup kv' ''electron'' = JObj el \<Longrightarrow> lookup el ''packager'' = JObj a
   \<Longrightarrow> lookup el ''builder'' = JObj b
   \<Longrightarrow> conforms (JObj kv') (stage env sh)"
  by (simp add: stage_def)

lemma stageD_electron:
  "conforms (JObj kv) (stage env sh)
   \<Longrightarrow> \<exists>el a b. lookup kv ''electron'' = JObj el \<and> lookup el ''packager'' = JObj a
          \<and> lookup el ''builder'' = JObj b"
  by (clarsimp simp: stage_def)

lemma stageD_ctx:
  "conforms (JObj kv) (stage env sh) \<Longrightarrow> \<exists>x. lookup kv ''ctx'' = JObj x"
  by (clarsimp simp: stage_def)

lemma electronMerge_ok:
  assumes c: "conforms cfg (stage env sh)" and b: "buildS sh = build2"
  shows "\<exists>x. ebind (getPath cfg [''build'', ''distDir''])
           (\<lambda>d. ebind (getp cfg ''electron'')
              (\<lambda>el. ebind (needString ''join'' d)
                 (\<lambda>dist.
                    let icon = resolve_electron env ''icons/icon.png'';
                        builderIcon =
                          (if process_platform env = ''linux''
                           then (if existsSync env icon then icon
                                 else resolve_electron env ''icons/linux-512x512.png'')
                           else resolve_electron env ''icons/icon'');
                        productName =
                          (if truthy (appPkg_productName env) then appPkg_productName env
                           else if truthy (appPkg_name env) then appPkg_name env
                           else JStr ''Quasar App'')
                    in ebind
                         (merge [(''packager'', JObj [(''asar'', JBool True),
                                    (''icon'', JStr (resolve_electron env ''icons/icon'')),
                                    (''overwrite'', JBool True)]),
                                 (''builder'', JObj [(''appId'', JStr ''quasar-app''),
                                    (''icon'', JStr builderIcon),
                                    (''productName'', productName),
                                    (''directories'',
                                       JObj [(''buildResources'', JStr (resolve_electron env []))])])]
                            [el,
                             JObj [(''packager'',
                                      JObj [(''dir'', JStr (path_join env dist ''UnPackaged'')),
                                            (''out'', JStr (path_join env dist ''Packaged''))]),
                                   (''builder'',
                                      JObj [(''directories'',
                                         JObj [(''app'', JStr (path_join env dist ''UnPackaged'')),
                                               (''output'', JStr (path_join env dist ''Packaged''))])])]])
                         (\<lambda>m. ebind (setp cfg ''electron'' m)
                            (\<lambda>cfg1. ebind (getPath cfg1 [''ctx'', ''bundlerName''])
                               (\<lambda>bn. if truthy bn
                                      then setPath cfg1 [''electron'', ''bundler''] bn
                                      else setIfFalsy [''electron'', ''bundler'']
                                             (electron_defaultName env) cfg1)))))) = Inr x
        \<and> conforms x (stage env sh)"
    (is "\<exists>x. ?E cfg = Inr x \<and> _")
proof -
  from c obtain kv where cfg: "cfg = JObj kv" by (auto dest: stage_obj)
  note c' = c [unfolded cfg]
  from stageD_build [OF c'] b obtain bd d where bd: "lookup kv ''build'' = JObj bd"
    "lookup bd ''distDir'' = JStr d"
    by (auto simp: build2_def)
  from stageD_electron [OF c'] obtain el pk bl where el: "lookup kv ''electron'' = JObj el"
    "lookup el ''packager'' = JObj pk" "lookup el ''builder'' = JObj bl"
    by (elim exE conjE) (rule that)
  from stageD_ctx [OF c'] obtain cx where cx: "lookup kv ''ctx'' = JObj cx" by blast
  have "\<exists>kv' el' a b. ?E (JObj kv) = Inr (JObj kv')
          \<and> (\<forall>k. k \<noteq> ''electron'' \<longrightarrow> lookup kv' k = lookup kv k)
          \<and> lookup kv' ''electron'' = JObj el' \<and> lookup el' ''packager'' = JObj a
          \<and> lookup el' ''builder'' = JObj b"
    by (simp add: bd el cx needString_def Let_def setIfFalsy_def)
  then obtain kv' el' a b' where "?E (JObj kv) = Inr (JObj kv')"
    and "\<forall>k. k \<noteq> ''electron'' \<longrightarrow> lookup kv' k = lookup kv k"
    and "lookup kv' ''electron'' = JObj el'" and "lookup el' ''packager'' = JObj a"
    and "lookup el' ''builder'' = JObj b'"
    by (elim exE conjE) (rule that)
  with stage_electron [OF c'] cfg show ?thesis by blast
qed

lemma electronProd_ok:
  assumes c: "conforms cfg (stage env sh)" and b: "buildS sh = build2" and t: "typedCache s"
  shows "\<exists>cfg' s'. electronProd env cfg s = (Ok cfg', s')
           \<and> conforms cfg' (stage env sh) \<and> typedCache s'"
  unfolding electronProd_def
proof (rule bind_lift_ok [where P = "\<lambda>c. conforms c (stage env sh)", OF electronMerge_ok [OF c b]])
  fix x assume x: "conforms x (stage env sh)"
  from electronBundler_ok [OF x] obtain y where y: "electronBundler x = Inr y"
    and cy: "conforms y (stage env sh)" by blast
  from x have "\<exists>v. getPath x [''electron'', ''bundler''] = Inr v"
    by (clarsimp simp: stage_def)
  then obtain v where v: "getPath x [''electron'', ''bundler''] = Inr v" by blast
  from cy t show "\<exists>cfg' s'.
        bindA (lift (getPath x [''electron'', ''bundler'']))
          (\<lambda>bundler. andThen (emit (EnsureElectronArgv bundler))
             (bindA (lift (electronBundler x))
                (\<lambda>cfg3. andThen (emit (EnsureInstall bundler)) (ret cfg3)))) s = (Ok cfg', s')
        \<and> conforms cfg' (stage env sh) \<and> typedCache s'"
    by (simp add: run_defs v y)
qed

lemma electron_ok:
  assumes c: "conforms cfg (stage env sh)" and b: "buildS sh = build2"
    and ports: "\<forall>p h. \<exists>q. findClosestOpenPort env p h = Inr q"
    and t: "typedCache s"
  shows "\<exists>cfg' s'. pass_electron env (JObj []) cfg s = (Ok cfg', s')
           \<and> conforms cfg' (stage env sh) \<and> typedCache s'"
proof (cases "ctx_mode_electron env")
  case False
  with c t show ?thesis by (simp add: pass_electron_def ret_def)
next
  case True
  from c have "\<exists>x. setPath cfg [''electron'', ''preloadScripts''] (JArr [JStr ''electron-preload'']) = Inr x
                 \<and> conforms x (stage env sh)"
    by (clarsimp simp: stage_def)
  then obtain x where x: "setPath cfg [''electron'', ''preloadScripts''] (JArr [JStr ''electron-preload'']) = Inr x"
    and cx: "conforms x (stage env sh)" by blast
  from electronDev_ok [OF cx ports t] electronProd_ok [OF cx b t] True show ?thesis
    by (simp add: pass_electron_def bindA_def lift_def x)
qed

subsection \<open>The derivation on the defaults\<close>

lemma yieldsI:
  "(\<And>cfg s. P cfg \<Longrightarrow> typedCache s
      \<Longrightarrow> \<exists>cfg' s'. m cfg s = (Ok cfg', s') \<and> Q cfg' \<and> typedCache s')
   \<Longrightarrow> yields P m Q"
  by (simp add: yields_def)

lemma bindA_assoc: "bindA (bindA m f) g = bindA m (\<lambda>a. bindA (f a) g)"
  by (rule ext) (simp add: bindA_def split: prod.splits outcome.splits)

lemma chain_append: "chain (ps @ qs) cfg = bindA (chain ps cfg) (chain qs)"
proof (induction ps arbitrary: cfg)
  case Nil
  show ?case by (rule ext) (simp add: bindA_def ret_def)
next
  case (Cons p ps)
  then have "chain (ps @ qs) = (\<lambda>c. bindA (chain ps c) (chain qs))" by (intro ext) simp
  then show ?case by (simp add: bindA_assoc)
qed

lemma yieldsD:
  "yields P m Q \<Longrightarrow> P cfg \<Longrightarrow> typedCache s
   \<Longrightarrow> \<exists>cfg' s'. m cfg s = (Ok cfg', s') \<and> Q cfg' \<and> typedCache s'"
  by (simp add: yields_def)

lemma yields_chain_append:
  assumes a: "yields P (chain ps) Q" and b: "yields Q (chain qs) T"
  shows "yields P (chain (ps @ qs)) T"
proof (rule yieldsI)
  fix cfg s assume p: "P cfg" and t: "typedCache s"
  from yieldsD [OF a p t] obtain c1 s1 where 1: "chain ps cfg s = (Ok c1, s1)" "Q c1" "typedCache s1"
    by (elim exE conjE) (rule that)
  from yieldsD [OF b 1(2,3)] obtain c2 s2 where 2: "chain qs c1 s1 = (Ok c2, s2)" "T c2" "typedCache s2"
    by (elim exE conjE) (rule that)
  from 1 2 show "\<exists>cfg' s'. chain (ps @ qs) cfg s = (Ok cfg', s') \<and> T cfg' \<and> typedCache s'"
    by (simp add: chain_append bindA_def)
qed

lemma prefix_ok:
  assumes ports: "\<forall>p h. \<exists>q. findClosestOpenPort env p h = Inr q"
    and host: "truthy (opts_host env) \<longrightarrow> isString (opts_host env)"
    and port: "ctx_dev env \<and> \<not> ctx_mode_bex env \<and> \<not> truthy (opts_port env)
               \<longrightarrow> defaultPortMapping (ctx_modeName env) \<noteq> None"
  shows "yields (\<lambda>c. conforms c (stage env (initialShapes env)))
           (chain (take 14 (passes env u fl)))
           (\<lambda>c. conforms c (stage env (validationShapes env)))"
  unfolding passes_def
  apply simp
  apply (rule yields_chain_Cons, rule yields_pure, erule ssrDefaults_ok)
  apply (rule yields_chain_Cons, rule yieldsI, erule devServerAddress_ok)
       apply (simp_all add: initialShapes_def ports host port)[5]
  apply (rule yields_chain_Cons, rule yields_pure, erule assets_ok)
  apply (rule yields_chain_Cons, rule yields_pure, erule componentCase_ok)
  apply (rule yields_chain_Cons, rule yields_pure, erule framework_ok)
  apply (rule yields_chain_Cons, rule yields_pure, erule eslint_ok)
  apply (rule yields_chain_Cons, rule yields_pure, erule build_ok, simp add: initialShapes_def)
  apply (rule yields_chain_Cons, rule yields_pure, erule vendor_ok, simp add: initialShapes_def)
  apply (rule yields_chain_Cons, rule yields_pure, erule transpile_ok, simp)
  apply (rule yields_chain_Cons, rule yields_pure, erule esbuildTarget_ok, simp)
  apply (rule yields_chain_Cons, rule yields_pure, erule routerMode_ok, simp)
  apply (rule yields_chain_Cons, rule yields_pure, erule distDir_ok, simp)
  apply (rule yields_chain_Cons, rule yields_pure, erule publicPath_ok, simp)
  apply (rule yields_chain_Cons, rule yields_pure, erule sourceFiles_ok, simp add: initialShapes_def)
  apply (rule yields_chain_Nil)
  apply (simp add: initialShapes_def validationShapes_def)
  done

lemma final_documented:
  "conforms cfg (stage env (finalShapes env)) \<Longrightarrow> conforms cfg documentedSchema"
  by (clarsimp simp: stage_def finalShapes_def documentedSchema_def devServer2_def build2_def)

lemma suffix_ok:
  assumes valid: "\<forall>sf. appFilesValidations env sf"
    and ports: "\<forall>p h. \<exists>q. findClosestOpenPort env p h = Inr q"
    and name: "truthy (appPkg_productName env) \<longrightarrow> isString (appPkg_productName env)"
    and descr: "truthy (appPkg_description env) \<longrightarrow> isString (appPkg_description env)"
    and nb: "\<not> (ctx_dev env \<and> ctx_mode_bex env \<and> ctx_vueDevtools env = JBool True)"
  shows "yields (\<lambda>c. conforms c (stage env (validationShapes env)))
           (chain (drop 14 (passes env (JObj []) fl)))
           (\<lambda>c. conforms c (stage env (finalShapes env)))"
  unfolding passes_def
  apply simp
  apply (rule yields_chain_Cons, rule yieldsI, erule filesValidation_ok)
    apply (simp_all add: valid)[2]
  apply (rule yields_chain_Cons, rule yields_pure, erule store_ok, simp add: validationShapes_def)
  apply (rule yields_chain_Cons, rule yields_pure, erule serverType_ok, simp add: validationShapes_def)
  apply (rule yields_chain_Cons, rule yieldsI, erule https_ok)
    apply (simp_all add: validationShapes_def)[2]
  apply (rule yields_chain_Cons, rule yieldsI, erule ssr_ok, assumption)
  apply (rule yields_chain_Cons, rule yields_pure, erule devServerDefaults_ok)
    apply (simp_all add: validationShapes_def)[2]
  apply (rule yields_chain_Cons, rule yieldsI, erule vueDevtools_ok)
      apply (simp_all add: ports nb)[4]
  apply (rule yields_chain_Cons, rule yields_pure, erule openBrowser_ok, simp)
  apply (rule yields_chain_Cons, rule yields_pure, erule gzip_ok, simp add: validationShapes_def)
  apply (rule yields_chain_Cons, rule yieldsI, erule pwa_ok)
      apply (simp_all add: validationShapes_def)[4]
  apply (rule yields_chain_Cons, rule yields_pure, erule appUrl_ok)
    apply (simp_all add: validationShapes_def)[2]
  apply (rule yields_chain_Cons, rule yields_pure, erule buildEnv_ok, simp add: validationShapes_def)
  apply (rule yields_chain_Cons, rule yieldsI, erule fileEnv_ok, assumption)
  apply (rule yields_chain_Cons, rule yieldsI, erule electron_ok)
     apply (simp_all add: validationShapes_def ports)[3]
  apply (rule yields_chain_Cons, rule yields_pure, erule htmlVariables_ok)
     apply (simp_all add: validationShapes_def name descr)[3]
  apply (rule yields_chain_Nil)
  apply (simp add: validationShapes_def finalShapes_def)
  done

lemma typedCache_file [simp]:
  "typedCache (s\<lparr>tempFileExists := b\<rparr>) = typedCache s"
  by (simp add: typedCache_def)

lemma chain_ok:
  assumes "cooperative env"
  shows "yields (\<lambda>c. conforms c (stage env (initialShapes env)))
           (chain (passes env (JObj []) fl))
           (\<lambda>c. conforms c (stage env (finalShapes env)))"
proof -
  have p: "yields (\<lambda>c. conforms c (stage env (initialShapes env)))
           (chain (take 14 (passes env (JObj []) fl)))
           (\<lambda>c. conforms c (stage env (validationShapes env)))"
    using assms by (intro prefix_ok) (simp_all add: cooperative_def)
  have q: "yields (\<lambda>c. conforms c (stage env (validationShapes env)))
           (chain (drop 14 (passes env (JObj []) fl)))
           (\<lambda>c. conforms c (stage env (finalShapes env)))"
    using assms by (intro suffix_ok) (simp_all add: cooperative_def)
  from yields_chain_append [OF p q] show ?thesis by simp
qed

lemma derive_ok:
  assumes c: "cooperative env" and t: "typedCache s"
  shows "\<exists>cfg s'. derive env (JObj []) fl s = (Ok cfg, s')
           \<and> conforms cfg (stage env (finalShapes env)) \<and> typedCache s'"
proof -
  from c have h: "extensionHooks env = []" by (simp add: cooperative_def)
  from yieldsD [OF chain_ok [OF c, of fl] start_ok [of env "modePwa s"] t] show ?thesis
    by (simp add: derive_start [OF h])
qed

lemma computeConfig_empty:
  assumes f: "isFunction fn"
  shows "computeConfig env fn (Inr (JObj [])) fl s
         = derive env (JObj []) fl (s\<lparr>tempFileExists := False, trace := trace s @ [RemoveTempFile]\<rparr>)"
  using f by (simp add: computeConfig_def removeThenDerive_run isObject_def)

lemma validation_fails:
  assumes hooks: "extensionHooks env = []"
    and ports: "\<forall>p h. \<exists>q. findClosestOpenPort env p h = Inr q"
    and host: "truthy (opts_host env) \<longrightarrow> isString (opts_host env)"
    and port: "ctx_dev env \<and> \<not> ctx_mode_bex env \<and> \<not> truthy (opts_port env)
               \<longrightarrow> defaultPortMapping (ctx_modeName env) \<noteq> None"
    and invalid: "\<forall>sf. \<not> appFilesValidations env sf"
    and t: "typedCache s"
  shows "\<exists>s'. derive env (JObj []) True s = (Exited ValidationError, s')"
proof -
  from yieldsD [OF prefix_ok [OF ports host port, of "JObj []" True]
                   start_ok [of env "modePwa s"] t]
  obtain c1 s1 where 1: "chain (take 14 (passes env (JObj []) True))
        (JObj (assign (mergeTo (skeleton env (modePwa s)) []) ''metaConf'' (metaConfInit env))) s
        = (Ok c1, s1)"
    and 2: "conforms c1 (stage env (validationShapes env))" and 3: "typedCache s1"
    by (elim exE conjE) (rule that)
  from 2 obtain kv where kv: "c1 = JObj kv" by (auto dest: stage_obj)
  have d: "drop 14 (passes env (JObj []) True)
           = pass_filesValidation env True # drop 15 (passes env (JObj []) True)"
    by (simp add: passes_def)
  have "chain (take 14 (passes env (JObj []) True) @ drop 14 (passes env (JObj []) True))
          (JObj (assign (mergeTo (skeleton env (modePwa s)) []) ''metaConf'' (metaConfInit env))) s
        = (Exited ValidationError,
           s1\<lparr>trace := trace s1 @ [Fatal ''Files validation not passed successfully'', ProcessExit]\<rparr>)"
    unfolding chain_append d
    by (simp add: bindA_def 1 kv pass_filesValidation_def lift_def invalid failSite_run)
  then show ?thesis
    by (simp add: derive_start [OF hooks])
qed

subsection \<open>The empty configuration\<close>

text \<open>
  C2. When the configuration function returns \<^verbatim>\<open>{}\<close> and the surroundings cooperate
  (no App Extension is installed, the source files pass validation, a free port is always
  found, host, product name and description are strings if given, the mode has a default
  port, and the Vue devtools are not asked for in a browser extension), the derivation
  returns a configuration, whether errors are fatal or not, and in it \<^verbatim>\<open>boot\<close>, \<^verbatim>\<open>css\<close>,
  \<^verbatim>\<open>extras\<close> and \<^verbatim>\<open>animations\<close> are arrays and \<^verbatim>\<open>framework\<close>, \<^verbatim>\<open>vendor\<close>, \<^verbatim>\<open>eslint\<close>,
  \<^verbatim>\<open>sourceFiles\<close>, \<^verbatim>\<open>htmlVariables\<close>, \<^verbatim>\<open>devServer\<close>, \<^verbatim>\<open>build\<close>, \<^verbatim>\<open>ssr\<close>, \<^verbatim>\<open>pwa\<close>,
  \<^verbatim>\<open>electron\<close>, \<^verbatim>\<open>cordova\<close>, \<^verbatim>\<open>capacitor\<close>, \<^verbatim>\<open>bex\<close> and \<^verbatim>\<open>metaConf\<close> are objects. Without
  those conditions the derivation of the empty configuration can fail: it ends at line 899
  when the source files do not pass validation.
\<close>

theorem C2_empty_configuration:
  assumes "cooperative env" and "typedCache s" and "isFunction quasarConfigFn"
  shows "\<exists>cfg s'. computeConfig env quasarConfigFn (Inr (JObj [])) failOnError s = (Ok cfg, s')
           \<and> conforms cfg documentedSchema"
proof -
  from assms(2) have "typedCache (s\<lparr>tempFileExists := False, trace := trace s @ [RemoveTempFile]\<rparr>)"
    by simp
  from derive_ok [OF assms(1) this] final_documented assms(3) show ?thesis
    by (simp add: computeConfig_empty) blast
qed

theorem C2_empty_configuration_witness:
  "cooperative exampleEnv \<and> typedCache (startSession False None False)
   \<and> isFunction (JFunction ''config'')
   \<and> (\<exists>cfg s'. computeConfig exampleEnv (JFunction ''config'') (Inr (JObj [])) True
                   (startSession False None False) = (Ok cfg, s')
         \<and> conforms cfg documentedSchema)"
proof -
  have c: "cooperative exampleEnv"
    by (simp add: cooperative_def exampleEnv_def defaultPortMapping_def isString_def)
  have t: "typedCache (startSession False None False)"
    by (simp add: typedCache_def startSession_def)
  have f: "isFunction (JFunction ''config'')" by (simp add: isFunction_def)
  from C2_empty_configuration [OF c t f, of True] c t f show ?thesis by simp
qed

theorem C2_empty_configuration_counterexample:
  "\<exists>s'. computeConfig invalidEnv (JFunction ''config'') (Inr (JObj [])) True
           (startSession False None False) = (Exited ValidationError, s')"
proof -
  have "\<exists>s'. derive invalidEnv (JObj []) True
                ((startSession False None False)
                   \<lparr>tempFileExists := False,
                    trace := trace (startSession False None False) @ [RemoveTempFile]\<rparr>)
              = (Exited ValidationError, s')"
    by (rule validation_fails)
       (simp_all add: invalidEnv_def exampleEnv_def defaultPortMapping_def isString_def
          typedCache_def startSession_def)
  then show ?thesis
    by (simp add: computeConfig_empty isFunction_def)
qed

end
